theory Spec2Isabelle
  imports Complex_Main
begin

section \<open>Data frames\<close>

text \<open>
  The notebook works on pandas data frames. A cell is a missing value (pandas' NaN), a
  number or a string; numbers are real numbers, the idealisation of the 64-bit floats
  and integers pandas stores. A column has a dtype: \<open>Number\<close> (int64 or float64),
  \<open>Object\<close> (the strings \<open>read_csv\<close> produces) or \<open>Category\<close> with its list of
  categories and the \<open>ordered\<close> flag. A data frame is its row labels (the \<open>Id\<close> column,
  read with \<open>index_col="Id"\<close>) and its columns in order, each label paired with a column.
\<close>

datatype cell = NA | Num real | Str string

datatype dtype = Number | Object | Category "cell list" bool

record series =
  dtype :: dtype
  vals :: "cell list"

record dataframe =
  index :: "int list"
  columns :: "(string \<times> series) list"

datatype error =
  KeyError | TypeError | ValueError | IndexError | AttributeError | NonFinite | Unaligned

text \<open>Sequencing of steps that may raise: the first exception ends the computation.\<close>

definition and_then :: "error + 'a \<Rightarrow> ('a \<Rightarrow> error + 'b) \<Rightarrow> error + 'b" where
  "and_then m f = (case m of Inl e \<Rightarrow> Inl e | Inr x \<Rightarrow> f x)"

definition nrows :: "dataframe \<Rightarrow> nat" where
  "nrows df = length (index df)"

text \<open>
  A frame is well formed when its column labels are pairwise different (\<open>read_csv\<close>
  renames repeated headers) and every column has one cell per row.
\<close>

definition wf_df :: "dataframe \<Rightarrow> bool" where
  "wf_df df \<longleftrightarrow> distinct (map fst (columns df)) \<and>
     list_all (\<lambda>c. length (vals (snd c)) = nrows df) (columns df)"

text \<open>\<open>df[name]\<close>: the column, or KeyError.\<close>

definition getitem :: "dataframe \<Rightarrow> string \<Rightarrow> error + series" where
  "getitem df name =
     (case map_of (columns df) name of None \<Rightarrow> Inl KeyError | Some s \<Rightarrow> Inr s)"

text \<open>\<open>df.name\<close>: the column, or AttributeError.\<close>

definition getattr :: "dataframe \<Rightarrow> string \<Rightarrow> error + series" where
  "getattr df name =
     (case map_of (columns df) name of None \<Rightarrow> Inl AttributeError | Some s \<Rightarrow> Inr s)"

text \<open>\<open>df[name] = s\<close>: replaces the column in place, or appends a new last column.\<close>

fun assign :: "string \<Rightarrow> series \<Rightarrow> (string \<times> series) list \<Rightarrow> (string \<times> series) list" where
  "assign name s [] = [(name, s)]"
| "assign name s (c # cs) =
     (if fst c = name then (name, s) # cs else c # assign name s cs)"

definition setitem :: "dataframe \<Rightarrow> string \<Rightarrow> series \<Rightarrow> dataframe" where
  "setitem df name s = df\<lparr>columns := assign name s (columns df)\<rparr>"

text \<open>\<open>df.rename(columns=m, inplace=True)\<close>.\<close>

definition rename :: "(string \<times> string) list \<Rightarrow> dataframe \<Rightarrow> dataframe" where
  "rename m df =
     df\<lparr>columns := map (\<lambda>c. (case map_of m (fst c) of None \<Rightarrow> fst c | Some n \<Rightarrow> n, snd c))
                        (columns df)\<rparr>"

section \<open>clean\<close>

text \<open>
  \<open>Series.replace(dict)\<close>: every value that is a key of the dictionary becomes the
  value stored under it. \<open>clean\<close> runs on frames fresh from \<open>read_csv\<close>, whose columns
  are numbers or strings, so the dtype stays.
\<close>

definition replace :: "(cell \<times> cell) list \<Rightarrow> series \<Rightarrow> series" where
  "replace m s =
     s\<lparr>vals := map (\<lambda>v. case map_of m v of None \<Rightarrow> v | Some w \<Rightarrow> w) (vals s)\<rparr>"

text \<open>
  \<open>s <= c\<close> for a number \<open>c\<close>: elementwise, False at a missing value. Comparing a
  string with a number raises TypeError, and so does a categorical column.
\<close>

fun is_str :: "cell \<Rightarrow> bool" where
  "is_str (Str _) = True"
| "is_str _ = False"

fun cell_le :: "real \<Rightarrow> cell \<Rightarrow> bool" where
  "cell_le c (Num x) = (x \<le> c)"
| "cell_le c _ = False"

definition le_scalar :: "series \<Rightarrow> real \<Rightarrow> error + bool list" where
  "le_scalar s c =
     (case dtype s of
        Category cs ord \<Rightarrow> Inl TypeError
      | _ \<Rightarrow> if list_ex is_str (vals s) then Inl TypeError
             else Inr (map (cell_le c) (vals s)))"

text \<open>
  \<open>s.where(cond, other)\<close>: keeps the value where \<open>cond\<close> holds and takes the value of
  \<open>other\<close> in the same row elsewhere. Nothing is replaced when \<open>cond\<close> holds everywhere;
  otherwise a replacement of another dtype turns the column into an object column.
\<close>

definition where_series :: "series \<Rightarrow> bool list \<Rightarrow> series \<Rightarrow> series" where
  "where_series s cond other =
     \<lparr>dtype = (if list_all (\<lambda>b. b) cond \<or> dtype other = dtype s then dtype s else Object),
      vals = map (\<lambda>(v, b, w). if b then v else w) (zip (vals s) (zip cond (vals other)))\<rparr>"

definition clean :: "dataframe \<Rightarrow> error + dataframe" where
  "clean df =
     and_then (getitem df ''Exterior2nd'') (\<lambda>ext.
       let df1 = setitem df ''Exterior2nd''
                   (replace [(Str ''Brk Cmn'', Str ''BrkComm''),
                             (Str ''Wd Shng'', Str ''Wd Sdng''),
                             (Str ''CmentBd'', Str ''CemntBd'')] ext)
       in and_then (getitem df1 ''GarageYrBlt'') (\<lambda>garage.
          and_then (getattr df1 ''GarageYrBlt'') (\<lambda>garage'.
          and_then (le_scalar garage' 2010) (\<lambda>cond.
          and_then (getattr df1 ''YearBuilt'') (\<lambda>built.
            Inr (rename [(''1stFlrSF'', ''FirstFlrSF''),
                         (''2ndFlrSF'', ''SecondFlrSF''),
                         (''3SsnPorch'', ''Threeseasonporch'')]
                   (setitem df1 ''GarageYrBlt'' (where_series garage cond built))))))))"

section \<open>encode\<close>

text \<open>
  \<open>astype("category")\<close> takes as categories the values that occur, missing values
  left out and each value once, and sorts them: numbers by their value, strings by code
  point as Python orders them, and in a column that holds both the numbers come before
  the strings. A column that is categorical already is left as it is.
\<close>

fun str_le :: "string \<Rightarrow> string \<Rightarrow> bool" where
  "str_le [] t = True"
| "str_le (a # s) [] = False"
| "str_le (a # s) (b # t) = ((of_char a :: nat) < of_char b \<or> (a = b \<and> str_le s t))"

fun value_le :: "cell \<Rightarrow> cell \<Rightarrow> bool" where
  "value_le (Num x) (Num y) = (x \<le> y)"
| "value_le (Str s) (Str t) = str_le s t"
| "value_le (Str s) (Num y) = False"
| "value_le _ _ = True"

fun insort_value :: "cell \<Rightarrow> cell list \<Rightarrow> cell list" where
  "insort_value v [] = [v]"
| "insort_value v (w # ws) = (if value_le v w then v # w # ws else w # insort_value v ws)"

definition first_seen :: "'a list \<Rightarrow> 'a list" where
  "first_seen xs = rev (remdups (rev xs))"

definition infer_categories :: "cell list \<Rightarrow> cell list" where
  "infer_categories vs = foldr insort_value (first_seen (filter (\<lambda>v. v \<noteq> NA) vs)) []"

definition astype_category :: "series \<Rightarrow> series" where
  "astype_category s =
     (case dtype s of
        Category cs ord \<Rightarrow> s
      | _ \<Rightarrow> s\<lparr>dtype := Category (infer_categories (vals s)) False\<rparr>)"

text \<open>\<open>s.cat.categories\<close>; the \<open>cat\<close> accessor exists on categorical columns only.\<close>

definition categories :: "series \<Rightarrow> error + cell list" where
  "categories s = (case dtype s of Category cs ord \<Rightarrow> Inr cs | _ \<Rightarrow> Inl AttributeError)"

text \<open>\<open>s.cat.add_categories(c)\<close>: appends a category; a category already there is a ValueError.\<close>

definition add_categories :: "series \<Rightarrow> cell \<Rightarrow> error + series" where
  "add_categories s c =
     (case dtype s of
        Category cs ord \<Rightarrow>
          if c \<in> set cs then Inl ValueError else Inr (s\<lparr>dtype := Category (cs @ [c]) ord\<rparr>)
      | _ \<Rightarrow> Inl AttributeError)"

text \<open>
  \<open>s.astype(CategoricalDtype(levels, ordered=True))\<close>: the column takes the given
  categories, and a value that is not among them becomes missing.
\<close>

definition astype_categorical :: "series \<Rightarrow> cell list \<Rightarrow> bool \<Rightarrow> series" where
  "astype_categorical s levels ord =
     \<lparr>dtype = Category levels ord,
      vals = map (\<lambda>v. if v \<in> set levels then v else NA) (vals s)\<rparr>"

definition features_nom :: "string list" where
  "features_nom =
     [''MSSubClass'', ''MSZoning'', ''Street'', ''Alley'', ''LandContour'', ''LotConfig'',
      ''Neighborhood'', ''Condition1'', ''Condition2'', ''BldgType'', ''HouseStyle'',
      ''RoofStyle'', ''RoofMatl'', ''Exterior1st'', ''Exterior2nd'', ''MasVnrType'',
      ''Foundation'', ''Heating'', ''CentralAir'', ''GarageType'', ''MiscFeature'',
      ''SaleType'', ''SaleCondition'']"

definition five_levels :: "cell list" where
  "five_levels = [Str ''Po'', Str ''Fa'', Str ''TA'', Str ''Gd'', Str ''Ex'']"

definition ten_levels :: "cell list" where
  "ten_levels = map (\<lambda>i. Num (real i)) [0..<10]"

text \<open>The dictionary as first written, in the order of its keys.\<close>

definition ordered_levels_0 :: "(string \<times> cell list) list" where
  "ordered_levels_0 =
     [(''OverallQual'', ten_levels),
      (''OverallCond'', ten_levels),
      (''ExterQual'', five_levels),
      (''ExterCond'', five_levels),
      (''BsmtQual'', five_levels),
      (''BsmtCond'', five_levels),
      (''HeatingQC'', five_levels),
      (''KitchenQual'', five_levels),
      (''FireplaceQu'', five_levels),
      (''GarageQual'', five_levels),
      (''GarageCond'', five_levels),
      (''PoolQC'', five_levels),
      (''LotShape'', [Str ''Reg'', Str ''IR1'', Str ''IR2'', Str ''IR3'']),
      (''LandSlope'', [Str ''Sev'', Str ''Mod'', Str ''Gtl'']),
      (''BsmtExposure'', [Str ''No'', Str ''Mn'', Str ''Av'', Str ''Gd'']),
      (''BsmtFinType1'', [Str ''Unf'', Str ''LwQ'', Str ''Rec'', Str ''BLQ'', Str ''ALQ'', Str ''GLQ'']),
      (''BsmtFinType2'', [Str ''Unf'', Str ''LwQ'', Str ''Rec'', Str ''BLQ'', Str ''ALQ'', Str ''GLQ'']),
      (''Functional'', [Str ''Sal'', Str ''Sev'', Str ''Maj1'', Str ''Maj2'', Str ''Mod'',
                        Str ''Min2'', Str ''Min1'', Str ''Typ'']),
      (''GarageFinish'', [Str ''Unf'', Str ''RFn'', Str ''Fin'']),
      (''PavedDrive'', [Str ''N'', Str ''P'', Str ''Y'']),
      (''Utilities'', [Str ''NoSeWa'', Str ''NoSewr'', Str ''AllPub'']),
      (''CentralAir'', [Str ''N'', Str ''Y'']),
      (''Electrical'', [Str ''Mix'', Str ''FuseP'', Str ''FuseF'', Str ''FuseA'', Str ''SBrkr'']),
      (''Fence'', [Str ''MnWw'', Str ''GdWo'', Str ''MnPrv'', Str ''GdPrv''])]"

text \<open>The comprehension that adds a \<open>"None"\<close> level in front of every list.\<close>

definition ordered_levels :: "(string \<times> cell list) list" where
  "ordered_levels = map (\<lambda>kv. (fst kv, Str ''None'' # snd kv)) ordered_levels_0"

text \<open>The two loops of \<open>encode\<close>, each over its list of names.\<close>

fun encode_nominal :: "string list \<Rightarrow> dataframe \<Rightarrow> error + dataframe" where
  "encode_nominal [] df = Inr df"
| "encode_nominal (name # names) df =
     and_then (getitem df name) (\<lambda>s.
       let df1 = setitem df name (astype_category s)
       in and_then (getitem df1 name) (\<lambda>s1.
          and_then (categories s1) (\<lambda>cs.
          and_then (if Str ''None'' \<notin> set cs
                    then and_then (getitem df1 name) (\<lambda>s2.
                         and_then (add_categories s2 (Str ''None'')) (\<lambda>s3.
                           Inr (setitem df1 name s3)))
                    else Inr df1)
                   (encode_nominal names))))"

fun encode_ordinal :: "(string \<times> cell list) list \<Rightarrow> dataframe \<Rightarrow> error + dataframe" where
  "encode_ordinal [] df = Inr df"
| "encode_ordinal (item # items) df =
     and_then (getitem df (fst item)) (\<lambda>s.
       encode_ordinal items (setitem df (fst item) (astype_categorical s (snd item) True)))"

definition encode :: "dataframe \<Rightarrow> error + dataframe" where
  "encode df = and_then (encode_nominal features_nom df) (encode_ordinal ordered_levels)"

section \<open>impute\<close>

text \<open>
  \<open>df.select_dtypes("number")\<close> and \<open>df.select_dtypes("category")\<close> are new frames;
  iterating over one yields its column labels, fixed before the loop body writes to \<open>df\<close>.
\<close>

fun is_category :: "dtype \<Rightarrow> bool" where
  "is_category (Category cs ord) = True"
| "is_category _ = False"

definition select_dtypes_number :: "dataframe \<Rightarrow> string list" where
  "select_dtypes_number df = map fst (filter (\<lambda>c. dtype (snd c) = Number) (columns df))"

definition select_dtypes_category :: "dataframe \<Rightarrow> string list" where
  "select_dtypes_category df = map fst (filter (\<lambda>c. is_category (dtype (snd c))) (columns df))"

text \<open>
  \<open>s.fillna(c)\<close>: every missing value becomes \<open>c\<close>. A categorical column accepts only
  one of its categories as fill value and raises otherwise, whether or not a value is
  missing.
\<close>

definition fill :: "cell \<Rightarrow> cell \<Rightarrow> cell" where
  "fill c v = (if v = NA then c else v)"

definition fillna :: "cell \<Rightarrow> series \<Rightarrow> error + series" where
  "fillna c s =
     (case dtype s of
        Category cs ord \<Rightarrow>
          if c \<in> set cs then Inr (s\<lparr>vals := map (fill c) (vals s)\<rparr>) else Inl TypeError
      | _ \<Rightarrow> Inr (s\<lparr>vals := map (fill c) (vals s)\<rparr>))"

fun fill_columns :: "cell \<Rightarrow> string list \<Rightarrow> dataframe \<Rightarrow> error + dataframe" where
  "fill_columns c [] df = Inr df"
| "fill_columns c (name # names) df =
     and_then (getitem df name) (\<lambda>s.
     and_then (fillna c s) (\<lambda>s'.
       fill_columns c names (setitem df name s')))"

definition impute :: "dataframe \<Rightarrow> error + dataframe" where
  "impute df =
     and_then (fill_columns (Num 0) (select_dtypes_number df) df) (\<lambda>df1.
       fill_columns (Str ''None'') (select_dtypes_category df1) df1)"

section \<open>load_data\<close>

text \<open>
  \<open>pd.concat(frames)\<close>: the rows of the frames one after the other. The columns are the
  labels of all frames in order of first appearance; a frame without a column
  contributes missing values to it. The column keeps the dtype its parts share and
  is an object column when they differ. An empty list of frames is a ValueError.
\<close>

definition common_dtype :: "dtype list \<Rightarrow> dtype" where
  "common_dtype ds =
     (case ds of [] \<Rightarrow> Object | d # es \<Rightarrow> if list_all (\<lambda>e. e = d) es then d else Object)"

definition part_of :: "string \<Rightarrow> dataframe \<Rightarrow> cell list" where
  "part_of name df =
     (case map_of (columns df) name of
        None \<Rightarrow> replicate (nrows df) NA
      | Some s \<Rightarrow> vals s)"

definition dtypes_of :: "string \<Rightarrow> dataframe list \<Rightarrow> dtype list" where
  "dtypes_of name dfs =
     concat (map (\<lambda>df. case map_of (columns df) name of None \<Rightarrow> [] | Some s \<Rightarrow> [dtype s]) dfs)"

definition concat_frames :: "dataframe list \<Rightarrow> error + dataframe" where
  "concat_frames dfs =
     (if dfs = [] then Inl ValueError
      else Inr \<lparr>index = concat (map index dfs),
                columns = map (\<lambda>name. (name, \<lparr>dtype = common_dtype (dtypes_of name dfs),
                                               vals = concat (map (part_of name) dfs)\<rparr>))
                            (first_seen (concat (map (\<lambda>df. map fst (columns df)) dfs)))\<rparr>)"

text \<open>The rows at the given positions, in the given order.\<close>

definition take_rows :: "dataframe \<Rightarrow> nat list \<Rightarrow> dataframe" where
  "take_rows df ps =
     \<lparr>index = map (\<lambda>p. index df ! p) ps,
      columns = map (\<lambda>c. (fst c, (snd c)\<lparr>vals := map (\<lambda>p. vals (snd c) ! p) ps\<rparr>)) (columns df)\<rparr>"

text \<open>
  \<open>df.loc[labels, :]\<close>: for each label in turn, every row that carries it; a label
  that no row carries is a KeyError.
\<close>

definition positions :: "int list \<Rightarrow> int \<Rightarrow> nat list" where
  "positions idx l = filter (\<lambda>p. idx ! p = l) [0..<length idx]"

definition loc :: "dataframe \<Rightarrow> int list \<Rightarrow> error + dataframe" where
  "loc df labels =
     (if list_ex (\<lambda>l. l \<notin> set (index df)) labels then Inl KeyError
      else Inr (take_rows df (concat (map (positions (index df)) labels))))"

text \<open>
  \<open>load_data\<close>, applied to the two frames that \<open>read_csv\<close> returns for \<open>train.csv\<close>
  and \<open>test.csv\<close>.
\<close>

definition load_data :: "dataframe \<Rightarrow> dataframe \<Rightarrow> error + dataframe \<times> dataframe" where
  "load_data df_train df_test =
     and_then (concat_frames [df_train, df_test]) (\<lambda>df.
     and_then (clean df) (\<lambda>df.
     and_then (encode df) (\<lambda>df.
     and_then (impute df) (\<lambda>df.
     and_then (loc df (index df_train)) (\<lambda>df_train'.
     and_then (loc df (index df_test)) (\<lambda>df_test'.
       Inr (df_train', df_test')))))))"

section \<open>Baseline score\<close>

text \<open>
  \<open>s.cat.codes\<close>: the position of each value in the list of categories, and \<open>-1\<close> for
  a missing value. The codes are integers, a numeric column.
\<close>

fun code_in :: "cell list \<Rightarrow> cell \<Rightarrow> int" where
  "code_in [] v = - 1"
| "code_in (c # cs) v =
     (if v = c then 0 else (let k = code_in cs v in if k < 0 then - 1 else k + 1))"

definition cat_code :: "cell list \<Rightarrow> cell \<Rightarrow> cell" where
  "cat_code cs v = (if v = NA then Num (- 1) else Num (of_int (code_in cs v)))"

definition cat_codes :: "series \<Rightarrow> error + series" where
  "cat_codes s =
     (case dtype s of
        Category cs ord \<Rightarrow> Inr \<lparr>dtype = Number, vals = map (cat_code cs) (vals s)\<rparr>
      | _ \<Rightarrow> Inl AttributeError)"

text \<open>
  The loop \<open>for colname in X.select_dtypes(["category"]): X[colname] = X[colname].cat.codes\<close>
  writes to the frame it is given. It returns the frame as it stands when the loop ends,
  with the exception that ended it, if any.
\<close>

fun encode_labels :: "string list \<Rightarrow> dataframe \<Rightarrow> dataframe \<times> error option" where
  "encode_labels [] X = (X, None)"
| "encode_labels (colname # colnames) X =
     (case and_then (getitem X colname) cat_codes of
        Inl e \<Rightarrow> (X, Some e)
      | Inr codes \<Rightarrow> encode_labels colnames (setitem X colname codes))"

text \<open>
  \<open>KFold(n_splits=k).split(X)\<close> for \<open>n\<close> rows, without shuffling: the first \<open>n mod k\<close>
  folds have \<open>n div k + 1\<close> rows and the others \<open>n div k\<close>; the folds are consecutive
  blocks of positions. Each split is the pair of the positions outside the fold and
  the positions of the fold. Fewer rows than folds is a ValueError.
\<close>

definition fold_sizes :: "nat \<Rightarrow> nat \<Rightarrow> nat list" where
  "fold_sizes k n = map (\<lambda>i. n div k + (if i < n mod k then 1 else 0)) [0..<k]"

fun fold_ranges :: "nat \<Rightarrow> nat list \<Rightarrow> (nat \<times> nat) list" where
  "fold_ranges current [] = []"
| "fold_ranges current (fold_size # rest) =
     (current, current + fold_size) # fold_ranges (current + fold_size) rest"

definition kfold_split :: "nat \<Rightarrow> nat \<Rightarrow> error + (nat list \<times> nat list) list" where
  "kfold_split k n =
     (if n < k then Inl ValueError
      else Inr (map (\<lambda>r. ([0..<fst r] @ [snd r..<n], [fst r..<snd r]))
                    (fold_ranges 0 (fold_sizes k n))))"

fun traverse :: "('a \<Rightarrow> error + 'b) \<Rightarrow> 'a list \<Rightarrow> error + 'b list" where
  "traverse f [] = Inr []"
| "traverse f (x # xs) =
     and_then (f x) (\<lambda>y. and_then (traverse f xs) (\<lambda>ys. Inr (y # ys)))"

text \<open>
  A regressor is the pair of its \<open>fit\<close>, from training rows and targets to a fitted
  model, and its \<open>predict\<close>, from a fitted model and rows to one prediction per row.
\<close>

record 'm regressor =
  fit :: "dataframe \<Rightarrow> real list \<Rightarrow> 'm"
  predict :: "'m \<Rightarrow> dataframe \<Rightarrow> real list"

definition mean :: "real list \<Rightarrow> real" where
  "mean xs = sum_list xs / real (length xs)"

definition mean_squared_error :: "real list \<Rightarrow> real list \<Rightarrow> error + real" where
  "mean_squared_error y_true y_pred =
     (if length y_true \<noteq> length y_pred then Inl ValueError
      else Inr (mean (map (\<lambda>tp. (fst tp - snd tp)\<^sup>2) (zip y_true y_pred))))"

text \<open>
  \<open>cross_val_score(model, X, y, cv=k, scoring="neg_mean_squared_error")\<close> for a
  regressor: on each split of \<open>KFold(k)\<close> a fresh copy of the model is fitted on the rows
  outside the fold and scored on the fold by the negated mean squared error.
\<close>

definition cross_val_score ::
  "'m regressor \<Rightarrow> dataframe \<Rightarrow> real list \<Rightarrow> nat \<Rightarrow> error + real list" where
  "cross_val_score model X y k =
     (if length y \<noteq> nrows X then Inl ValueError
      else and_then (kfold_split k (nrows X))
             (traverse (\<lambda>split.
                let fitted = fit model (take_rows X (fst split)) (map (\<lambda>i. y ! i) (fst split))
                in and_then (mean_squared_error (map (\<lambda>i. y ! i) (snd split))
                               (predict model fitted (take_rows X (snd split))))
                     (\<lambda>mse. Inr (- mse)))))"

text \<open>
  \<open>np.log(y)\<close>. The logarithm of a missing or non-positive target is NaN or minus
  infinity, and the code goes on computing with it. No real number stands for either, so
  here the computation of the score stops with \<open>NonFinite\<close>; the statements about the score
  are about positive targets.
\<close>

definition np_log :: "cell list \<Rightarrow> error + real list" where
  "np_log y =
     traverse (\<lambda>v. case v of
                  Num x \<Rightarrow> if 0 < x then Inr (ln x) else Inl NonFinite
                | NA \<Rightarrow> Inl NonFinite
                | Str t \<Rightarrow> Inl TypeError) y"

text \<open>
  \<open>score_dataset\<close> receives references to the caller's frame and target series and
  writes to the frame. The heap maps a reference to the object it denotes; the function
  returns the heap after the call with the value returned or the exception raised.
\<close>

datatype obj = Frame dataframe | Target "cell list"

type_synonym heap = "nat \<Rightarrow> obj option"

definition score_dataset ::
  "nat \<Rightarrow> nat \<Rightarrow> 'm regressor \<Rightarrow> heap \<Rightarrow> heap \<times> (error + real)" where
  "score_dataset X y model h =
     (case h X of
        Some (Frame dfX) \<Rightarrow>
          (case encode_labels (select_dtypes_category dfX) dfX of
             (dfX', Some e) \<Rightarrow> (h(X \<mapsto> Frame dfX'), Inl e)
           | (dfX', None) \<Rightarrow>
               (h(X \<mapsto> Frame dfX'),
                case h y of
                  Some (Target ys) \<Rightarrow>
                    and_then (np_log ys) (\<lambda>log_y.
                    and_then (cross_val_score model dfX' log_y 5) (\<lambda>score.
                      Inr (sqrt (- 1 * mean score))))
                | _ \<Rightarrow> Inl TypeError))
      | _ \<Rightarrow> (h, Inl TypeError))"

section \<open>Feature creation\<close>

text \<open>\<open>df[[names]]\<close>: the named columns in the order of the names, or KeyError.\<close>

definition select_columns :: "dataframe \<Rightarrow> string list \<Rightarrow> error + dataframe" where
  "select_columns df names =
     and_then (traverse (\<lambda>name. and_then (getitem df name) (\<lambda>s. Inr (name, s))) names)
       (\<lambda>cs. Inr (df\<lparr>columns := cs\<rparr>))"







section \<open>CrossFoldEncoder\<close>

text \<open>
  The encoder class handed to \<open>CrossFoldEncoder\<close> (with its keyword arguments) is the pair
  of its \<open>fit\<close>, from the columns to encode, the training rows and their targets to a
  fitted encoder, and its \<open>transform\<close>, from a fitted encoder and a frame to the encoded
  frame.
\<close>

record 'm encoder =
  enc_fit :: "string list \<Rightarrow> dataframe \<Rightarrow> cell list \<Rightarrow> 'm"
  enc_transform :: "'m \<Rightarrow> dataframe \<Rightarrow> dataframe"

text \<open>
  The object's attributes, named as in the class without the final underscore.
  \<open>fitted_encoders\<close> and \<open>cols\<close> do not exist before the first \<open>fit_transform\<close>; \<open>cv\<close> is the
  number of splits of the \<open>KFold\<close> object.
\<close>

record 'm cross_fold_encoder =
  encoder :: "'m encoder"
  cv :: nat
  fitted_encoders :: "'m list option"
  cols :: "string list option"

definition CrossFoldEncoder :: "'m encoder \<Rightarrow> 'm cross_fold_encoder" where
  "CrossFoldEncoder enc = \<lparr>encoder = enc, cv = 5, fitted_encoders = None, cols = None\<rparr>"

text \<open>\<open>X.iloc[positions, :]\<close> and \<open>y.iloc[positions]\<close>; a position past the end is an IndexError.\<close>

definition iloc :: "dataframe \<Rightarrow> nat list \<Rightarrow> error + dataframe" where
  "iloc df ps = (if list_ex (\<lambda>p. nrows df \<le> p) ps then Inl IndexError else Inr (take_rows df ps))"

definition iloc_values :: "cell list \<Rightarrow> nat list \<Rightarrow> error + cell list" where
  "iloc_values y ps =
     (if list_ex (\<lambda>p. length y \<le> p) ps then Inl IndexError else Inr (map (\<lambda>p. y ! p) ps))"

text \<open>
  The loop of \<open>fit_transform\<close> over the splits. \<open>KFold.split\<close> yields the positions
  outside the fold first and the fold second, so \<open>idx_encode\<close> are the rows the encoder
  is fitted on and \<open>idx_train\<close> the rows of the fold, which it transforms. The loop
  returns the encoders appended to \<open>fitted_encoders\<close> and the list \<open>X_encoded\<close>, or the
  exception.
\<close>

fun fit_folds ::
  "'m encoder \<Rightarrow> string list \<Rightarrow> dataframe \<Rightarrow> cell list \<Rightarrow> (nat list \<times> nat list) list \<Rightarrow>
   'm list \<times> (error + dataframe list)" where
  "fit_folds enc cs X y [] = ([], Inr [])"
| "fit_folds enc cs X y (split # splits) =
     (case and_then (iloc X (fst split)) (\<lambda>X_fit.
           and_then (iloc_values y (fst split)) (\<lambda>y_fit.
             Inr (enc_fit enc cs X_fit y_fit))) of
        Inl e \<Rightarrow> ([], Inl e)
      | Inr fitted_encoder \<Rightarrow>
          (case and_then (iloc X (snd split)) (\<lambda>X_fold.
                  select_columns (enc_transform enc fitted_encoder X_fold) cs) of
             Inl e \<Rightarrow> ([], Inl e)
           | Inr part \<Rightarrow>
               (case fit_folds enc cs X y splits of
                  (encs, r) \<Rightarrow>
                    (fitted_encoder # encs, and_then r (\<lambda>parts. Inr (part # parts))))))"

text \<open>\<open>X_encoded.columns = [name + "_encoded" for name in X_encoded.columns]\<close>.\<close>

definition add_suffix :: "dataframe \<Rightarrow> dataframe" where
  "add_suffix df = df\<lparr>columns := map (\<lambda>c. (fst c @ ''_encoded'', snd c)) (columns df)\<rparr>"

definition fit_transform ::
  "'m cross_fold_encoder \<Rightarrow> dataframe \<Rightarrow> cell list \<Rightarrow> string list \<Rightarrow>
   'm cross_fold_encoder \<times> (error + dataframe)" where
  "fit_transform self X y cs =
     (case kfold_split (cv self) (nrows X) of
        Inl e \<Rightarrow> (self\<lparr>fitted_encoders := Some [], cols := Some cs\<rparr>, Inl e)
      | Inr splits \<Rightarrow>
          (case fit_folds (encoder self) cs X y splits of
             (encs, r) \<Rightarrow>
               (self\<lparr>fitted_encoders := Some encs, cols := Some cs\<rparr>,
                and_then r (\<lambda>parts.
                and_then (concat_frames parts) (\<lambda>X_encoded.
                  Inr (add_suffix X_encoded))))))"

text \<open>
  \<open>x.add(y, fill_value=0)\<close>, cell by cell: a missing value counts as 0 unless both are
  missing. The model covers operands that carry the same row and column labels, as the
  transforms of one frame by encoders that keep its labels do; pandas would align other
  operands label by label, which the model does not follow: it stops with \<open>Unaligned\<close>.
  Encoded columns are numeric; a string is taken as a TypeError.
\<close>

fun add_cell :: "cell \<Rightarrow> cell \<Rightarrow> error + cell" where
  "add_cell NA NA = Inr NA"
| "add_cell NA (Num b) = Inr (Num (0 + b))"
| "add_cell (Num a) NA = Inr (Num (a + 0))"
| "add_cell (Num a) (Num b) = Inr (Num (a + b))"
| "add_cell _ _ = Inl TypeError"

definition add_series :: "series \<Rightarrow> series \<Rightarrow> error + series" where
  "add_series a b =
     and_then (traverse (\<lambda>xy. add_cell (fst xy) (snd xy)) (zip (vals a) (vals b)))
       (\<lambda>vs. Inr \<lparr>dtype = Number, vals = vs\<rparr>)"

definition add_fill :: "dataframe \<Rightarrow> dataframe \<Rightarrow> error + dataframe" where
  "add_fill x y =
     (if index x \<noteq> index y \<or> map fst (columns x) \<noteq> map fst (columns y) then Inl Unaligned
      else and_then (traverse (\<lambda>cd. and_then (add_series (snd (fst cd)) (snd (snd cd)))
                                      (\<lambda>s. Inr (fst (fst cd), s)))
                      (zip (columns x) (columns y)))
             (\<lambda>cs. Inr \<lparr>index = index x, columns = cs\<rparr>))"

text \<open>\<open>functools.reduce(f, xs)\<close> without initial value: a TypeError on the empty list.\<close>

fun reduce_from :: "('a \<Rightarrow> 'a \<Rightarrow> error + 'a) \<Rightarrow> 'a \<Rightarrow> 'a list \<Rightarrow> error + 'a" where
  "reduce_from f acc [] = Inr acc"
| "reduce_from f acc (x # xs) = and_then (f acc x) (\<lambda>acc'. reduce_from f acc' xs)"

definition reduce :: "('a \<Rightarrow> 'a \<Rightarrow> error + 'a) \<Rightarrow> 'a list \<Rightarrow> error + 'a" where
  "reduce f xs = (case xs of [] \<Rightarrow> Inl TypeError | x # rest \<Rightarrow> reduce_from f x rest)"

text \<open>Division of a frame by a count; a missing value stays missing.\<close>

fun div_cell :: "nat \<Rightarrow> cell \<Rightarrow> error + cell" where
  "div_cell n NA = Inr NA"
| "div_cell n (Num a) = Inr (Num (a / real n))"
| "div_cell n (Str t) = Inl TypeError"

definition div_frame :: "dataframe \<Rightarrow> nat \<Rightarrow> error + dataframe" where
  "div_frame df n =
     and_then (traverse (\<lambda>c. and_then (traverse (div_cell n) (vals (snd c)))
                               (\<lambda>vs. Inr (fst c, \<lparr>dtype = Number, vals = vs\<rparr>)))
                 (columns df))
       (\<lambda>cs. Inr (df\<lparr>columns := cs\<rparr>))"

definition transform :: "'m cross_fold_encoder \<Rightarrow> dataframe \<Rightarrow> error + dataframe" where
  "transform self X =
     (case (fitted_encoders self, cols self) of
        (Some encs, Some cs) \<Rightarrow>
          and_then (traverse (\<lambda>fitted_encoder.
                      select_columns (enc_transform (encoder self) fitted_encoder X) cs) encs)
            (\<lambda>X_encoded_list.
          and_then (reduce add_fill X_encoded_list) (\<lambda>total.
          and_then (div_frame total (length X_encoded_list)) (\<lambda>X_encoded.
            Inr (add_suffix X_encoded))))
      | _ \<Rightarrow> Inl AttributeError)"

section \<open>Export\<close>

text \<open>
  \<open>pd.DataFrame(dict)\<close> from arrays: one column per key, rows labelled 0, 1, ...; arrays
  of different lengths are a ValueError.
\<close>

definition infer_dtype :: "cell list \<Rightarrow> dtype" where
  "infer_dtype vs = (if list_ex is_str vs then Object else Number)"

definition DataFrame :: "(string \<times> cell list) list \<Rightarrow> error + dataframe" where
  "DataFrame data =
     (case data of
        [] \<Rightarrow> Inr \<lparr>index = [], columns = []\<rparr>
      | kv # rest \<Rightarrow>
          if list_all (\<lambda>kv'. length (snd kv') = length (snd kv)) rest
          then Inr \<lparr>index = map int [0..<length (snd kv)],
                    columns = map (\<lambda>kv'. (fst kv', \<lparr>dtype = infer_dtype (snd kv'),
                                                     vals = snd kv'\<rparr>)) data\<rparr>
          else Inl ValueError)"

text \<open>
  A CSV file is its header line and its data lines, each a list of fields.
  \<open>df.to_csv(path, index=False)\<close> writes the column labels and one line of cells per row;
  with \<open>index=True\<close> every line would start with the row label, under an empty header field.
\<close>

type_synonym csv = "string list \<times> cell list list"

definition to_csv :: "dataframe \<Rightarrow> bool \<Rightarrow> csv" where
  "to_csv df with_index =
     ((if with_index then [[]] else []) @ map fst (columns df),
      map (\<lambda>i. (if with_index then [Num (of_int (index df ! i))] else [])
                @ map (\<lambda>c. vals (snd c) ! i) (columns df))
          [0..<nrows df])"

text \<open>
  The last lines of the notebook, from \<open>predictions = np.exp(xgb.predict(X_test))\<close> on;
  \<open>xgb_predict\<close> is the fitted model's \<open>predict\<close>, and the file system maps a path to the
  file stored there.
\<close>

definition export_submission ::
  "(dataframe \<Rightarrow> real list) \<Rightarrow> dataframe \<Rightarrow> (string \<rightharpoonup> csv) \<Rightarrow> error + (string \<rightharpoonup> csv)" where
  "export_submission xgb_predict X_test fs =
     (let predictions = map exp (xgb_predict X_test)
      in and_then (DataFrame [(''Id'', map (\<lambda>l. Num (of_int l)) (index X_test)),
                              (''SalePrice'', map Num predictions)])
           (\<lambda>output. Inr (fs(''submission.csv'' \<mapsto> to_csv output False))))"

section \<open>Vocabulary of the statements\<close>



text \<open>
  \<open>has_none s\<close>: the column is categorical and \<open>"None"\<close> is one of its categories.
  \<open>schema df\<close>: the column labels of a frame with their dtypes, in order.
  \<open>preprocess\<close>: the three preprocessing steps in the order in which \<open>load_data\<close> applies
  them. \<open>imputed s\<close>: the column with its missing values filled, by 0 if it is numeric and
  by \<open>"None"\<close> if it is categorical, and the column itself otherwise.
  \<open>renamed_labels_free df\<close>: no column carries one of the three labels that \<open>clean\<close> renames
  columns to.
\<close>

definition has_none :: "series \<Rightarrow> bool" where
  "has_none s = (case dtype s of Category cs ord \<Rightarrow> Str ''None'' \<in> set cs | _ \<Rightarrow> False)"

definition schema :: "dataframe \<Rightarrow> (string \<times> dtype) list" where
  "schema df = map (\<lambda>c. (fst c, dtype (snd c))) (columns df)"

definition preprocess :: "dataframe \<Rightarrow> error + dataframe" where
  "preprocess df = and_then (clean df) (\<lambda>df. and_then (encode df) impute)"

definition imputed :: "series \<Rightarrow> series" where
  "imputed s =
     (if dtype s = Number then s\<lparr>vals := map (fill (Num 0)) (vals s)\<rparr>
      else if is_category (dtype s) then s\<lparr>vals := map (fill (Str ''None'')) (vals s)\<rparr>
      else s)"

definition renamed_labels_free :: "dataframe \<Rightarrow> bool" where
  "renamed_labels_free df =
     list_all (\<lambda>n. n \<notin> set (map fst (columns df)))
       [''FirstFlrSF'', ''SecondFlrSF'', ''Threeseasonporch'']"

text \<open>
  \<open>label_encoded s\<close>: a categorical column replaced by its category codes, any other column
  as it is; \<open>label_encoded_frame\<close> does so with every column of a frame.
  \<open>cell_value\<close>: the number in a cell.
\<close>

definition label_encoded :: "series \<Rightarrow> series" where
  "label_encoded s =
     (case dtype s of
        Category cs ord \<Rightarrow> \<lparr>dtype = Number, vals = map (cat_code cs) (vals s)\<rparr>
      | _ \<Rightarrow> s)"

definition label_encoded_frame :: "dataframe \<Rightarrow> dataframe" where
  "label_encoded_frame df = df\<lparr>columns := map (\<lambda>c. (fst c, label_encoded (snd c))) (columns df)\<rparr>"

fun cell_value :: "cell \<Rightarrow> real" where
  "cell_value (Num x) = x"
| "cell_value _ = 0"

text \<open>
  \<open>split_of n r\<close>: the split that \<open>KFold\<close> yields for the fold of positions from \<open>fst r\<close> up
  to \<open>snd r\<close> among \<open>n\<close> rows. \<open>fold_encoder\<close>: the encoder fitted on the rows outside the
  fold and their targets. \<open>fold_part\<close>: the encoded columns of the rows of the fold, by that
  encoder. \<open>cell_at df name i\<close>: the cell of column \<open>name\<close> in row \<open>i\<close>, if the column exists.
  \<open>keeps_rows enc\<close>: the encoder's transform returns a well-formed frame with the row labels
  of the frame it is given. \<open>averaged cells\<close>: the sum of the cells, a missing one counting
  as 0, divided by their number, which is their mean when none is missing; missing when
  all are.
\<close>

definition split_of :: "nat \<Rightarrow> nat \<times> nat \<Rightarrow> nat list \<times> nat list" where
  "split_of n r = ([0..<fst r] @ [snd r..<n], [fst r..<snd r])"

definition fold_encoder ::
  "'m encoder \<Rightarrow> string list \<Rightarrow> dataframe \<Rightarrow> cell list \<Rightarrow> nat list \<times> nat list \<Rightarrow> 'm" where
  "fold_encoder enc cs X y split =
     enc_fit enc cs (take_rows X (fst split)) (map (\<lambda>p. y ! p) (fst split))"

definition fold_part ::
  "'m encoder \<Rightarrow> string list \<Rightarrow> dataframe \<Rightarrow> cell list \<Rightarrow> nat list \<times> nat list \<Rightarrow>
   error + dataframe" where
  "fold_part enc cs X y split =
     select_columns (enc_transform enc (fold_encoder enc cs X y split) (take_rows X (snd split))) cs"

definition cell_at :: "dataframe \<Rightarrow> string \<Rightarrow> nat \<Rightarrow> cell option" where
  "cell_at df name i = (case getitem df name of Inl e \<Rightarrow> None | Inr s \<Rightarrow> Some (vals s ! i))"

definition keeps_rows :: "'m encoder \<Rightarrow> bool" where
  "keeps_rows enc \<longleftrightarrow>
     (\<forall>m D. wf_df D \<longrightarrow> wf_df (enc_transform enc m D) \<and> index (enc_transform enc m D) = index D)"

definition averaged :: "cell list \<Rightarrow> cell" where
  "averaged cells =
     (if list_all (\<lambda>c. c = NA) cells then NA
      else Num (sum_list (map cell_value cells) / real (length cells)))"

section \<open>Example frames\<close>

text \<open>
  Three houses: the second has no garage year, the third has the corrupt year 2207.
\<close>

definition ex_clean :: dataframe where
  "ex_clean = \<lparr>index = [1, 2, 3],
     columns = [(''Exterior2nd'', \<lparr>dtype = Object, vals = [Str ''VinylSd'', Str ''Brk Cmn'', NA]\<rparr>),
                (''YearBuilt'', \<lparr>dtype = Number, vals = [Num 2003, Num 1976, Num 2006]\<rparr>),
                (''GarageYrBlt'', \<lparr>dtype = Number, vals = [Num 2003, NA, Num 2207]\<rparr>),
                (''3SsnPorch'', \<lparr>dtype = Number, vals = [Num 0, Num 0, Num 0]\<rparr>)]\<rparr>"

definition ex_cleaned :: dataframe where
  "ex_cleaned = \<lparr>index = [1, 2, 3],
     columns = [(''Exterior2nd'', \<lparr>dtype = Object, vals = [Str ''VinylSd'', Str ''BrkComm'', NA]\<rparr>),
                (''YearBuilt'', \<lparr>dtype = Number, vals = [Num 2003, Num 1976, Num 2006]\<rparr>),
                (''GarageYrBlt'', \<lparr>dtype = Number, vals = [Num 2003, Num 1976, Num 2006]\<rparr>),
                (''Threeseasonporch'', \<lparr>dtype = Number, vals = [Num 0, Num 0, Num 0]\<rparr>)]\<rparr>"

text \<open>One house whose CSV row leaves both \<open>YearBuilt\<close> and \<open>GarageYrBlt\<close> empty.\<close>

definition ex_unbuilt :: dataframe where
  "ex_unbuilt = \<lparr>index = [1],
     columns = [(''Exterior2nd'', \<lparr>dtype = Object, vals = [Str ''VinylSd'']\<rparr>),
                (''YearBuilt'', \<lparr>dtype = Number, vals = [NA]\<rparr>),
                (''GarageYrBlt'', \<lparr>dtype = Number, vals = [NA]\<rparr>)]\<rparr>"

text \<open>Three houses and their porch areas; the second has no screen porch area on record.\<close>

definition ex_porches :: dataframe where
  "ex_porches = \<lparr>index = [1, 2, 3],
     columns = [(''WoodDeckSF'', \<lparr>dtype = Number, vals = [Num 0, Num 298, Num 192]\<rparr>),
                (''OpenPorchSF'', \<lparr>dtype = Number, vals = [Num 61, Num 0, Num 84]\<rparr>),
                (''EnclosedPorch'', \<lparr>dtype = Number, vals = [Num 0, Num 0, Num 272]\<rparr>),
                (''Threeseasonporch'', \<lparr>dtype = Number, vals = [Num 0, Num 0, Num 320]\<rparr>),
                (''ScreenPorch'', \<lparr>dtype = Number, vals = [Num 0, NA, Num 120]\<rparr>)]\<rparr>"

text \<open>
  One row in the layout of \<open>train.csv\<close> and one in the layout of \<open>test.csv\<close> (which has no
  \<open>SalePrice\<close>), with the columns the preprocessing reads, one more numeric column and a
  column \<open>Notes\<close> of free text that neither \<open>features_nom\<close> nor \<open>ordered_levels\<close> lists.
  The first house has overall quality 10, no masonry veneer type and no note; the second has
  no lot frontage on record.
\<close>

definition ex_train :: dataframe where
  "ex_train = \<lparr>index = [1],
     columns =
       [(''MSSubClass'', \<lparr>dtype = Number, vals = [Num 20]\<rparr>),
        (''MSZoning'', \<lparr>dtype = Object, vals = [Str ''RL'']\<rparr>),
        (''LotFrontage'', \<lparr>dtype = Number, vals = [Num 80]\<rparr>),
        (''Street'', \<lparr>dtype = Object, vals = [Str ''Pave'']\<rparr>),
        (''Alley'', \<lparr>dtype = Object, vals = [NA]\<rparr>),
        (''LotShape'', \<lparr>dtype = Object, vals = [Str ''Reg'']\<rparr>),
        (''LandContour'', \<lparr>dtype = Object, vals = [Str ''Lvl'']\<rparr>),
        (''Utilities'', \<lparr>dtype = Object, vals = [Str ''AllPub'']\<rparr>),
        (''LotConfig'', \<lparr>dtype = Object, vals = [Str ''FR2'']\<rparr>),
        (''LandSlope'', \<lparr>dtype = Object, vals = [Str ''Gtl'']\<rparr>),
        (''Neighborhood'', \<lparr>dtype = Object, vals = [Str ''Veenker'']\<rparr>),
        (''Condition1'', \<lparr>dtype = Object, vals = [Str ''Feedr'']\<rparr>),
        (''Condition2'', \<lparr>dtype = Object, vals = [Str ''Norm'']\<rparr>),
        (''BldgType'', \<lparr>dtype = Object, vals = [Str ''1Fam'']\<rparr>),
        (''HouseStyle'', \<lparr>dtype = Object, vals = [Str ''1Story'']\<rparr>),
        (''OverallQual'', \<lparr>dtype = Number, vals = [Num 10]\<rparr>),
        (''OverallCond'', \<lparr>dtype = Number, vals = [Num 8]\<rparr>),
        (''YearBuilt'', \<lparr>dtype = Number, vals = [Num 1976]\<rparr>),
        (''RoofStyle'', \<lparr>dtype = Object, vals = [Str ''Gable'']\<rparr>),
        (''RoofMatl'', \<lparr>dtype = Object, vals = [Str ''CompShg'']\<rparr>),
        (''Exterior1st'', \<lparr>dtype = Object, vals = [Str ''MetalSd'']\<rparr>),
        (''Exterior2nd'', \<lparr>dtype = Object, vals = [Str ''MetalSd'']\<rparr>),
        (''MasVnrType'', \<lparr>dtype = Object, vals = [NA]\<rparr>),
        (''ExterQual'', \<lparr>dtype = Object, vals = [Str ''TA'']\<rparr>),
        (''ExterCond'', \<lparr>dtype = Object, vals = [Str ''TA'']\<rparr>),
        (''Foundation'', \<lparr>dtype = Object, vals = [Str ''CBlock'']\<rparr>),
        (''BsmtQual'', \<lparr>dtype = Object, vals = [Str ''Gd'']\<rparr>),
        (''BsmtCond'', \<lparr>dtype = Object, vals = [Str ''TA'']\<rparr>),
        (''BsmtExposure'', \<lparr>dtype = Object, vals = [Str ''Gd'']\<rparr>),
        (''BsmtFinType1'', \<lparr>dtype = Object, vals = [Str ''ALQ'']\<rparr>),
        (''BsmtFinType2'', \<lparr>dtype = Object, vals = [Str ''Unf'']\<rparr>),
        (''Heating'', \<lparr>dtype = Object, vals = [Str ''GasA'']\<rparr>),
        (''HeatingQC'', \<lparr>dtype = Object, vals = [Str ''Ex'']\<rparr>),
        (''CentralAir'', \<lparr>dtype = Object, vals = [Str ''Y'']\<rparr>),
        (''Electrical'', \<lparr>dtype = Object, vals = [Str ''SBrkr'']\<rparr>),
        (''KitchenQual'', \<lparr>dtype = Object, vals = [Str ''TA'']\<rparr>),
        (''Functional'', \<lparr>dtype = Object, vals = [Str ''Typ'']\<rparr>),
        (''FireplaceQu'', \<lparr>dtype = Object, vals = [Str ''TA'']\<rparr>),
        (''GarageType'', \<lparr>dtype = Object, vals = [Str ''Attchd'']\<rparr>),
        (''GarageYrBlt'', \<lparr>dtype = Number, vals = [Num 1976]\<rparr>),
        (''GarageFinish'', \<lparr>dtype = Object, vals = [Str ''RFn'']\<rparr>),
        (''GarageQual'', \<lparr>dtype = Object, vals = [Str ''TA'']\<rparr>),
        (''GarageCond'', \<lparr>dtype = Object, vals = [Str ''TA'']\<rparr>),
        (''PavedDrive'', \<lparr>dtype = Object, vals = [Str ''Y'']\<rparr>),
        (''PoolQC'', \<lparr>dtype = Object, vals = [NA]\<rparr>),
        (''Fence'', \<lparr>dtype = Object, vals = [Str ''MnPrv'']\<rparr>),
        (''MiscFeature'', \<lparr>dtype = Object, vals = [NA]\<rparr>),
        (''SaleType'', \<lparr>dtype = Object, vals = [Str ''WD'']\<rparr>),
        (''SaleCondition'', \<lparr>dtype = Object, vals = [Str ''Normal'']\<rparr>),
        (''Notes'', \<lparr>dtype = Object, vals = [NA]\<rparr>),
        (''SalePrice'', \<lparr>dtype = Number, vals = [Num 181500]\<rparr>)]\<rparr>"

definition ex_test :: dataframe where
  "ex_test = \<lparr>index = [2],
     columns =
       [(''MSSubClass'', \<lparr>dtype = Number, vals = [Num 60]\<rparr>),
        (''MSZoning'', \<lparr>dtype = Object, vals = [Str ''RL'']\<rparr>),
        (''LotFrontage'', \<lparr>dtype = Number, vals = [NA]\<rparr>),
        (''Street'', \<lparr>dtype = Object, vals = [Str ''Pave'']\<rparr>),
        (''Alley'', \<lparr>dtype = Object, vals = [NA]\<rparr>),
        (''LotShape'', \<lparr>dtype = Object, vals = [Str ''IR1'']\<rparr>),
        (''LandContour'', \<lparr>dtype = Object, vals = [Str ''Lvl'']\<rparr>),
        (''Utilities'', \<lparr>dtype = Object, vals = [Str ''AllPub'']\<rparr>),
        (''LotConfig'', \<lparr>dtype = Object, vals = [Str ''Inside'']\<rparr>),
        (''LandSlope'', \<lparr>dtype = Object, vals = [Str ''Gtl'']\<rparr>),
        (''Neighborhood'', \<lparr>dtype = Object, vals = [Str ''CollgCr'']\<rparr>),
        (''Condition1'', \<lparr>dtype = Object, vals = [Str ''Norm'']\<rparr>),
        (''Condition2'', \<lparr>dtype = Object, vals = [Str ''Norm'']\<rparr>),
        (''BldgType'', \<lparr>dtype = Object, vals = [Str ''1Fam'']\<rparr>),
        (''HouseStyle'', \<lparr>dtype = Object, vals = [Str ''2Story'']\<rparr>),
        (''OverallQual'', \<lparr>dtype = Number, vals = [Num 7]\<rparr>),
        (''OverallCond'', \<lparr>dtype = Number, vals = [Num 5]\<rparr>),
        (''YearBuilt'', \<lparr>dtype = Number, vals = [Num 2001]\<rparr>),
        (''RoofStyle'', \<lparr>dtype = Object, vals = [Str ''Gable'']\<rparr>),
        (''RoofMatl'', \<lparr>dtype = Object, vals = [Str ''CompShg'']\<rparr>),
        (''Exterior1st'', \<lparr>dtype = Object, vals = [Str ''VinylSd'']\<rparr>),
        (''Exterior2nd'', \<lparr>dtype = Object, vals = [Str ''VinylSd'']\<rparr>),
        (''MasVnrType'', \<lparr>dtype = Object, vals = [Str ''BrkFace'']\<rparr>),
        (''ExterQual'', \<lparr>dtype = Object, vals = [Str ''Gd'']\<rparr>),
        (''ExterCond'', \<lparr>dtype = Object, vals = [Str ''TA'']\<rparr>),
        (''Foundation'', \<lparr>dtype = Object, vals = [Str ''PConc'']\<rparr>),
        (''BsmtQual'', \<lparr>dtype = Object, vals = [Str ''Gd'']\<rparr>),
        (''BsmtCond'', \<lparr>dtype = Object, vals = [Str ''TA'']\<rparr>),
        (''BsmtExposure'', \<lparr>dtype = Object, vals = [Str ''Mn'']\<rparr>),
        (''BsmtFinType1'', \<lparr>dtype = Object, vals = [Str ''GLQ'']\<rparr>),
        (''BsmtFinType2'', \<lparr>dtype = Object, vals = [Str ''Unf'']\<rparr>),
        (''Heating'', \<lparr>dtype = Object, vals = [Str ''GasA'']\<rparr>),
        (''HeatingQC'', \<lparr>dtype = Object, vals = [Str ''Ex'']\<rparr>),
        (''CentralAir'', \<lparr>dtype = Object, vals = [Str ''Y'']\<rparr>),
        (''Electrical'', \<lparr>dtype = Object, vals = [Str ''SBrkr'']\<rparr>),
        (''KitchenQual'', \<lparr>dtype = Object, vals = [Str ''Gd'']\<rparr>),
        (''Functional'', \<lparr>dtype = Object, vals = [Str ''Typ'']\<rparr>),
        (''FireplaceQu'', \<lparr>dtype = Object, vals = [Str ''TA'']\<rparr>),
        (''GarageType'', \<lparr>dtype = Object, vals = [Str ''Attchd'']\<rparr>),
        (''GarageYrBlt'', \<lparr>dtype = Number, vals = [Num 2001]\<rparr>),
        (''GarageFinish'', \<lparr>dtype = Object, vals = [Str ''RFn'']\<rparr>),
        (''GarageQual'', \<lparr>dtype = Object, vals = [Str ''TA'']\<rparr>),
        (''GarageCond'', \<lparr>dtype = Object, vals = [Str ''TA'']\<rparr>),
        (''PavedDrive'', \<lparr>dtype = Object, vals = [Str ''Y'']\<rparr>),
        (''PoolQC'', \<lparr>dtype = Object, vals = [NA]\<rparr>),
        (''Fence'', \<lparr>dtype = Object, vals = [NA]\<rparr>),
        (''MiscFeature'', \<lparr>dtype = Object, vals = [NA]\<rparr>),
        (''SaleType'', \<lparr>dtype = Object, vals = [Str ''WD'']\<rparr>),
        (''SaleCondition'', \<lparr>dtype = Object, vals = [Str ''Normal'']\<rparr>),
        (''Notes'', \<lparr>dtype = Object, vals = [Str ''corner lot'']\<rparr>)]\<rparr>"

text \<open>The two rows in one frame, as \<open>pd.concat\<close> returns them: the test row has no sale price.\<close>

definition ex_houses :: dataframe where
  "ex_houses = \<lparr>index = [1, 2],
     columns =
       [(''MSSubClass'', \<lparr>dtype = Number, vals = [Num 20, Num 60]\<rparr>),
        (''MSZoning'', \<lparr>dtype = Object, vals = [Str ''RL'', Str ''RL'']\<rparr>),
        (''LotFrontage'', \<lparr>dtype = Number, vals = [Num 80, NA]\<rparr>),
        (''Street'', \<lparr>dtype = Object, vals = [Str ''Pave'', Str ''Pave'']\<rparr>),
        (''Alley'', \<lparr>dtype = Object, vals = [NA, NA]\<rparr>),
        (''LotShape'', \<lparr>dtype = Object, vals = [Str ''Reg'', Str ''IR1'']\<rparr>),
        (''LandContour'', \<lparr>dtype = Object, vals = [Str ''Lvl'', Str ''Lvl'']\<rparr>),
        (''Utilities'', \<lparr>dtype = Object, vals = [Str ''AllPub'', Str ''AllPub'']\<rparr>),
        (''LotConfig'', \<lparr>dtype = Object, vals = [Str ''FR2'', Str ''Inside'']\<rparr>),
        (''LandSlope'', \<lparr>dtype = Object, vals = [Str ''Gtl'', Str ''Gtl'']\<rparr>),
        (''Neighborhood'', \<lparr>dtype = Object,
           vals = [Str ''Veenker'', Str ''CollgCr'']\<rparr>),
        (''Condition1'', \<lparr>dtype = Object, vals = [Str ''Feedr'', Str ''Norm'']\<rparr>),
        (''Condition2'', \<lparr>dtype = Object, vals = [Str ''Norm'', Str ''Norm'']\<rparr>),
        (''BldgType'', \<lparr>dtype = Object, vals = [Str ''1Fam'', Str ''1Fam'']\<rparr>),
        (''HouseStyle'', \<lparr>dtype = Object,
           vals = [Str ''1Story'', Str ''2Story'']\<rparr>),
        (''OverallQual'', \<lparr>dtype = Number, vals = [Num 10, Num 7]\<rparr>),
        (''OverallCond'', \<lparr>dtype = Number, vals = [Num 8, Num 5]\<rparr>),
        (''YearBuilt'', \<lparr>dtype = Number, vals = [Num 1976, Num 2001]\<rparr>),
        (''RoofStyle'', \<lparr>dtype = Object, vals = [Str ''Gable'', Str ''Gable'']\<rparr>),
        (''RoofMatl'', \<lparr>dtype = Object,
           vals = [Str ''CompShg'', Str ''CompShg'']\<rparr>),
        (''Exterior1st'', \<lparr>dtype = Object,
           vals = [Str ''MetalSd'', Str ''VinylSd'']\<rparr>),
        (''Exterior2nd'', \<lparr>dtype = Object,
           vals = [Str ''MetalSd'', Str ''VinylSd'']\<rparr>),
        (''MasVnrType'', \<lparr>dtype = Object, vals = [NA, Str ''BrkFace'']\<rparr>),
        (''ExterQual'', \<lparr>dtype = Object, vals = [Str ''TA'', Str ''Gd'']\<rparr>),
        (''ExterCond'', \<lparr>dtype = Object, vals = [Str ''TA'', Str ''TA'']\<rparr>),
        (''Foundation'', \<lparr>dtype = Object, vals = [Str ''CBlock'', Str ''PConc'']\<rparr>),
        (''BsmtQual'', \<lparr>dtype = Object, vals = [Str ''Gd'', Str ''Gd'']\<rparr>),
        (''BsmtCond'', \<lparr>dtype = Object, vals = [Str ''TA'', Str ''TA'']\<rparr>),
        (''BsmtExposure'', \<lparr>dtype = Object, vals = [Str ''Gd'', Str ''Mn'']\<rparr>),
        (''BsmtFinType1'', \<lparr>dtype = Object, vals = [Str ''ALQ'', Str ''GLQ'']\<rparr>),
        (''BsmtFinType2'', \<lparr>dtype = Object, vals = [Str ''Unf'', Str ''Unf'']\<rparr>),
        (''Heating'', \<lparr>dtype = Object, vals = [Str ''GasA'', Str ''GasA'']\<rparr>),
        (''HeatingQC'', \<lparr>dtype = Object, vals = [Str ''Ex'', Str ''Ex'']\<rparr>),
        (''CentralAir'', \<lparr>dtype = Object, vals = [Str ''Y'', Str ''Y'']\<rparr>),
        (''Electrical'', \<lparr>dtype = Object, vals = [Str ''SBrkr'', Str ''SBrkr'']\<rparr>),
        (''KitchenQual'', \<lparr>dtype = Object, vals = [Str ''TA'', Str ''Gd'']\<rparr>),
        (''Functional'', \<lparr>dtype = Object, vals = [Str ''Typ'', Str ''Typ'']\<rparr>),
        (''FireplaceQu'', \<lparr>dtype = Object, vals = [Str ''TA'', Str ''TA'']\<rparr>),
        (''GarageType'', \<lparr>dtype = Object,
           vals = [Str ''Attchd'', Str ''Attchd'']\<rparr>),
        (''GarageYrBlt'', \<lparr>dtype = Number, vals = [Num 1976, Num 2001]\<rparr>),
        (''GarageFinish'', \<lparr>dtype = Object, vals = [Str ''RFn'', Str ''RFn'']\<rparr>),
        (''GarageQual'', \<lparr>dtype = Object, vals = [Str ''TA'', Str ''TA'']\<rparr>),
        (''GarageCond'', \<lparr>dtype = Object, vals = [Str ''TA'', Str ''TA'']\<rparr>),
        (''PavedDrive'', \<lparr>dtype = Object, vals = [Str ''Y'', Str ''Y'']\<rparr>),
        (''PoolQC'', \<lparr>dtype = Object, vals = [NA, NA]\<rparr>),
        (''Fence'', \<lparr>dtype = Object, vals = [Str ''MnPrv'', NA]\<rparr>),
        (''MiscFeature'', \<lparr>dtype = Object, vals = [NA, NA]\<rparr>),
        (''SaleType'', \<lparr>dtype = Object, vals = [Str ''WD'', Str ''WD'']\<rparr>),
        (''SaleCondition'', \<lparr>dtype = Object,
           vals = [Str ''Normal'', Str ''Normal'']\<rparr>),
        (''Notes'', \<lparr>dtype = Object, vals = [NA, Str ''corner lot'']\<rparr>),
        (''SalePrice'', \<lparr>dtype = Number, vals = [Num 181500, NA]\<rparr>)]\<rparr>"

text \<open>The frame after \<open>encode\<close>. Overall quality 10 is not among the levels 0 to 9 and has
  become missing.\<close>

definition ex_houses_encoded :: dataframe where
  "ex_houses_encoded = \<lparr>index = [1, 2],
     columns =
       [(''MSSubClass'', \<lparr>dtype = Category [Num 20, Num 60, Str ''None''] False,
           vals = [Num 20, Num 60]\<rparr>),
        (''MSZoning'', \<lparr>dtype = Category [Str ''RL'', Str ''None''] False,
           vals = [Str ''RL'', Str ''RL'']\<rparr>),
        (''LotFrontage'', \<lparr>dtype = Number, vals = [Num 80, NA]\<rparr>),
        (''Street'', \<lparr>dtype = Category [Str ''Pave'', Str ''None''] False,
           vals = [Str ''Pave'', Str ''Pave'']\<rparr>),
        (''Alley'', \<lparr>dtype = Category [Str ''None''] False, vals = [NA, NA]\<rparr>),
        (''LotShape'', \<lparr>dtype = Category [Str ''None'', Str ''Reg'', Str ''IR1'', Str ''IR2'',
             Str ''IR3''] True,
           vals = [Str ''Reg'', Str ''IR1'']\<rparr>),
        (''LandContour'', \<lparr>dtype = Category [Str ''Lvl'', Str ''None''] False,
           vals = [Str ''Lvl'', Str ''Lvl'']\<rparr>),
        (''Utilities'', \<lparr>dtype = Category [Str ''None'', Str ''NoSeWa'', Str ''NoSewr'',
             Str ''AllPub''] True,
           vals = [Str ''AllPub'', Str ''AllPub'']\<rparr>),
        (''LotConfig'', \<lparr>dtype = Category [Str ''FR2'', Str ''Inside'', Str ''None''] False,
           vals = [Str ''FR2'', Str ''Inside'']\<rparr>),
        (''LandSlope'', \<lparr>dtype = Category [Str ''None'', Str ''Sev'', Str ''Mod'',
             Str ''Gtl''] True,
           vals = [Str ''Gtl'', Str ''Gtl'']\<rparr>),
        (''Neighborhood'', \<lparr>dtype = Category [Str ''CollgCr'', Str ''Veenker'',
             Str ''None''] False,
           vals = [Str ''Veenker'', Str ''CollgCr'']\<rparr>),
        (''Condition1'', \<lparr>dtype = Category [Str ''Feedr'', Str ''Norm'', Str ''None''] False,
           vals = [Str ''Feedr'', Str ''Norm'']\<rparr>),
        (''Condition2'', \<lparr>dtype = Category [Str ''Norm'', Str ''None''] False,
           vals = [Str ''Norm'', Str ''Norm'']\<rparr>),
        (''BldgType'', \<lparr>dtype = Category [Str ''1Fam'', Str ''None''] False,
           vals = [Str ''1Fam'', Str ''1Fam'']\<rparr>),
        (''HouseStyle'', \<lparr>dtype = Category [Str ''1Story'', Str ''2Story'', Str ''None''] False,
           vals = [Str ''1Story'', Str ''2Story'']\<rparr>),
        (''OverallQual'', \<lparr>dtype = Category [Str ''None'', Num 0, Num 1, Num 2, Num 3, Num 4,
             Num 5, Num 6, Num 7, Num 8, Num 9] True,
           vals = [NA, Num 7]\<rparr>),
        (''OverallCond'', \<lparr>dtype = Category [Str ''None'', Num 0, Num 1, Num 2, Num 3, Num 4,
             Num 5, Num 6, Num 7, Num 8, Num 9] True,
           vals = [Num 8, Num 5]\<rparr>),
        (''YearBuilt'', \<lparr>dtype = Number, vals = [Num 1976, Num 2001]\<rparr>),
        (''RoofStyle'', \<lparr>dtype = Category [Str ''Gable'', Str ''None''] False,
           vals = [Str ''Gable'', Str ''Gable'']\<rparr>),
        (''RoofMatl'', \<lparr>dtype = Category [Str ''CompShg'', Str ''None''] False,
           vals = [Str ''CompShg'', Str ''CompShg'']\<rparr>),
        (''Exterior1st'', \<lparr>dtype = Category [Str ''MetalSd'', Str ''VinylSd'',
             Str ''None''] False,
           vals = [Str ''MetalSd'', Str ''VinylSd'']\<rparr>),
        (''Exterior2nd'', \<lparr>dtype = Category [Str ''MetalSd'', Str ''VinylSd'',
             Str ''None''] False,
           vals = [Str ''MetalSd'', Str ''VinylSd'']\<rparr>),
        (''MasVnrType'', \<lparr>dtype = Category [Str ''BrkFace'', Str ''None''] False,
           vals = [NA, Str ''BrkFace'']\<rparr>),
        (''ExterQual'', \<lparr>dtype = Category [Str ''None'', Str ''Po'', Str ''Fa'', Str ''TA'',
             Str ''Gd'', Str ''Ex''] True,
           vals = [Str ''TA'', Str ''Gd'']\<rparr>),
        (''ExterCond'', \<lparr>dtype = Category [Str ''None'', Str ''Po'', Str ''Fa'', Str ''TA'',
             Str ''Gd'', Str ''Ex''] True,
           vals = [Str ''TA'', Str ''TA'']\<rparr>),
        (''Foundation'', \<lparr>dtype = Category [Str ''CBlock'', Str ''PConc'', Str ''None''] False,
           vals = [Str ''CBlock'', Str ''PConc'']\<rparr>),
        (''BsmtQual'', \<lparr>dtype = Category [Str ''None'', Str ''Po'', Str ''Fa'', Str ''TA'',
             Str ''Gd'', Str ''Ex''] True,
           vals = [Str ''Gd'', Str ''Gd'']\<rparr>),
        (''BsmtCond'', \<lparr>dtype = Category [Str ''None'', Str ''Po'', Str ''Fa'', Str ''TA'',
             Str ''Gd'', Str ''Ex''] True,
           vals = [Str ''TA'', Str ''TA'']\<rparr>),
        (''BsmtExposure'', \<lparr>dtype = Category [Str ''None'', Str ''No'', Str ''Mn'', Str ''Av'',
             Str ''Gd''] True,
           vals = [Str ''Gd'', Str ''Mn'']\<rparr>),
        (''BsmtFinType1'', \<lparr>dtype = Category [Str ''None'', Str ''Unf'', Str ''LwQ'',
             Str ''Rec'', Str ''BLQ'', Str ''ALQ'', Str ''GLQ''] True,
           vals = [Str ''ALQ'', Str ''GLQ'']\<rparr>),
        (''BsmtFinType2'', \<lparr>dtype = Category [Str ''None'', Str ''Unf'', Str ''LwQ'',
             Str ''Rec'', Str ''BLQ'', Str ''ALQ'', Str ''GLQ''] True,
           vals = [Str ''Unf'', Str ''Unf'']\<rparr>),
        (''Heating'', \<lparr>dtype = Category [Str ''GasA'', Str ''None''] False,
           vals = [Str ''GasA'', Str ''GasA'']\<rparr>),
        (''HeatingQC'', \<lparr>dtype = Category [Str ''None'', Str ''Po'', Str ''Fa'', Str ''TA'',
             Str ''Gd'', Str ''Ex''] True,
           vals = [Str ''Ex'', Str ''Ex'']\<rparr>),
        (''CentralAir'', \<lparr>dtype = Category [Str ''None'', Str ''N'', Str ''Y''] True,
           vals = [Str ''Y'', Str ''Y'']\<rparr>),
        (''Electrical'', \<lparr>dtype = Category [Str ''None'', Str ''Mix'', Str ''FuseP'',
             Str ''FuseF'', Str ''FuseA'', Str ''SBrkr''] True,
           vals = [Str ''SBrkr'', Str ''SBrkr'']\<rparr>),
        (''KitchenQual'', \<lparr>dtype = Category [Str ''None'', Str ''Po'', Str ''Fa'', Str ''TA'',
             Str ''Gd'', Str ''Ex''] True,
           vals = [Str ''TA'', Str ''Gd'']\<rparr>),
        (''Functional'', \<lparr>dtype = Category [Str ''None'', Str ''Sal'', Str ''Sev'',
             Str ''Maj1'', Str ''Maj2'', Str ''Mod'', Str ''Min2'', Str ''Min1'',
             Str ''Typ''] True,
           vals = [Str ''Typ'', Str ''Typ'']\<rparr>),
        (''FireplaceQu'', \<lparr>dtype = Category [Str ''None'', Str ''Po'', Str ''Fa'', Str ''TA'',
             Str ''Gd'', Str ''Ex''] True,
           vals = [Str ''TA'', Str ''TA'']\<rparr>),
        (''GarageType'', \<lparr>dtype = Category [Str ''Attchd'', Str ''None''] False,
           vals = [Str ''Attchd'', Str ''Attchd'']\<rparr>),
        (''GarageYrBlt'', \<lparr>dtype = Number, vals = [Num 1976, Num 2001]\<rparr>),
        (''GarageFinish'', \<lparr>dtype = Category [Str ''None'', Str ''Unf'', Str ''RFn'',
             Str ''Fin''] True,
           vals = [Str ''RFn'', Str ''RFn'']\<rparr>),
        (''GarageQual'', \<lparr>dtype = Category [Str ''None'', Str ''Po'', Str ''Fa'', Str ''TA'',
             Str ''Gd'', Str ''Ex''] True,
           vals = [Str ''TA'', Str ''TA'']\<rparr>),
        (''GarageCond'', \<lparr>dtype = Category [Str ''None'', Str ''Po'', Str ''Fa'', Str ''TA'',
             Str ''Gd'', Str ''Ex''] True,
           vals = [Str ''TA'', Str ''TA'']\<rparr>),
        (''PavedDrive'', \<lparr>dtype = Category [Str ''None'', Str ''N'', Str ''P'', Str ''Y''] True,
           vals = [Str ''Y'', Str ''Y'']\<rparr>),
        (''PoolQC'', \<lparr>dtype = Category [Str ''None'', Str ''Po'', Str ''Fa'', Str ''TA'',
             Str ''Gd'', Str ''Ex''] True,
           vals = [NA, NA]\<rparr>),
        (''Fence'', \<lparr>dtype = Category [Str ''None'', Str ''MnWw'', Str ''GdWo'', Str ''MnPrv'',
             Str ''GdPrv''] True,
           vals = [Str ''MnPrv'', NA]\<rparr>),
        (''MiscFeature'', \<lparr>dtype = Category [Str ''None''] False,
           vals = [NA, NA]\<rparr>),
        (''SaleType'', \<lparr>dtype = Category [Str ''WD'', Str ''None''] False,
           vals = [Str ''WD'', Str ''WD'']\<rparr>),
        (''SaleCondition'', \<lparr>dtype = Category [Str ''Normal'', Str ''None''] False,
           vals = [Str ''Normal'', Str ''Normal'']\<rparr>),
        (''Notes'', \<lparr>dtype = Object, vals = [NA, Str ''corner lot'']\<rparr>),
        (''SalePrice'', \<lparr>dtype = Number, vals = [Num 181500, NA]\<rparr>)]\<rparr>"

text \<open>The frame after \<open>impute\<close>: the missing note of the first house is still missing.\<close>

definition ex_houses_imputed :: dataframe where
  "ex_houses_imputed = \<lparr>index = [1, 2],
     columns =
       [(''MSSubClass'', \<lparr>dtype = Category [Num 20, Num 60, Str ''None''] False,
           vals = [Num 20, Num 60]\<rparr>),
        (''MSZoning'', \<lparr>dtype = Category [Str ''RL'', Str ''None''] False,
           vals = [Str ''RL'', Str ''RL'']\<rparr>),
        (''LotFrontage'', \<lparr>dtype = Number, vals = [Num 80, Num 0]\<rparr>),
        (''Street'', \<lparr>dtype = Category [Str ''Pave'', Str ''None''] False,
           vals = [Str ''Pave'', Str ''Pave'']\<rparr>),
        (''Alley'', \<lparr>dtype = Category [Str ''None''] False,
           vals = [Str ''None'', Str ''None'']\<rparr>),
        (''LotShape'', \<lparr>dtype = Category [Str ''None'', Str ''Reg'', Str ''IR1'', Str ''IR2'',
             Str ''IR3''] True,
           vals = [Str ''Reg'', Str ''IR1'']\<rparr>),
        (''LandContour'', \<lparr>dtype = Category [Str ''Lvl'', Str ''None''] False,
           vals = [Str ''Lvl'', Str ''Lvl'']\<rparr>),
        (''Utilities'', \<lparr>dtype = Category [Str ''None'', Str ''NoSeWa'', Str ''NoSewr'',
             Str ''AllPub''] True,
           vals = [Str ''AllPub'', Str ''AllPub'']\<rparr>),
        (''LotConfig'', \<lparr>dtype = Category [Str ''FR2'', Str ''Inside'', Str ''None''] False,
           vals = [Str ''FR2'', Str ''Inside'']\<rparr>),
        (''LandSlope'', \<lparr>dtype = Category [Str ''None'', Str ''Sev'', Str ''Mod'',
             Str ''Gtl''] True,
           vals = [Str ''Gtl'', Str ''Gtl'']\<rparr>),
        (''Neighborhood'', \<lparr>dtype = Category [Str ''CollgCr'', Str ''Veenker'',
             Str ''None''] False,
           vals = [Str ''Veenker'', Str ''CollgCr'']\<rparr>),
        (''Condition1'', \<lparr>dtype = Category [Str ''Feedr'', Str ''Norm'', Str ''None''] False,
           vals = [Str ''Feedr'', Str ''Norm'']\<rparr>),
        (''Condition2'', \<lparr>dtype = Category [Str ''Norm'', Str ''None''] False,
           vals = [Str ''Norm'', Str ''Norm'']\<rparr>),
        (''BldgType'', \<lparr>dtype = Category [Str ''1Fam'', Str ''None''] False,
           vals = [Str ''1Fam'', Str ''1Fam'']\<rparr>),
        (''HouseStyle'', \<lparr>dtype = Category [Str ''1Story'', Str ''2Story'', Str ''None''] False,
           vals = [Str ''1Story'', Str ''2Story'']\<rparr>),
        (''OverallQual'', \<lparr>dtype = Category [Str ''None'', Num 0, Num 1, Num 2, Num 3, Num 4,
             Num 5, Num 6, Num 7, Num 8, Num 9] True,
           vals = [Str ''None'', Num 7]\<rparr>),
        (''OverallCond'', \<lparr>dtype = Category [Str ''None'', Num 0, Num 1, Num 2, Num 3, Num 4,
             Num 5, Num 6, Num 7, Num 8, Num 9] True,
           vals = [Num 8, Num 5]\<rparr>),
        (''YearBuilt'', \<lparr>dtype = Number, vals = [Num 1976, Num 2001]\<rparr>),
        (''RoofStyle'', \<lparr>dtype = Category [Str ''Gable'', Str ''None''] False,
           vals = [Str ''Gable'', Str ''Gable'']\<rparr>),
        (''RoofMatl'', \<lparr>dtype = Category [Str ''CompShg'', Str ''None''] False,
           vals = [Str ''CompShg'', Str ''CompShg'']\<rparr>),
        (''Exterior1st'', \<lparr>dtype = Category [Str ''MetalSd'', Str ''VinylSd'',
             Str ''None''] False,
           vals = [Str ''MetalSd'', Str ''VinylSd'']\<rparr>),
        (''Exterior2nd'', \<lparr>dtype = Category [Str ''MetalSd'', Str ''VinylSd'',
             Str ''None''] False,
           vals = [Str ''MetalSd'', Str ''VinylSd'']\<rparr>),
        (''MasVnrType'', \<lparr>dtype = Category [Str ''BrkFace'', Str ''None''] False,
           vals = [Str ''None'', Str ''BrkFace'']\<rparr>),
        (''ExterQual'', \<lparr>dtype = Category [Str ''None'', Str ''Po'', Str ''Fa'', Str ''TA'',
             Str ''Gd'', Str ''Ex''] True,
           vals = [Str ''TA'', Str ''Gd'']\<rparr>),
        (''ExterCond'', \<lparr>dtype = Category [Str ''None'', Str ''Po'', Str ''Fa'', Str ''TA'',
             Str ''Gd'', Str ''Ex''] True,
           vals = [Str ''TA'', Str ''TA'']\<rparr>),
        (''Foundation'', \<lparr>dtype = Category [Str ''CBlock'', Str ''PConc'', Str ''None''] False,
           vals = [Str ''CBlock'', Str ''PConc'']\<rparr>),
        (''BsmtQual'', \<lparr>dtype = Category [Str ''None'', Str ''Po'', Str ''Fa'', Str ''TA'',
             Str ''Gd'', Str ''Ex''] True,
           vals = [Str ''Gd'', Str ''Gd'']\<rparr>),
        (''BsmtCond'', \<lparr>dtype = Category [Str ''None'', Str ''Po'', Str ''Fa'', Str ''TA'',
             Str ''Gd'', Str ''Ex''] True,
           vals = [Str ''TA'', Str ''TA'']\<rparr>),
        (''BsmtExposure'', \<lparr>dtype = Category [Str ''None'', Str ''No'', Str ''Mn'', Str ''Av'',
             Str ''Gd''] True,
           vals = [Str ''Gd'', Str ''Mn'']\<rparr>),
        (''BsmtFinType1'', \<lparr>dtype = Category [Str ''None'', Str ''Unf'', Str ''LwQ'',
             Str ''Rec'', Str ''BLQ'', Str ''ALQ'', Str ''GLQ''] True,
           vals = [Str ''ALQ'', Str ''GLQ'']\<rparr>),
        (''BsmtFinType2'', \<lparr>dtype = Category [Str ''None'', Str ''Unf'', Str ''LwQ'',
             Str ''Rec'', Str ''BLQ'', Str ''ALQ'', Str ''GLQ''] True,
           vals = [Str ''Unf'', Str ''Unf'']\<rparr>),
        (''Heating'', \<lparr>dtype = Category [Str ''GasA'', Str ''None''] False,
           vals = [Str ''GasA'', Str ''GasA'']\<rparr>),
        (''HeatingQC'', \<lparr>dtype = Category [Str ''None'', Str ''Po'', Str ''Fa'', Str ''TA'',
             Str ''Gd'', Str ''Ex''] True,
           vals = [Str ''Ex'', Str ''Ex'']\<rparr>),
        (''CentralAir'', \<lparr>dtype = Category [Str ''None'', Str ''N'', Str ''Y''] True,
           vals = [Str ''Y'', Str ''Y'']\<rparr>),
        (''Electrical'', \<lparr>dtype = Category [Str ''None'', Str ''Mix'', Str ''FuseP'',
             Str ''FuseF'', Str ''FuseA'', Str ''SBrkr''] True,
           vals = [Str ''SBrkr'', Str ''SBrkr'']\<rparr>),
        (''KitchenQual'', \<lparr>dtype = Category [Str ''None'', Str ''Po'', Str ''Fa'', Str ''TA'',
             Str ''Gd'', Str ''Ex''] True,
           vals = [Str ''TA'', Str ''Gd'']\<rparr>),
        (''Functional'', \<lparr>dtype = Category [Str ''None'', Str ''Sal'', Str ''Sev'',
             Str ''Maj1'', Str ''Maj2'', Str ''Mod'', Str ''Min2'', Str ''Min1'',
             Str ''Typ''] True,
           vals = [Str ''Typ'', Str ''Typ'']\<rparr>),
        (''FireplaceQu'', \<lparr>dtype = Category [Str ''None'', Str ''Po'', Str ''Fa'', Str ''TA'',
             Str ''Gd'', Str ''Ex''] True,
           vals = [Str ''TA'', Str ''TA'']\<rparr>),
        (''GarageType'', \<lparr>dtype = Category [Str ''Attchd'', Str ''None''] False,
           vals = [Str ''Attchd'', Str ''Attchd'']\<rparr>),
        (''GarageYrBlt'', \<lparr>dtype = Number, vals = [Num 1976, Num 2001]\<rparr>),
        (''GarageFinish'', \<lparr>dtype = Category [Str ''None'', Str ''Unf'', Str ''RFn'',
             Str ''Fin''] True,
           vals = [Str ''RFn'', Str ''RFn'']\<rparr>),
        (''GarageQual'', \<lparr>dtype = Category [Str ''None'', Str ''Po'', Str ''Fa'', Str ''TA'',
             Str ''Gd'', Str ''Ex''] True,
           vals = [Str ''TA'', Str ''TA'']\<rparr>),
        (''GarageCond'', \<lparr>dtype = Category [Str ''None'', Str ''Po'', Str ''Fa'', Str ''TA'',
             Str ''Gd'', Str ''Ex''] True,
           vals = [Str ''TA'', Str ''TA'']\<rparr>),
        (''PavedDrive'', \<lparr>dtype = Category [Str ''None'', Str ''N'', Str ''P'', Str ''Y''] True,
           vals = [Str ''Y'', Str ''Y'']\<rparr>),
        (''PoolQC'', \<lparr>dtype = Category [Str ''None'', Str ''Po'', Str ''Fa'', Str ''TA'',
             Str ''Gd'', Str ''Ex''] True,
           vals = [Str ''None'', Str ''None'']\<rparr>),
        (''Fence'', \<lparr>dtype = Category [Str ''None'', Str ''MnWw'', Str ''GdWo'', Str ''MnPrv'',
             Str ''GdPrv''] True,
           vals = [Str ''MnPrv'', Str ''None'']\<rparr>),
        (''MiscFeature'', \<lparr>dtype = Category [Str ''None''] False,
           vals = [Str ''None'', Str ''None'']\<rparr>),
        (''SaleType'', \<lparr>dtype = Category [Str ''WD'', Str ''None''] False,
           vals = [Str ''WD'', Str ''WD'']\<rparr>),
        (''SaleCondition'', \<lparr>dtype = Category [Str ''Normal'', Str ''None''] False,
           vals = [Str ''Normal'', Str ''Normal'']\<rparr>),
        (''Notes'', \<lparr>dtype = Object, vals = [NA, Str ''corner lot'']\<rparr>),
        (''SalePrice'', \<lparr>dtype = Number, vals = [Num 181500, Num 0]\<rparr>)]\<rparr>"

text \<open>
  Five houses with a categorical and a numeric feature, their sale prices, the heap in
  which reference 0 denotes the frame and reference 1 the prices, and a regressor that
  predicts the mean of the targets it was fitted on. \<open>ex_scored_codes\<close> is the frame with
  the neighbourhoods replaced by their category codes.
\<close>

definition ex_scored :: dataframe where
  "ex_scored = \<lparr>index = [1, 2, 3, 4, 5],
     columns = [(''Neighborhood'',
                 \<lparr>dtype = Category [Str ''CollgCr'', Str ''Veenker'', Str ''None''] False,
                  vals = [Str ''CollgCr'', Str ''Veenker'', Str ''CollgCr'', Str ''None'',
                          Str ''Veenker'']\<rparr>),
                (''GrLivArea'',
                 \<lparr>dtype = Number, vals = [Num 1710, Num 1262, Num 1786, Num 1717, Num 2198]\<rparr>)]\<rparr>"

definition ex_scored_codes :: dataframe where
  "ex_scored_codes = \<lparr>index = [1, 2, 3, 4, 5],
     columns = [(''Neighborhood'', \<lparr>dtype = Number, vals = [Num 0, Num 1, Num 0, Num 2, Num 1]\<rparr>),
                (''GrLivArea'',
                 \<lparr>dtype = Number, vals = [Num 1710, Num 1262, Num 1786, Num 1717, Num 2198]\<rparr>)]\<rparr>"

definition ex_prices :: "cell list" where
  "ex_prices = [Num 208500, Num 181500, Num 223500, Num 140000, Num 250000]"

definition ex_heap :: heap where
  "ex_heap = [0 \<mapsto> Frame ex_scored, 1 \<mapsto> Target ex_prices]"

definition mean_regressor :: "real regressor" where
  "mean_regressor = \<lparr>fit = (\<lambda>X y. mean y), predict = (\<lambda>m X. replicate (nrows X) m)\<rparr>"

text \<open>
  Seven houses, which \<open>KFold(5)\<close> divides into two folds of two rows and three folds of
  one row, and the heap in which reference 0 denotes them and reference 1 their prices.
\<close>

definition ex_seven :: dataframe where
  "ex_seven = \<lparr>index = [1, 2, 3, 4, 5, 6, 7],
     columns = [(''Neighborhood'',
                 \<lparr>dtype = Category [Str ''CollgCr'', Str ''Veenker'', Str ''None''] False,
                  vals = [Str ''CollgCr'', Str ''Veenker'', Str ''CollgCr'', Str ''None'',
                          Str ''Veenker'', Str ''None'', Str ''CollgCr'']\<rparr>),
                (''GrLivArea'',
                 \<lparr>dtype = Number,
                  vals = [Num 1710, Num 1262, Num 1786, Num 1717, Num 2198, Num 1362, Num 1694]\<rparr>)]\<rparr>"

definition ex_seven_heap :: heap where
  "ex_seven_heap =
     [0 \<mapsto> Frame ex_seven,
      1 \<mapsto> Target (map Num [208500, 181500, 223500, 140000, 250000, 143000, 307000])]"

text \<open>
  A target encoder of the M-estimate kind, to instantiate the statements about
  \<open>CrossFoldEncoder\<close>: fitting records the mean of the targets (the prior) and, for every
  column to encode and every value in it, the sum of the targets of the rows with that
  value plus \<open>m\<close> times the prior, divided by the number of those rows plus \<open>m\<close>;
  transforming replaces a value by its estimate, and a value not seen in fitting by the
  prior. \<open>ex_fold_encoded\<close> and \<open>ex_averaged\<close> are what \<open>fit_transform\<close> and \<open>transform\<close> return
  for the five houses with \<open>m = 1\<close>.
\<close>

type_synonym m_model = "real \<times> (string \<times> (cell \<times> real) list) list"

definition m_estimate_fit :: "real \<Rightarrow> string list \<Rightarrow> dataframe \<Rightarrow> cell list \<Rightarrow> m_model" where
  "m_estimate_fit m cs X y =
     (let prior = mean (map cell_value y)
      in (prior,
          map (\<lambda>name.
                 (name,
                  map (\<lambda>v. (v, (sum_list (map (\<lambda>p. cell_value (snd p))
                                             (filter (\<lambda>p. fst p = v) (zip (part_of name X) y)))
                                   + m * prior)
                                  / (real (length (filter (\<lambda>w. w = v) (part_of name X))) + m)))
                      (first_seen (part_of name X))))
              cs))"

definition m_estimate_transform :: "m_model \<Rightarrow> dataframe \<Rightarrow> dataframe" where
  "m_estimate_transform model X =
     X\<lparr>columns :=
         map (\<lambda>c. case map_of (snd model) (fst c) of
                     None \<Rightarrow> c
                   | Some table \<Rightarrow>
                       (fst c,
                        \<lparr>dtype = Number,
                         vals = map (\<lambda>v. case map_of table v of
                                            None \<Rightarrow> Num (fst model)
                                          | Some e \<Rightarrow> Num e) (vals (snd c))\<rparr>))
             (columns X)\<rparr>"

definition m_estimate :: "real \<Rightarrow> m_model encoder" where
  "m_estimate m = \<lparr>enc_fit = m_estimate_fit m, enc_transform = m_estimate_transform\<rparr>"

definition ex_fold_encoded :: dataframe where
  "ex_fold_encoded = \<lparr>index = [1, 2, 3, 4, 5],
     columns = [(''Neighborhood_encoded'',
                 \<lparr>dtype = Number,
                  vals = [Num 211125, Num 227750, Num 201750, Num 215875, Num (369875 / 2)]\<rparr>)]\<rparr>"

definition ex_averaged :: dataframe where
  "ex_averaged = \<lparr>index = [1, 2, 3, 4, 5],
     columns = [(''Neighborhood_encoded'',
                 \<lparr>dtype = Number,
                  vals = [Num 209625, Num (1256875 / 6), Num 209625, Num (355875 / 2),
                          Num (1256875 / 6)]\<rparr>)]\<rparr>"

section \<open>Basic facts\<close>

lemma and_then_simps [simp]:
  "and_then (Inl e) f = Inl e"
  "and_then (Inr x) f = f x"
  by (simp_all add: and_then_def)

lemma and_then_eq_Inr:
  "and_then m f = Inr y \<longleftrightarrow> (\<exists>x. m = Inr x \<and> f x = Inr y)"
  by (cases m) simp_all

lemma map_of_assign:
  "map_of (assign name s cs) n = (if n = name then Some s else map_of cs n)"
  by (induction cs) auto

lemma getattr_eq_Inr [simp]: "getattr df n = Inr s \<longleftrightarrow> getitem df n = Inr s"
  by (simp add: getattr_def getitem_def split: option.splits)

lemma getitem_setitem:
  "getitem (setitem df name s) n = (if n = name then Inr s else getitem df n)"
  by (simp add: getitem_def setitem_def map_of_assign)

lemma map_of_relabel:
  assumes "\<And>k. (f k = n) = (k = n)"
  shows "map_of (map (\<lambda>c. (f (fst c), snd c)) cs) n = map_of cs n"
proof (induction cs)
  case Nil
  show ?case by simp
next
  case (Cons c cs)
  have "(f (fst c) = n) = (fst c = n)" by (rule assms)
  with Cons show ?case by (cases c) auto
qed

lemma getitem_rename:
  assumes "n \<notin> fst ` set m" and "n \<notin> snd ` set m"
  shows "getitem (rename m df) n = getitem df n"
proof -
  have "\<And>k. ((case map_of m k of None \<Rightarrow> k | Some n \<Rightarrow> n) = n) = (k = n)"
    using assms
    by (auto split: option.splits dest!: map_of_SomeD simp: map_of_eq_None_iff image_iff)
  then have "map_of (map (\<lambda>c. (case map_of m (fst c) of None \<Rightarrow> fst c | Some n \<Rightarrow> n, snd c))
                  (columns df)) n = map_of (columns df) n"
    by (rule map_of_relabel)
  then show ?thesis by (simp add: getitem_def rename_def)
qed

lemma getitem_wf_length:
  "wf_df df \<Longrightarrow> getitem df n = Inr s \<Longrightarrow> length (vals s) = nrows df"
  by (auto simp: wf_df_def getitem_def list_all_iff split: option.splits dest!: map_of_SomeD)

section \<open>clean: the garage year\<close>

lemma le_scalar_Inr: "le_scalar s c = Inr cond \<Longrightarrow> cond = map (cell_le c) (vals s)"
  by (auto simp: le_scalar_def split: dtype.splits if_splits)

lemma where_series_nth:
  "length cond = length (vals s) \<Longrightarrow> length (vals other) = length (vals s) \<Longrightarrow>
   i < length (vals s) \<Longrightarrow>
   vals (where_series s cond other) ! i = (if cond ! i then vals s ! i else vals other ! i)"
  by (simp add: where_series_def)

lemma where_series_length:
  "length cond = length (vals s) \<Longrightarrow> length (vals other) = length (vals s) \<Longrightarrow>
   length (vals (where_series s cond other)) = length (vals s)"
  by (simp add: where_series_def)

text \<open>
  Claim C8, as the code has it. When \<open>clean\<close> returns, the new \<open>GarageYrBlt\<close> column
  holds, in every row, the old entry if that entry is a number at most 2010, and the
  row's \<open>YearBuilt\<close> entry otherwise (so also where the old entry was missing). Hence
  every new entry is at most 2010 or equal to the row's \<open>YearBuilt\<close>, and it is missing
  only in a row whose \<open>YearBuilt\<close> is missing.
\<close>

theorem clean_GarageYrBlt:
  assumes "clean df = Inr df'" and "wf_df df"
  shows "\<exists>garage built garage'.
           getitem df ''GarageYrBlt'' = Inr garage \<and>
           getitem df ''YearBuilt'' = Inr built \<and>
           getitem df' ''GarageYrBlt'' = Inr garage' \<and>
           length (vals garage') = nrows df \<and>
           (\<forall>i<nrows df. vals garage' ! i =
               (if cell_le 2010 (vals garage ! i) then vals garage ! i else vals built ! i)) \<and>
           (\<forall>i<nrows df. cell_le 2010 (vals garage' ! i) \<or> vals garage' ! i = vals built ! i) \<and>
           (\<forall>i<nrows df. vals built ! i \<noteq> NA \<longrightarrow> vals garage' ! i \<noteq> NA)"
proof -
  from assms(1) obtain ext garage cond built where
    g: "getitem df ''GarageYrBlt'' = Inr garage" and
    c: "le_scalar garage 2010 = Inr cond" and
    b: "getitem df ''YearBuilt'' = Inr built" and
    df': "df' = rename [(''1stFlrSF'', ''FirstFlrSF''), (''2ndFlrSF'', ''SecondFlrSF''),
                         (''3SsnPorch'', ''Threeseasonporch'')]
           (setitem (setitem df ''Exterior2nd''
               (replace [(Str ''Brk Cmn'', Str ''BrkComm''), (Str ''Wd Shng'', Str ''Wd Sdng''),
                         (Str ''CmentBd'', Str ''CemntBd'')] ext))
             ''GarageYrBlt'' (where_series garage cond built))"
    by (auto simp: clean_def and_then_eq_Inr Let_def getitem_setitem)
  have lg: "length (vals garage) = nrows df" and lb: "length (vals built) = nrows df"
    using assms(2) g b by (auto dest: getitem_wf_length)
  have cond: "cond = map (cell_le 2010) (vals garage)" using c by (rule le_scalar_Inr)
  let ?g' = "where_series garage cond built"
  have g': "getitem df' ''GarageYrBlt'' = Inr ?g'"
    unfolding df' by (subst getitem_rename) (simp_all add: getitem_setitem)
  have len: "length (vals ?g') = nrows df"
    using lg lb cond by (simp add: where_series_length)
  have nth: "\<forall>i<nrows df. vals ?g' ! i =
               (if cell_le 2010 (vals garage ! i) then vals garage ! i else vals built ! i)"
    using lg lb cond by (simp add: where_series_nth)
  have na: "\<forall>i<nrows df. vals built ! i \<noteq> NA \<longrightarrow> vals ?g' ! i \<noteq> NA"
    using nth by auto
  have le: "\<forall>i<nrows df. cell_le 2010 (vals ?g' ! i) \<or> vals ?g' ! i = vals built ! i"
    using nth by auto
  show ?thesis using g b g' len nth le na by blast
qed

theorem clean_GarageYrBlt_witness:
  "wf_df ex_clean \<and> clean ex_clean = Inr ex_cleaned \<and>
   getitem ex_cleaned ''GarageYrBlt'' =
     Inr \<lparr>dtype = Number, vals = [Num 2003, Num 1976, Num 2006]\<rparr>"
proof -
  have w: "wf_df ex_clean" by code_simp
  have c: "clean ex_clean = Inr ex_cleaned" by code_simp
  have g: "getitem ex_cleaned ''GarageYrBlt'' =
             Inr \<lparr>dtype = Number, vals = [Num 2003, Num 1976, Num 2006]\<rparr>"
    by code_simp
  from clean_GarageYrBlt [OF c w] w c g show ?thesis by simp
qed

text \<open>
  The claim's last clause, that no entry is missing after \<open>clean\<close>, fails for a house
  whose \<open>YearBuilt\<close> and \<open>GarageYrBlt\<close> are both missing: the replacement is the
  missing \<open>YearBuilt\<close>.
\<close>

theorem clean_GarageYrBlt_still_missing:
  "clean ex_unbuilt =
     Inr \<lparr>index = [1],
          columns = [(''Exterior2nd'', \<lparr>dtype = Object, vals = [Str ''VinylSd'']\<rparr>),
                     (''YearBuilt'', \<lparr>dtype = Number, vals = [NA]\<rparr>),
                     (''GarageYrBlt'', \<lparr>dtype = Number, vals = [NA]\<rparr>)]\<rparr>"
  by code_simp

section \<open>counts: the number of porch types\<close>

lemma traverse_eq_Inr:
  "traverse f xs = Inr ys \<longleftrightarrow> list_all2 (\<lambda>x y. f x = Inr y) xs ys"
proof (induction xs arbitrary: ys)
  case Nil
  show ?case by auto
next
  case (Cons x xs)
  show ?case
    by (cases ys) (auto simp: and_then_eq_Inr Cons.IH)
qed


lemma select_columns_Inr:
  assumes "select_columns df names = Inr sub"
  shows "index sub = index df \<and> map fst (columns sub) = names \<and>
         list_all2 (\<lambda>name c. c = (name, snd c) \<and> getitem df name = Inr (snd c)) names (columns sub)"
proof -
  from assms obtain cs where
    cs: "list_all2 (\<lambda>name c. and_then (getitem df name) (\<lambda>s. Inr (name, s)) = Inr c) names cs"
    and sub: "sub = df\<lparr>columns := cs\<rparr>"
    by (auto simp: select_columns_def and_then_eq_Inr traverse_eq_Inr)
  have l: "list_all2 (\<lambda>name c. c = (name, snd c) \<and> getitem df name = Inr (snd c)) names cs"
    using cs by (rule list_all2_mono) (auto simp: and_then_eq_Inr)
  have "list_all2 (\<lambda>name c. fst c = name) names cs"
    using l by (rule list_all2_mono) (metis fst_conv)
  then have "map fst cs = names"
    by (induction rule: list_all2_induct) auto
  with l sub show ?thesis by simp
qed






lemma list_all2_right_witness:
  "list_all2 P xs ys \<Longrightarrow> y \<in> set ys \<Longrightarrow> \<exists>x\<in>set xs. P x y"
  by (induction rule: list_all2_induct) auto




section \<open>encode and impute: the dtypes\<close>

lemma index_setitem [simp]: "index (setitem df n s) = index df"
  by (simp add: setitem_def)

lemma index_rename [simp]: "index (rename m df) = index df"
  by (simp add: rename_def)

lemma assign_assign: "assign n s (assign n t cs) = assign n s cs"
  by (induction cs) auto

lemma setitem_setitem: "setitem (setitem df n t) n s = setitem df n s"
  by (simp add: setitem_def assign_assign)

lemma assign_present:
  "map_of cs n = Some t \<Longrightarrow> distinct (map fst cs) \<Longrightarrow>
   assign n s cs = map (\<lambda>c. if fst c = n then (n, s) else c) cs"
proof (induction cs)
  case Nil
  then show ?case by simp
next
  case (Cons c cs)
  show ?case
  proof (cases "fst c = n")
    case True
    then have "n \<notin> fst ` set cs" using Cons.prems(2) by auto
    then have "map (\<lambda>c. if fst c = n then (n, s) else c) cs = cs"
      by (intro map_idI) (auto simp: image_iff)
    with True show ?thesis by simp
  next
    case False
    with Cons show ?thesis by (cases c) auto
  qed
qed

lemma map_fst_assign_present:
  "map_of cs n = Some t \<Longrightarrow> map fst (assign n s cs) = map fst cs"
  by (induction cs) (auto split: if_splits)

lemma schema_assign:
  "map_of cs n = Some t \<Longrightarrow> dtype s = dtype t \<Longrightarrow>
   map (\<lambda>c. (fst c, dtype (snd c))) (assign n s cs) = map (\<lambda>c. (fst c, dtype (snd c))) cs"
  by (induction cs) (auto split: if_splits)

lemma getitem_Inr_iff: "getitem df n = Inr s \<longleftrightarrow> map_of (columns df) n = Some s"
  by (simp add: getitem_def split: option.splits)

lemma schema_setitem:
  "getitem df n = Inr t \<Longrightarrow> dtype s = dtype t \<Longrightarrow> schema (setitem df n s) = schema df"
  by (simp add: schema_def setitem_def schema_assign getitem_Inr_iff)

lemma add_categories_has_none:
  "add_categories s (Str ''None'') = Inr s' \<Longrightarrow> has_none s'"
  by (auto simp: add_categories_def has_none_def split: dtype.splits if_splits)

lemma categories_has_none:
  "categories s = Inr cs \<Longrightarrow> Str ''None'' \<in> set cs \<Longrightarrow> has_none s"
  by (auto simp: categories_def has_none_def split: dtype.splits)

lemma encode_nominal_step:
  assumes "encode_nominal (name # names) df = Inr df'"
  shows "\<exists>s2. has_none s2 \<and> encode_nominal names (setitem df name s2) = Inr df'"
proof -
  from assms obtain s s1 cs df2 where
    s: "getitem df name = Inr s" and
    s1: "getitem (setitem df name (astype_category s)) name = Inr s1" and
    cs: "categories s1 = Inr cs" and
    df2: "(if Str ''None'' \<notin> set cs
           then and_then (getitem (setitem df name (astype_category s)) name) (\<lambda>s2.
                and_then (add_categories s2 (Str ''None'')) (\<lambda>s3.
                  Inr (setitem (setitem df name (astype_category s)) name s3)))
           else Inr (setitem df name (astype_category s))) = Inr df2" and
    rest: "encode_nominal names df2 = Inr df'"
    by (auto simp: and_then_eq_Inr Let_def)
  have s1': "s1 = astype_category s" using s1 by (simp add: getitem_setitem)
  show ?thesis
  proof (cases "Str ''None'' \<in> set cs")
    case True
    then have "df2 = setitem df name s1" using df2 s1' by simp
    moreover have "has_none s1" using cs True by (rule categories_has_none)
    ultimately show ?thesis using rest by blast
  next
    case False
    then obtain s3 where "add_categories s1 (Str ''None'') = Inr s3" "df2 = setitem df name s3"
      using df2 s1' by (auto simp: and_then_eq_Inr getitem_setitem setitem_setitem)
    then show ?thesis using rest add_categories_has_none by blast
  qed
qed

lemma encode_nominal_preserves:
  "encode_nominal names df = Inr df' \<Longrightarrow> getitem df n = Inr s \<Longrightarrow> has_none s \<Longrightarrow>
   \<exists>s'. getitem df' n = Inr s' \<and> has_none s'"
proof (induction names arbitrary: df s)
  case Nil
  then show ?case by simp
next
  case (Cons name names)
  from encode_nominal_step [OF Cons.prems(1)] obtain s2 where
    s2: "has_none s2" "encode_nominal names (setitem df name s2) = Inr df'" by blast
  show ?case
  proof (cases "n = name")
    case True
    then have "getitem (setitem df name s2) n = Inr s2" by (simp add: getitem_setitem)
    from Cons.IH [OF s2(2) this s2(1)] show ?thesis .
  next
    case False
    then have "getitem (setitem df name s2) n = Inr s"
      using Cons.prems(2) by (simp add: getitem_setitem)
    from Cons.IH [OF s2(2) this Cons.prems(3)] show ?thesis .
  qed
qed

lemma encode_nominal_establishes:
  "encode_nominal names df = Inr df' \<Longrightarrow> n \<in> set names \<Longrightarrow>
   \<exists>s'. getitem df' n = Inr s' \<and> has_none s'"
proof (induction names arbitrary: df)
  case Nil
  then show ?case by simp
next
  case (Cons name names)
  from encode_nominal_step [OF Cons.prems(1)] obtain s2 where
    s2: "has_none s2" "encode_nominal names (setitem df name s2) = Inr df'" by blast
  show ?case
  proof (cases "n = name")
    case True
    then have "getitem (setitem df name s2) n = Inr s2" by (simp add: getitem_setitem)
    from encode_nominal_preserves [OF s2(2) this s2(1)] show ?thesis .
  next
    case False
    then have "n \<in> set names" using Cons.prems(2) by simp
    from Cons.IH [OF s2(2) this] show ?thesis .
  qed
qed

lemma encode_ordinal_untouched:
  "encode_ordinal items df = Inr df' \<Longrightarrow> n \<notin> fst ` set items \<Longrightarrow> getitem df' n = getitem df n"
proof (induction items arbitrary: df)
  case Nil
  then show ?case by simp
next
  case (Cons item items)
  from Cons.prems(1) obtain s where
    rest: "encode_ordinal items (setitem df (fst item) (astype_categorical s (snd item) True)) = Inr df'"
    by (auto simp: and_then_eq_Inr)
  have "getitem df' n = getitem (setitem df (fst item) (astype_categorical s (snd item) True)) n"
    using Cons.IH [OF rest] Cons.prems(2) by simp
  then show ?case using Cons.prems(2) by (simp add: getitem_setitem)
qed

lemma encode_ordinal_sets:
  "encode_ordinal items df = Inr df' \<Longrightarrow> distinct (map fst items) \<Longrightarrow> item \<in> set items \<Longrightarrow>
   \<exists>s. getitem df' (fst item) = Inr s \<and> dtype s = Category (snd item) True"
proof (induction items arbitrary: df)
  case Nil
  then show ?case by simp
next
  case (Cons it items)
  from Cons.prems(1) obtain s where
    rest: "encode_ordinal items (setitem df (fst it) (astype_categorical s (snd it) True)) = Inr df'"
    by (auto simp: and_then_eq_Inr)
  show ?case
  proof (cases "item = it")
    case True
    have "fst it \<notin> fst ` set items" using Cons.prems(2) by simp
    from encode_ordinal_untouched [OF rest this] True
    show ?thesis by (simp add: getitem_setitem astype_categorical_def)
  next
    case False
    then have "item \<in> set items" using Cons.prems(3) by simp
    moreover have "distinct (map fst items)" using Cons.prems(2) by simp
    ultimately show ?thesis using Cons.IH [OF rest] by blast
  qed
qed

lemma distinct_ordered_levels: "distinct (map fst ordered_levels)"
  by (simp add: ordered_levels_def ordered_levels_0_def)

lemma ordered_levels_has_none:
  "item \<in> set ordered_levels \<Longrightarrow> Str ''None'' \<in> set (snd item)"
  by (auto simp: ordered_levels_def)

lemma fillna_Inr:
  "fillna v s = Inr s' \<Longrightarrow> s' = s\<lparr>vals := map (fill v) (vals s)\<rparr>"
  by (auto simp: fillna_def split: dtype.splits if_splits)

lemma fill_columns_schema:
  "fill_columns v names df = Inr df' \<Longrightarrow> schema df' = schema df"
proof (induction names arbitrary: df)
  case Nil
  then show ?case by simp
next
  case (Cons name names)
  from Cons.prems obtain s s' where
    s: "getitem df name = Inr s" and s': "fillna v s = Inr s'" and
    rest: "fill_columns v names (setitem df name s') = Inr df'"
    by (auto simp: and_then_eq_Inr)
  have "dtype s' = dtype s" using fillna_Inr [OF s'] by simp
  then have "schema (setitem df name s') = schema df" using s by (simp add: schema_setitem)
  with Cons.IH [OF rest] show ?case by simp
qed

lemma impute_schema: "impute df = Inr df' \<Longrightarrow> schema df' = schema df"
  by (auto simp: impute_def and_then_eq_Inr dest!: fill_columns_schema)

text \<open>
  Claim C7. When \<open>encode\<close> returns, every feature named in \<open>features_nom\<close> or in
  \<open>ordered_levels\<close> is a categorical column with \<open>"None"\<close> among its categories; every
  ordinal feature has the ordered dtype whose levels are \<open>"None"\<close> followed by the list the
  dictionary gives it; and \<open>impute\<close>, when it returns, leaves every column of the frame
  with the dtype it had.
\<close>

theorem encode_categorical_dtypes:
  assumes "encode df = Inr df'"
  shows "(\<forall>name\<in>set features_nom \<union> fst ` set ordered_levels.
            \<exists>s. getitem df' name = Inr s \<and> has_none s) \<and>
         (\<forall>item\<in>set ordered_levels_0.
            \<exists>s. getitem df' (fst item) = Inr s \<and> dtype s = Category (Str ''None'' # snd item) True) \<and>
         (\<forall>df''. impute df' = Inr df'' \<longrightarrow> schema df'' = schema df')"
proof -
  from assms obtain df1 where
    nom: "encode_nominal features_nom df = Inr df1" and
    ord: "encode_ordinal ordered_levels df1 = Inr df'"
    by (auto simp: encode_def and_then_eq_Inr)
  have o: "\<exists>s. getitem df' (fst item) = Inr s \<and> dtype s = Category (snd item) True"
    if "item \<in> set ordered_levels" for item
    using encode_ordinal_sets [OF ord distinct_ordered_levels that] .
  have 1: "\<exists>s. getitem df' name = Inr s \<and> has_none s"
    if "name \<in> set features_nom \<union> fst ` set ordered_levels" for name
  proof (cases "name \<in> fst ` set ordered_levels")
    case True
    then obtain item where item: "item \<in> set ordered_levels" "name = fst item" by auto
    from o [OF item(1)] obtain s where
      s: "getitem df' name = Inr s" "dtype s = Category (snd item) True" using item(2) by auto
    have "has_none s" using s(2) ordered_levels_has_none [OF item(1)] by (simp add: has_none_def)
    with s(1) show ?thesis by blast
  next
    case False
    with that have "name \<in> set features_nom" by simp
    from encode_nominal_establishes [OF nom this] obtain s where
      "getitem df1 name = Inr s" "has_none s" by blast
    with encode_ordinal_untouched [OF ord False] show ?thesis by auto
  qed
  have 2: "\<exists>s. getitem df' (fst item) = Inr s \<and> dtype s = Category (Str ''None'' # snd item) True"
    if "item \<in> set ordered_levels_0" for item
  proof -
    have "(fst item, Str ''None'' # snd item) \<in> set ordered_levels"
      using that by (force simp: ordered_levels_def)
    from o [OF this] show ?thesis by simp
  qed
  from 1 2 impute_schema show ?thesis by blast
qed

section \<open>impute: the missing values\<close>

lemma fill_idem: "fill v (fill v x) = fill v x"
  by (simp add: fill_def)

lemma distinct_assign:
  "distinct (map fst cs) \<Longrightarrow> distinct (map fst (assign n s cs))"
proof (induction cs)
  case Nil
  show ?case by simp
next
  case (Cons c cs)
  have "fst ` set (assign n s cs) \<subseteq> insert n (fst ` set cs)"
    by (induction cs) auto
  with Cons show ?case by (auto simp: image_iff subset_iff)
qed

lemma distinct_setitem:
  "distinct (map fst (columns df)) \<Longrightarrow> distinct (map fst (columns (setitem df n s)))"
  by (simp add: setitem_def distinct_assign)

lemma columns_setitem_present:
  "getitem df n = Inr t \<Longrightarrow> distinct (map fst (columns df)) \<Longrightarrow>
   columns (setitem df n s) = map (\<lambda>c. if fst c = n then (n, s) else c) (columns df)"
  by (simp add: setitem_def getitem_Inr_iff assign_present)

lemma fill_columns_Inr:
  assumes "fill_columns v names df = Inr df'" and "distinct (map fst (columns df))"
  shows "index df' = index df \<and>
         columns df' = map (\<lambda>c. if fst c \<in> set names
                                then (fst c, (snd c)\<lparr>vals := map (fill v) (vals (snd c))\<rparr>) else c)
                           (columns df)"
  using assms
proof (induction names arbitrary: df)
  case Nil
  then show ?case by simp
next
  case (Cons name names)
  from Cons.prems(1) obtain s s' where
    s: "getitem df name = Inr s" and s': "fillna v s = Inr s'" and
    rest: "fill_columns v names (setitem df name s') = Inr df'"
    by (auto simp: and_then_eq_Inr)
  have s'_eq: "s' = s\<lparr>vals := map (fill v) (vals s)\<rparr>" using s' by (rule fillna_Inr)
  have d: "distinct (map fst (columns (setitem df name s')))"
    using Cons.prems(2) by (rule distinct_setitem)
  have c1: "columns (setitem df name s') =
              map (\<lambda>c. if fst c = name then (name, s') else c) (columns df)"
    using s Cons.prems(2) by (rule columns_setitem_present)
  have snd_eq: "snd c = s" if "c \<in> set (columns df)" "fst c = name" for c
  proof -
    have "map_of (columns df) (fst c) = Some (snd c)"
      using that(1) Cons.prems(2) by (intro map_of_is_SomeI) auto
    with s that(2) show ?thesis by (simp add: getitem_Inr_iff)
  qed
  from Cons.IH [OF rest d] have
    i: "index df' = index df" and
    c2: "columns df' = map (\<lambda>c. if fst c \<in> set names
                                then (fst c, (snd c)\<lparr>vals := map (fill v) (vals (snd c))\<rparr>) else c)
                           (columns (setitem df name s'))"
    by simp_all
  have "columns df' = map (\<lambda>c. if fst c \<in> set (name # names)
                                then (fst c, (snd c)\<lparr>vals := map (fill v) (vals (snd c))\<rparr>) else c)
                           (columns df)"
    unfolding c2 c1 map_map
    by (rule map_cong) (auto simp: s'_eq fill_idem o_def dest: snd_eq)
  with i show ?case by simp
qed

lemma same_label_same_column:
  "distinct (map fst cs) \<Longrightarrow> c \<in> set cs \<Longrightarrow> c' \<in> set cs \<Longrightarrow> fst c' = fst c \<Longrightarrow> c' = c"
  by (simp add: distinct_map inj_on_def)

lemma select_dtypes_number_set:
  assumes "distinct (map fst (columns df))" and "c \<in> set (columns df)"
  shows "fst c \<in> set (select_dtypes_number df) \<longleftrightarrow> dtype (snd c) = Number"
proof
  assume "fst c \<in> set (select_dtypes_number df)"
  then obtain c' where "c' \<in> set (columns df)" "dtype (snd c') = Number" "fst c' = fst c"
    by (auto simp: select_dtypes_number_def)
  with same_label_same_column [OF assms, of c'] show "dtype (snd c) = Number" by simp
next
  assume "dtype (snd c) = Number"
  with assms(2) show "fst c \<in> set (select_dtypes_number df)"
    by (auto simp: select_dtypes_number_def)
qed

lemma select_dtypes_category_set:
  assumes "distinct (map fst (columns df))" and "c \<in> set (columns df)"
  shows "fst c \<in> set (select_dtypes_category df) \<longleftrightarrow> is_category (dtype (snd c))"
proof
  assume "fst c \<in> set (select_dtypes_category df)"
  then obtain c' where "c' \<in> set (columns df)" "is_category (dtype (snd c'))" "fst c' = fst c"
    by (auto simp: select_dtypes_category_def)
  with same_label_same_column [OF assms, of c'] show "is_category (dtype (snd c))" by simp
next
  assume "is_category (dtype (snd c))"
  with assms(2) show "fst c \<in> set (select_dtypes_category df)"
    by (auto simp: select_dtypes_category_def)
qed

lemma impute_Inr:
  assumes "impute df = Inr df'" and "distinct (map fst (columns df))"
  shows "index df' = index df \<and> columns df' = map (\<lambda>c. (fst c, imputed (snd c))) (columns df)"
proof -
  from assms(1) obtain df1 where
    n: "fill_columns (Num 0) (select_dtypes_number df) df = Inr df1" and
    c: "fill_columns (Str ''None'') (select_dtypes_category df1) df1 = Inr df'"
    by (auto simp: impute_def and_then_eq_Inr)
  let ?f = "\<lambda>c. if dtype (snd c) = Number
                 then (fst c, (snd c)\<lparr>vals := map (fill (Num 0)) (vals (snd c))\<rparr>) else c"
  let ?g = "\<lambda>c. if is_category (dtype (snd c))
                 then (fst c, (snd c)\<lparr>vals := map (fill (Str ''None'')) (vals (snd c))\<rparr>) else c"
  have 1: "index df1 = index df" "columns df1 = map ?f (columns df)"
    using fill_columns_Inr [OF n assms(2)] select_dtypes_number_set [OF assms(2)]
    by (auto intro: map_cong)
  have d1: "distinct (map fst (columns df1))"
    using assms(2) by (simp add: 1 o_def cong: if_cong) (metis (mono_tags, lifting) fst_conv map_eq_conv)
  have 2: "index df' = index df1" "columns df' = map ?g (columns df1)"
    using fill_columns_Inr [OF c d1] select_dtypes_category_set [OF d1]
    by (auto intro: map_cong)
  have "map ?g (map ?f (columns df)) = map (\<lambda>c. (fst c, imputed (snd c))) (columns df)"
    by (auto simp: imputed_def)
  with 1 2 show ?thesis by simp
qed

lemma imputed_dtype [simp]: "dtype (imputed s) = dtype s"
  by (simp add: imputed_def)

lemma fill_not_NA: "v \<noteq> NA \<Longrightarrow> NA \<notin> set (map (fill v) xs)"
  by (auto simp: fill_def)

lemma imputed_no_missing: "dtype s = Object \<or> NA \<notin> set (vals (imputed s))"
proof (cases "dtype s")
  case Number
  then show ?thesis using fill_not_NA [of "Num 0"] by (simp add: imputed_def)
next
  case Object
  then show ?thesis by simp
next
  case (Category cs ord)
  then show ?thesis using fill_not_NA [of "Str ''None''"] by (simp add: imputed_def)
qed

lemma distinct_rename_clean:
  assumes "distinct (map fst (columns df))" and "renamed_labels_free df"
  shows "distinct (map fst (columns (rename [(''1stFlrSF'', ''FirstFlrSF''),
                         (''2ndFlrSF'', ''SecondFlrSF''),
                         (''3SsnPorch'', ''Threeseasonporch'')] df)))"
proof -
  let ?f = "\<lambda>n. case map_of [(''1stFlrSF'', ''FirstFlrSF''), (''2ndFlrSF'', ''SecondFlrSF''),
                         (''3SsnPorch'', ''Threeseasonporch'')] n of None \<Rightarrow> n | Some n' \<Rightarrow> n'"
  define names where "names = map fst (columns df)"
  have "inj_on ?f (set names)"
    using assms(2) unfolding names_def
    by (auto simp: inj_on_def renamed_labels_free_def split: if_splits; force)
  moreover have "distinct names" using assms(1) by (simp add: names_def)
  ultimately have "distinct (map ?f names)" by (simp only: distinct_map simp_thms)
  moreover have "map fst (columns (rename [(''1stFlrSF'', ''FirstFlrSF''),
                         (''2ndFlrSF'', ''SecondFlrSF''),
                         (''3SsnPorch'', ''Threeseasonporch'')] df)) = map ?f names"
    by (simp add: rename_def names_def o_def)
  ultimately show ?thesis by (simp only:)
qed

lemma map_fst_setitem_present:
  "getitem df n = Inr t \<Longrightarrow> map fst (columns (setitem df n s)) = map fst (columns df)"
  by (simp add: setitem_def getitem_Inr_iff map_fst_assign_present)

lemma clean_distinct:
  assumes "clean df = Inr df'" and "distinct (map fst (columns df))" and "renamed_labels_free df"
  shows "distinct (map fst (columns df'))"
proof -
  from assms(1) obtain ext garage cond built where
    e: "getitem df ''Exterior2nd'' = Inr ext" and
    g: "getitem df ''GarageYrBlt'' = Inr garage" and
    df': "df' = rename [(''1stFlrSF'', ''FirstFlrSF''), (''2ndFlrSF'', ''SecondFlrSF''),
                         (''3SsnPorch'', ''Threeseasonporch'')]
           (setitem (setitem df ''Exterior2nd''
               (replace [(Str ''Brk Cmn'', Str ''BrkComm''), (Str ''Wd Shng'', Str ''Wd Sdng''),
                         (Str ''CmentBd'', Str ''CemntBd'')] ext))
             ''GarageYrBlt'' (where_series garage cond built))"
    by (auto simp: clean_def and_then_eq_Inr Let_def getitem_setitem)
  let ?d = "setitem (setitem df ''Exterior2nd''
               (replace [(Str ''Brk Cmn'', Str ''BrkComm''), (Str ''Wd Shng'', Str ''Wd Sdng''),
                         (Str ''CmentBd'', Str ''CemntBd'')] ext))
             ''GarageYrBlt'' (where_series garage cond built)"
  have m: "map fst (columns ?d) = map fst (columns df)"
    using e g by (simp add: map_fst_setitem_present getitem_setitem)
  then have "distinct (map fst (columns ?d))" using assms(2) by simp
  moreover have "renamed_labels_free ?d" using assms(3) m by (simp add: renamed_labels_free_def)
  ultimately show ?thesis unfolding df' by (rule distinct_rename_clean)
qed

lemma encode_nominal_distinct:
  "encode_nominal names df = Inr df' \<Longrightarrow> distinct (map fst (columns df)) \<Longrightarrow>
   distinct (map fst (columns df'))"
proof (induction names arbitrary: df)
  case Nil
  then show ?case by simp
next
  case (Cons name names)
  from encode_nominal_step [OF Cons.prems(1)] obtain s2 where
    "encode_nominal names (setitem df name s2) = Inr df'" by blast
  then show ?case using Cons.IH Cons.prems(2) distinct_setitem by blast
qed

lemma encode_ordinal_distinct:
  "encode_ordinal items df = Inr df' \<Longrightarrow> distinct (map fst (columns df)) \<Longrightarrow>
   distinct (map fst (columns df'))"
proof (induction items arbitrary: df)
  case Nil
  then show ?case by simp
next
  case (Cons item items)
  then show ?case by (auto simp: and_then_eq_Inr dest: distinct_setitem)
qed

lemma encode_distinct:
  "encode df = Inr df' \<Longrightarrow> distinct (map fst (columns df)) \<Longrightarrow> distinct (map fst (columns df'))"
  by (auto simp: encode_def and_then_eq_Inr dest: encode_nominal_distinct encode_ordinal_distinct)

text \<open>
  Claim C3, as the code has it. On a well-formed frame that does not yet use the labels
  \<open>clean\<close> renames to, the result of the preprocessing is the result of \<open>impute\<close> on the
  cleaned and encoded frame, and \<open>impute\<close> changes nothing but missing values: in a numeric
  column each becomes 0, in a categorical column each becomes \<open>"None"\<close> (constants that
  do not depend on the row), and a column of any other dtype is left as it is. Hence
  after preprocessing no value is missing in a numeric or categorical column.
\<close>

theorem preprocess_fills_missing:
  assumes "preprocess df = Inr df'" and "wf_df df" and "renamed_labels_free df"
  shows "\<exists>df2. and_then (clean df) encode = Inr df2 \<and> impute df2 = Inr df' \<and>
           index df' = index df2 \<and>
           columns df' = map (\<lambda>c. (fst c, imputed (snd c))) (columns df2) \<and>
           list_all (\<lambda>c. dtype (snd c) = Object \<or> NA \<notin> set (vals (snd c))) (columns df')"
proof -
  from assms(1) obtain df1 df2 where
    c: "clean df = Inr df1" and e: "encode df1 = Inr df2" and i: "impute df2 = Inr df'"
    by (auto simp: preprocess_def and_then_eq_Inr)
  have "distinct (map fst (columns df))" using assms(2) by (simp add: wf_df_def)
  then have "distinct (map fst (columns df1))" using c assms(3) clean_distinct by blast
  then have d2: "distinct (map fst (columns df2))" using e encode_distinct by blast
  from impute_Inr [OF i d2] have
    r: "index df' = index df2" "columns df' = map (\<lambda>c. (fst c, imputed (snd c))) (columns df2)"
    by simp_all
  have "list_all (\<lambda>c. dtype (snd c) = Object \<or> NA \<notin> set (vals (snd c))) (columns df')"
    unfolding r(2) list_all_iff
  proof
    fix c' assume "c' \<in> set (map (\<lambda>c. (fst c, imputed (snd c))) (columns df2))"
    then obtain c where "c' = (fst c, imputed (snd c))" by auto
    then show "dtype (snd c') = Object \<or> NA \<notin> set (vals (snd c'))"
      using imputed_no_missing [of "snd c"] by simp
  qed
  with c e i r show ?thesis by auto
qed

section \<open>load_data: the splits\<close>

lemma clean_index: "clean df = Inr df' \<Longrightarrow> index df' = index df"
  by (auto simp: clean_def and_then_eq_Inr Let_def)

lemma encode_nominal_index: "encode_nominal names df = Inr df' \<Longrightarrow> index df' = index df"
proof (induction names arbitrary: df)
  case Nil
  then show ?case by simp
next
  case (Cons name names)
  from encode_nominal_step [OF Cons.prems] obtain s2 where
    "encode_nominal names (setitem df name s2) = Inr df'" by blast
  from Cons.IH [OF this] show ?case by simp
qed

lemma encode_ordinal_index: "encode_ordinal items df = Inr df' \<Longrightarrow> index df' = index df"
proof (induction items arbitrary: df)
  case Nil
  then show ?case by simp
next
  case (Cons item items)
  from Cons.prems obtain s where
    "encode_ordinal items (setitem df (fst item) (astype_categorical s (snd item) True)) = Inr df'"
    by (auto simp: and_then_eq_Inr)
  from Cons.IH [OF this] show ?case by simp
qed

lemma encode_index: "encode df = Inr df' \<Longrightarrow> index df' = index df"
  by (auto simp: encode_def and_then_eq_Inr dest!: encode_nominal_index encode_ordinal_index)

lemma fill_columns_index: "fill_columns v names df = Inr df' \<Longrightarrow> index df' = index df"
proof (induction names arbitrary: df)
  case Nil
  then show ?case by simp
next
  case (Cons name names)
  from Cons.prems obtain s' where "fill_columns v names (setitem df name s') = Inr df'"
    by (auto simp: and_then_eq_Inr)
  from Cons.IH [OF this] show ?case by simp
qed

lemma impute_index: "impute df = Inr df' \<Longrightarrow> index df' = index df"
  by (auto simp: impute_def and_then_eq_Inr dest!: fill_columns_index)

lemma preprocess_index: "preprocess df = Inr df' \<Longrightarrow> index df' = index df"
  by (auto simp: preprocess_def and_then_eq_Inr dest!: clean_index encode_index impute_index)

lemma filter_eq_upt: "filter (\<lambda>p. p = i) [0..<n] = (if i < n then [i] else [])"
  by (induction n) auto

lemma positions_distinct:
  assumes "distinct idx" and "i < length idx"
  shows "positions idx (idx ! i) = [i]"
proof -
  have "filter (\<lambda>p. idx ! p = idx ! i) [0..<length idx] = filter (\<lambda>p. p = i) [0..<length idx]"
    using assms by (intro filter_cong) (auto simp: nth_eq_iff_index_eq)
  with assms(2) show ?thesis by (simp add: positions_def filter_eq_upt)
qed

lemma positions_range:
  assumes "distinct idx" and "b \<le> length idx"
  shows "concat (map (positions idx) (map (\<lambda>i. idx ! i) [a..<b])) = [a..<b]"
proof -
  have e: "map (\<lambda>i. positions idx (idx ! i)) [a..<b] = map (\<lambda>i. [i]) [a..<b]"
    using assms by (intro map_cong) (auto simp: positions_distinct)
  have s: "concat (map (\<lambda>i. [i]) xs) = xs" for xs :: "nat list"
    by (induction xs) auto
  have "concat (map (positions idx) (map (\<lambda>i. idx ! i) [a..<b])) =
        concat (map (\<lambda>i. positions idx (idx ! i)) [a..<b])"
    by (simp add: o_def)
  also have "\<dots> = concat (map (\<lambda>i. [i]) [a..<b])" by (simp only: e)
  also have "\<dots> = [a..<b]" by (rule s)
  finally show ?thesis .
qed

lemma nth_append_left_range: "map (\<lambda>i. (xs @ ys) ! i) [0..<length xs] = xs"
proof (rule nth_equalityI)
  show "length (map (\<lambda>i. (xs @ ys) ! i) [0..<length xs]) = length xs" by simp
next
  fix i assume "i < length (map (\<lambda>i. (xs @ ys) ! i) [0..<length xs])"
  then show "map (\<lambda>i. (xs @ ys) ! i) [0..<length xs] ! i = xs ! i"
    by (simp add: nth_append)
qed

lemma nth_append_right_range:
  "map (\<lambda>i. (xs @ ys) ! i) [length xs..<length xs + length ys] = ys"
proof (rule nth_equalityI)
  show "length (map (\<lambda>i. (xs @ ys) ! i) [length xs..<length xs + length ys]) = length ys" by simp
next
  fix i assume "i < length (map (\<lambda>i. (xs @ ys) ! i) [length xs..<length xs + length ys])"
  then show "map (\<lambda>i. (xs @ ys) ! i) [length xs..<length xs + length ys] ! i = ys ! i"
    by (simp add: nth_append)
qed

lemma loc_left:
  assumes "index df = xs @ ys" and "distinct (xs @ ys)"
  shows "loc df xs = Inr (take_rows df [0..<length xs])"
proof -
  have "concat (map (positions (xs @ ys)) (map (\<lambda>i. (xs @ ys) ! i) [0..<length xs])) = [0..<length xs]"
    using assms(2) by (intro positions_range) simp_all
  then have "concat (map (positions (xs @ ys)) xs) = [0..<length xs]"
    by (simp only: nth_append_left_range)
  then show ?thesis by (simp add: loc_def assms(1) list_ex_iff)
qed

lemma loc_right:
  assumes "index df = xs @ ys" and "distinct (xs @ ys)"
  shows "loc df ys = Inr (take_rows df [length xs..<length xs + length ys])"
proof -
  have "concat (map (positions (xs @ ys))
          (map (\<lambda>i. (xs @ ys) ! i) [length xs..<length xs + length ys])) =
        [length xs..<length xs + length ys]"
    using assms(2) by (intro positions_range) simp_all
  then have "concat (map (positions (xs @ ys)) ys) = [length xs..<length xs + length ys]"
    by (simp only: nth_append_right_range)
  then show ?thesis by (simp add: loc_def assms(1) list_ex_iff)
qed

lemma index_take_rows: "index (take_rows df ps) = map (\<lambda>p. index df ! p) ps"
  by (simp add: take_rows_def)

text \<open>
  Claim C4, as the code has it. \<open>load_data\<close> concatenates the two frames, applies \<open>clean\<close>,
  then \<open>encode\<close>, then \<open>impute\<close> to the result, and selects from it the rows labelled as
  the rows of each split. When no \<open>Id\<close> occurs twice in the two files, the splits
  returned are the first rows and the remaining rows of the processed frame, and each
  carries the row labels of its file.
\<close>

theorem load_data_splits:
  assumes "load_data df_train df_test = Inr (train', test')"
    and "distinct (index df_train @ index df_test)"
  shows "\<exists>df df'. concat_frames [df_train, df_test] = Inr df \<and>
           preprocess df = Inr df' \<and>
           index df' = index df_train @ index df_test \<and>
           train' = take_rows df' [0..<nrows df_train] \<and>
           test' = take_rows df' [nrows df_train..<nrows df_train + nrows df_test] \<and>
           index train' = index df_train \<and> index test' = index df_test"
proof -
  from assms(1) obtain df df1 df2 df' where
    cc: "concat_frames [df_train, df_test] = Inr df" and
    c: "clean df = Inr df1" and e: "encode df1 = Inr df2" and i: "impute df2 = Inr df'" and
    tr: "loc df' (index df_train) = Inr train'" and
    te: "loc df' (index df_test) = Inr test'"
    by (auto simp: load_data_def and_then_eq_Inr)
  have p: "preprocess df = Inr df'" using c e i by (simp add: preprocess_def)
  have "index df = index df_train @ index df_test"
    using cc by (auto simp: concat_frames_def)
  with preprocess_index [OF p] have idx: "index df' = index df_train @ index df_test" by simp
  from loc_left [OF idx assms(2)] tr
  have 1: "train' = take_rows df' [0..<nrows df_train]" by (simp add: nrows_def)
  from loc_right [OF idx assms(2)] te
  have 2: "test' = take_rows df' [nrows df_train..<nrows df_train + nrows df_test]"
    by (simp add: nrows_def)
  have 3: "index train' = index df_train"
    unfolding 1 index_take_rows idx nrows_def by (rule nth_append_left_range)
  have 4: "index test' = index df_test"
    unfolding 2 index_take_rows idx nrows_def by (rule nth_append_right_range)
  from cc p idx 1 2 3 4 show ?thesis by blast
qed

section \<open>The pipeline on the example rows\<close>

lemma ex_concat: "concat_frames [ex_train, ex_test] = Inr ex_houses"
  by code_simp

lemma ex_clean_houses: "clean ex_houses = Inr ex_houses"
  by code_simp

lemma ex_encode_houses: "encode ex_houses = Inr ex_houses_encoded"
  by code_simp

lemma ex_impute_houses: "impute ex_houses_encoded = Inr ex_houses_imputed"
  by code_simp

lemma ex_preprocess_houses: "preprocess ex_houses = Inr ex_houses_imputed"
  by (simp add: preprocess_def ex_clean_houses ex_encode_houses ex_impute_houses)

lemma ex_houses_wf: "wf_df ex_houses"
  by code_simp

lemma ex_houses_free: "renamed_labels_free ex_houses"
  by code_simp

lemma getitem_reindex: "getitem (df\<lparr>index := i\<rparr>) n = getitem df n"
  by (simp add: getitem_def)

lemma setitem_reindex: "setitem (df\<lparr>index := i\<rparr>) n s = (setitem df n s)\<lparr>index := i\<rparr>"
  by (simp add: setitem_def)

lemma rename_reindex: "rename m (df\<lparr>index := i\<rparr>) = (rename m df)\<lparr>index := i\<rparr>"
  by (simp add: rename_def)

lemma clean_reindex:
  "clean df = Inr df' \<Longrightarrow> clean (df\<lparr>index := i\<rparr>) = Inr (df'\<lparr>index := i\<rparr>)"
  by (auto simp: clean_def and_then_eq_Inr Let_def getitem_reindex setitem_reindex rename_reindex)

lemma encode_nominal_reindex:
  "encode_nominal names df = Inr df' \<Longrightarrow>
   encode_nominal names (df\<lparr>index := i\<rparr>) = Inr (df'\<lparr>index := i\<rparr>)"
proof (induction names arbitrary: df)
  case Nil
  then show ?case by simp
next
  case (Cons name names)
  from Cons.prems obtain s s1 cs df2 where
    s: "getitem df name = Inr s" and
    s1: "getitem (setitem df name (astype_category s)) name = Inr s1" and
    cs: "categories s1 = Inr cs" and
    df2: "(if Str ''None'' \<notin> set cs
           then and_then (getitem (setitem df name (astype_category s)) name) (\<lambda>s2.
                and_then (add_categories s2 (Str ''None'')) (\<lambda>s3.
                  Inr (setitem (setitem df name (astype_category s)) name s3)))
           else Inr (setitem df name (astype_category s))) = Inr df2" and
    rest: "encode_nominal names df2 = Inr df'"
    by (auto simp: and_then_eq_Inr Let_def)
  have "(if Str ''None'' \<notin> set cs
           then and_then (getitem ((setitem df name (astype_category s))\<lparr>index := i\<rparr>) name) (\<lambda>s2.
                and_then (add_categories s2 (Str ''None'')) (\<lambda>s3.
                  Inr (setitem ((setitem df name (astype_category s))\<lparr>index := i\<rparr>) name s3)))
           else Inr ((setitem df name (astype_category s))\<lparr>index := i\<rparr>)) = Inr (df2\<lparr>index := i\<rparr>)"
    using df2 by (auto simp: and_then_eq_Inr getitem_reindex setitem_reindex split: if_splits)
  with s s1 cs Cons.IH [OF rest] show ?case
    by (simp add: getitem_reindex setitem_reindex Let_def)
qed

lemma encode_ordinal_reindex:
  "encode_ordinal items df = Inr df' \<Longrightarrow>
   encode_ordinal items (df\<lparr>index := i\<rparr>) = Inr (df'\<lparr>index := i\<rparr>)"
proof (induction items arbitrary: df)
  case Nil
  then show ?case by simp
next
  case (Cons item items)
  then show ?case by (auto simp: and_then_eq_Inr getitem_reindex setitem_reindex)
qed

lemma encode_reindex:
  "encode df = Inr df' \<Longrightarrow> encode (df\<lparr>index := i\<rparr>) = Inr (df'\<lparr>index := i\<rparr>)"
  by (auto simp: encode_def and_then_eq_Inr dest: encode_nominal_reindex encode_ordinal_reindex)

lemma fill_columns_reindex:
  "fill_columns v names df = Inr df' \<Longrightarrow>
   fill_columns v names (df\<lparr>index := i\<rparr>) = Inr (df'\<lparr>index := i\<rparr>)"
proof (induction names arbitrary: df)
  case Nil
  then show ?case by simp
next
  case (Cons name names)
  then show ?case by (auto simp: and_then_eq_Inr getitem_reindex setitem_reindex)
qed

lemma impute_reindex:
  "impute df = Inr df' \<Longrightarrow> impute (df\<lparr>index := i\<rparr>) = Inr (df'\<lparr>index := i\<rparr>)"
proof -
  assume "impute df = Inr df'"
  then obtain df1 where
    n: "fill_columns (Num 0) (select_dtypes_number df) df = Inr df1" and
    c: "fill_columns (Str ''None'') (select_dtypes_category df1) df1 = Inr df'"
    by (auto simp: impute_def and_then_eq_Inr)
  have "select_dtypes_number (df\<lparr>index := i\<rparr>) = select_dtypes_number df"
       "select_dtypes_category (df1\<lparr>index := i\<rparr>) = select_dtypes_category df1"
    by (simp_all add: select_dtypes_number_def select_dtypes_category_def)
  with fill_columns_reindex [OF n, of i] fill_columns_reindex [OF c, of i]
  show ?thesis by (simp add: impute_def)
qed

lemma preprocess_reindex:
  "preprocess df = Inr df' \<Longrightarrow> preprocess (df\<lparr>index := i\<rparr>) = Inr (df'\<lparr>index := i\<rparr>)"
  by (auto simp: preprocess_def and_then_eq_Inr dest: clean_reindex encode_reindex impute_reindex)

lemma concat_frames_reindex:
  assumes "concat_frames [a, b] = Inr d" and "length i = nrows b"
  shows "concat_frames [a, b\<lparr>index := i\<rparr>] = Inr (d\<lparr>index := index a @ i\<rparr>)"
proof -
  have "part_of name (b\<lparr>index := i\<rparr>) = part_of name b" for name
    using assms(2) by (simp add: part_of_def nrows_def split: option.splits)
  moreover have "dtypes_of name [a, b\<lparr>index := i\<rparr>] = dtypes_of name [a, b]" for name
    by (simp add: dtypes_of_def)
  ultimately show ?thesis using assms(1) by (auto simp: concat_frames_def)
qed

lemma load_data_unfold:
  "load_data df_train df_test =
     and_then (concat_frames [df_train, df_test]) (\<lambda>df.
     and_then (preprocess df) (\<lambda>df.
     and_then (loc df (index df_train)) (\<lambda>df_train'.
     and_then (loc df (index df_test)) (\<lambda>df_test'.
       Inr (df_train', df_test')))))"
  by (simp add: load_data_def preprocess_def and_then_def split: sum.splits)

lemma ex_train_index: "index ex_train = [1]"
  by (simp add: ex_train_def)

lemma ex_test_index: "index ex_test = [2]"
  by (simp add: ex_test_def)

lemma ex_houses_imputed_index: "index ex_houses_imputed = [1, 2]"
  by (simp add: ex_houses_imputed_def)

text \<open>
  The two example files have different \<open>Id\<close>s: \<open>load_data\<close> returns the processed rows of
  each, labelled as in its file.
\<close>

theorem load_data_splits_witness:
  "distinct (index ex_train @ index ex_test) \<and>
   load_data ex_train ex_test =
     Inr (take_rows ex_houses_imputed [0], take_rows ex_houses_imputed [1]) \<and>
   index (take_rows ex_houses_imputed [0]) = [1] \<and>
   index (take_rows ex_houses_imputed [1]) = [2]"
proof -
  have d: "distinct (index ex_train @ index ex_test)"
    by (simp add: ex_train_index ex_test_index)
  have l: "load_data ex_train ex_test =
             Inr (take_rows ex_houses_imputed [0], take_rows ex_houses_imputed [1])"
    by (simp add: load_data_unfold ex_concat ex_preprocess_houses loc_def positions_def
          ex_train_index ex_test_index ex_houses_imputed_index)
  have i: "index (take_rows ex_houses_imputed [0]) = [1]"
          "index (take_rows ex_houses_imputed [1]) = [2]"
    by (simp_all add: index_take_rows ex_houses_imputed_index)
  from load_data_splits [OF l d] d l i show ?thesis by simp
qed

text \<open>
  When the test file uses an \<open>Id\<close> of the training file, \<open>df.loc\<close> returns every row that
  carries the label: the training split comes back with two rows labelled 1, where the
  training file had one.
\<close>

theorem load_data_shared_id:
  "index ex_train = [1] \<and>
   load_data ex_train (ex_test\<lparr>index := [1]\<rparr>) =
     Inr (take_rows (ex_houses_imputed\<lparr>index := [1, 1]\<rparr>) [0, 1],
          take_rows (ex_houses_imputed\<lparr>index := [1, 1]\<rparr>) [0, 1]) \<and>
   index (take_rows (ex_houses_imputed\<lparr>index := [1, 1]\<rparr>) [0, 1]) = [1, 1]"
proof -
  have "nrows ex_test = 1" by (simp add: nrows_def ex_test_index)
  then have c: "concat_frames [ex_train, ex_test\<lparr>index := [1]\<rparr>] = Inr (ex_houses\<lparr>index := [1, 1]\<rparr>)"
    using concat_frames_reindex [OF ex_concat, of "[1]"] by (simp add: ex_train_index)
  have p: "preprocess (ex_houses\<lparr>index := [1, 1]\<rparr>) = Inr (ex_houses_imputed\<lparr>index := [1, 1]\<rparr>)"
    using ex_preprocess_houses by (rule preprocess_reindex)
  have "[0..<2] = [0, Suc 0]" by (simp add: upt_rec)
  then show ?thesis
    by (simp add: load_data_unfold c p loc_def positions_def ex_train_index index_take_rows)
qed

text \<open>
  On the example rows \<open>encode\<close> makes \<open>OverallQual\<close> an ordered categorical column, in which
  the quality 10 of the first house has no level, and \<open>Street\<close> an unordered one with the
  added category; \<open>impute\<close> keeps every dtype.
\<close>

theorem encode_categorical_dtypes_witness:
  "encode ex_houses = Inr ex_houses_encoded \<and>
   getitem ex_houses_encoded ''OverallQual'' =
     Inr \<lparr>dtype = Category (Str ''None'' # ten_levels) True, vals = [NA, Num 7]\<rparr> \<and>
   getitem ex_houses_encoded ''Street'' =
     Inr \<lparr>dtype = Category [Str ''Pave'', Str ''None''] False,
          vals = [Str ''Pave'', Str ''Pave'']\<rparr> \<and>
   impute ex_houses_encoded = Inr ex_houses_imputed \<and>
   schema ex_houses_imputed = schema ex_houses_encoded"
proof -
  have q: "getitem ex_houses_encoded ''OverallQual'' =
     Inr \<lparr>dtype = Category (Str ''None'' # ten_levels) True, vals = [NA, Num 7]\<rparr>"
    by code_simp
  have s: "getitem ex_houses_encoded ''Street'' =
     Inr \<lparr>dtype = Category [Str ''Pave'', Str ''None''] False,
          vals = [Str ''Pave'', Str ''Pave'']\<rparr>"
    by code_simp
  from encode_categorical_dtypes [OF ex_encode_houses] ex_impute_houses
  have "schema ex_houses_imputed = schema ex_houses_encoded" by blast
  with q s ex_encode_houses ex_impute_houses show ?thesis by simp
qed

text \<open>
  After preprocessing the missing lot frontage and the sale price the test row lacks are
  0, and the missing alleys are \<open>"None"\<close>.
\<close>

theorem preprocess_fills_missing_witness:
  "wf_df ex_houses \<and> renamed_labels_free ex_houses \<and>
   preprocess ex_houses = Inr ex_houses_imputed \<and>
   getitem ex_houses_imputed ''LotFrontage'' = Inr \<lparr>dtype = Number, vals = [Num 80, Num 0]\<rparr> \<and>
   getitem ex_houses_imputed ''SalePrice'' = Inr \<lparr>dtype = Number, vals = [Num 181500, Num 0]\<rparr> \<and>
   getitem ex_houses_imputed ''Alley'' =
     Inr \<lparr>dtype = Category [Str ''None''] False, vals = [Str ''None'', Str ''None'']\<rparr>"
proof -
  have 1: "getitem ex_houses_imputed ''LotFrontage'' = Inr \<lparr>dtype = Number, vals = [Num 80, Num 0]\<rparr>"
    by code_simp
  have 2: "getitem ex_houses_imputed ''SalePrice'' = Inr \<lparr>dtype = Number, vals = [Num 181500, Num 0]\<rparr>"
    by code_simp
  have 3: "getitem ex_houses_imputed ''Alley'' =
     Inr \<lparr>dtype = Category [Str ''None''] False, vals = [Str ''None'', Str ''None'']\<rparr>"
    by code_simp
  from preprocess_fills_missing [OF ex_preprocess_houses ex_houses_wf ex_houses_free]
    ex_houses_wf ex_houses_free ex_preprocess_houses 1 2 3
  show ?thesis by simp
qed

text \<open>
  The claim's last clause, that no missing value remains anywhere, fails on a frame with
  a text column outside the two lists: the column keeps the object dtype, \<open>impute\<close>
  passes it by, and its missing value is still there after preprocessing.
\<close>

theorem preprocess_leaves_text_missing:
  "preprocess ex_houses = Inr ex_houses_imputed \<and>
   getitem ex_houses_imputed ''Notes'' = Inr \<lparr>dtype = Object, vals = [NA, Str ''corner lot'']\<rparr>"
proof -
  have "getitem ex_houses_imputed ''Notes'' = Inr \<lparr>dtype = Object, vals = [NA, Str ''corner lot'']\<rparr>"
    by code_simp
  with ex_preprocess_houses show ?thesis by simp
qed

section \<open>The export\<close>

lemma DataFrame_two:
  "DataFrame [(a, xs), (b, ys)] =
     (if length ys = length xs
      then Inr \<lparr>index = map int [0..<length xs],
                columns = [(a, \<lparr>dtype = infer_dtype xs, vals = xs\<rparr>),
                           (b, \<lparr>dtype = infer_dtype ys, vals = ys\<rparr>)]\<rparr>
      else Inl ValueError)"
  by (simp add: DataFrame_def)

lemma export_submission_ok:
  assumes "length (xgb_predict X_test) = nrows X_test"
  shows "export_submission xgb_predict X_test fs =
         Inr (fs(''submission.csv'' \<mapsto>
                 ([''Id'', ''SalePrice''],
                  map (\<lambda>i. [Num (of_int (index X_test ! i)), Num (exp (xgb_predict X_test ! i))])
                      [0..<nrows X_test])))"
proof -
  define ids where "ids = map (\<lambda>l. Num (of_int l)) (index X_test)"
  define prices where "prices = map Num (map exp (xgb_predict X_test))"
  have len: "length ids = nrows X_test" "length prices = nrows X_test"
    using assms by (simp_all add: ids_def prices_def nrows_def)
  have e: "export_submission xgb_predict X_test fs =
             and_then (DataFrame [(''Id'', ids), (''SalePrice'', prices)])
               (\<lambda>output. Inr (fs(''submission.csv'' \<mapsto> to_csv output False)))"
    by (simp add: export_submission_def Let_def ids_def prices_def)
  have rows: "map (\<lambda>i. [ids ! i, prices ! i]) [0..<nrows X_test] =
              map (\<lambda>i. [Num (of_int (index X_test ! i)), Num (exp (xgb_predict X_test ! i))])
                  [0..<nrows X_test]"
    using assms by (intro map_cong) (auto simp: ids_def prices_def nrows_def)
  have "export_submission xgb_predict X_test fs =
          Inr (fs(''submission.csv'' \<mapsto>
                 ([''Id'', ''SalePrice''], map (\<lambda>i. [ids ! i, prices ! i]) [0..<nrows X_test])))"
    unfolding e using len by (simp add: DataFrame_two to_csv_def nrows_def)
  then show ?thesis by (simp only: rows)
qed

lemma export_submission_Inr:
  assumes "export_submission xgb_predict X_test fs = Inr fs'"
  shows "length (xgb_predict X_test) = nrows X_test \<and>
         fs' = fs(''submission.csv'' \<mapsto>
                 ([''Id'', ''SalePrice''],
                  map (\<lambda>i. [Num (of_int (index X_test ! i)), Num (exp (xgb_predict X_test ! i))])
                      [0..<nrows X_test]))"
proof -
  from assms have len: "length (xgb_predict X_test) = nrows X_test"
    by (auto simp: export_submission_def DataFrame_two Let_def nrows_def split: if_splits)
  from export_submission_ok [of xgb_predict X_test fs] assms len show ?thesis by simp
qed

text \<open>
  Claim C6. The export returns whenever the model predicts one price per row of \<open>X_test\<close>.
  Whenever it returns, the file system has changed at the one path \<open>submission.csv\<close>; the
  file there has the header \<open>Id\<close>, \<open>SalePrice\<close> and one line per row of \<open>X_test\<close>, and each
  line has exactly two fields: the row's label and the exponential of its prediction,
  with no field for the index of the output frame.
\<close>

theorem export_submission_file:
  "(length (xgb_predict X_test) = nrows X_test \<longrightarrow>
      (\<exists>fs'. export_submission xgb_predict X_test fs = Inr fs')) \<and>
   (\<forall>fs'. export_submission xgb_predict X_test fs = Inr fs' \<longrightarrow>
      (\<forall>path. path \<noteq> ''submission.csv'' \<longrightarrow> fs' path = fs path) \<and>
      (\<exists>rows. fs' ''submission.csv'' = Some ([''Id'', ''SalePrice''], rows) \<and>
         length rows = nrows X_test \<and>
         (\<forall>i<nrows X_test.
            rows ! i = [Num (of_int (index X_test ! i)), Num (exp (xgb_predict X_test ! i))])))"
proof (intro conjI impI allI)
  assume "length (xgb_predict X_test) = nrows X_test"
  then show "\<exists>fs'. export_submission xgb_predict X_test fs = Inr fs'"
    by (simp add: export_submission_ok)
next
  fix fs' path
  assume "export_submission xgb_predict X_test fs = Inr fs'" "path \<noteq> ''submission.csv''"
  then show "fs' path = fs path" using export_submission_Inr by fastforce
next
  fix fs'
  assume "export_submission xgb_predict X_test fs = Inr fs'"
  from export_submission_Inr [OF this]
  show "\<exists>rows. fs' ''submission.csv'' = Some ([''Id'', ''SalePrice''], rows) \<and>
         length rows = nrows X_test \<and>
         (\<forall>i<nrows X_test.
            rows ! i = [Num (of_int (index X_test ! i)), Num (exp (xgb_predict X_test ! i))])"
    by simp
qed

theorem export_submission_file_witness:
  "length ((\<lambda>X. replicate (nrows X) 12) ex_porches) = nrows ex_porches \<and>
   export_submission (\<lambda>X. replicate (nrows X) 12) ex_porches Map.empty =
     Inr [''submission.csv'' \<mapsto>
            ([''Id'', ''SalePrice''],
             [[Num 1, Num (exp 12)], [Num 2, Num (exp 12)], [Num 3, Num (exp 12)]])]"
proof -
  have n: "nrows ex_porches = 3" by (simp add: nrows_def ex_porches_def)
  have i: "index ex_porches = [1, 2, 3]" by (simp add: ex_porches_def)
  have u: "[0..<3] = [0, 1, 2]" by (simp add: upt_rec)
  have l: "length ((\<lambda>X. replicate (nrows X) 12) ex_porches) = nrows ex_porches" by simp
  have e: "export_submission (\<lambda>X. replicate (nrows X) 12) ex_porches Map.empty =
     Inr [''submission.csv'' \<mapsto>
            ([''Id'', ''SalePrice''],
             [[Num 1, Num (exp 12)], [Num 2, Num (exp 12)], [Num 3, Num (exp 12)]])]"
    using export_submission_ok [of "\<lambda>X. replicate (nrows X) 12" ex_porches Map.empty]
    by (simp add: n i u)
  from export_submission_file [of "\<lambda>X. replicate (nrows X) 12" ex_porches Map.empty] l e
  show ?thesis by simp
qed

section \<open>score_dataset: the effect on the frame\<close>

lemma cat_codes_category:
  "is_category (dtype s) \<Longrightarrow> cat_codes s = Inr (label_encoded s)"
  by (cases "dtype s") (simp_all add: cat_codes_def label_encoded_def)

lemma label_encoded_other: "\<not> is_category (dtype s) \<Longrightarrow> label_encoded s = s"
  by (cases "dtype s") (simp_all add: label_encoded_def)

lemma encode_labels_result:
  assumes "distinct (map fst (columns df))" and "distinct names"
    and "\<And>n. n \<in> set names \<Longrightarrow> \<exists>s. getitem df n = Inr s \<and> is_category (dtype s)"
  shows "encode_labels names df =
           (df\<lparr>columns := map (\<lambda>c. if fst c \<in> set names then (fst c, label_encoded (snd c)) else c)
                              (columns df)\<rparr>, None)"
  using assms
proof (induction names arbitrary: df)
  case Nil
  then show ?case by simp
next
  case (Cons name names)
  from Cons.prems(3) [of name] obtain s where
    s: "getitem df name = Inr s" "is_category (dtype s)" by auto
  let ?df1 = "setitem df name (label_encoded s)"
  have c1: "columns ?df1 = map (\<lambda>c. if fst c = name then (name, label_encoded s) else c) (columns df)"
    using s(1) Cons.prems(1) by (rule columns_setitem_present)
  have d1: "distinct (map fst (columns ?df1))" using Cons.prems(1) by (rule distinct_setitem)
  have n1: "\<exists>t. getitem ?df1 n = Inr t \<and> is_category (dtype t)" if "n \<in> set names" for n
  proof -
    from that Cons.prems(2) have "n \<noteq> name" by auto
    with Cons.prems(3) [of n] that show ?thesis by (simp add: getitem_setitem)
  qed
  have dn: "distinct names" using Cons.prems(2) by simp
  have snd_eq: "snd c = s" if "c \<in> set (columns df)" "fst c = name" for c
  proof -
    have "map_of (columns df) (fst c) = Some (snd c)"
      using that(1) Cons.prems(1) by (intro map_of_is_SomeI) auto
    with s(1) that(2) show ?thesis by (simp add: getitem_Inr_iff)
  qed
  have "name \<notin> set names" using Cons.prems(2) by simp
  then have m: "map (\<lambda>c. if fst c \<in> set names then (fst c, label_encoded (snd c)) else c)
             (map (\<lambda>c. if fst c = name then (name, label_encoded s) else c) (columns df)) =
           map (\<lambda>c. if fst c \<in> set (name # names) then (fst c, label_encoded (snd c)) else c)
             (columns df)"
    unfolding map_map by (intro map_cong) (auto dest: snd_eq)
  have "encode_labels (name # names) df = encode_labels names ?df1"
    using s by (simp add: cat_codes_category)
  also have "\<dots> = (?df1\<lparr>columns := map (\<lambda>c. if fst c \<in> set names
                                          then (fst c, label_encoded (snd c)) else c)
                                     (columns ?df1)\<rparr>, None)"
    using Cons.IH [OF d1 dn n1] by simp
  finally have f: "encode_labels (name # names) df =
      (?df1\<lparr>columns := map (\<lambda>c. if fst c \<in> set names
                                          then (fst c, label_encoded (snd c)) else c)
                                     (columns ?df1)\<rparr>, None)" .
  have e: "?df1\<lparr>columns := cs\<rparr> = df\<lparr>columns := cs\<rparr>" for cs by (simp add: setitem_def)
  show ?case unfolding f e c1 m ..
qed

lemma select_dtypes_category_distinct:
  "distinct (map fst (columns df)) \<Longrightarrow> distinct (select_dtypes_category df)"
  by (simp add: select_dtypes_category_def distinct_map_filter)

lemma encode_labels_categories:
  assumes "distinct (map fst (columns df))"
  shows "encode_labels (select_dtypes_category df) df = (label_encoded_frame df, None)"
proof -
  have n: "\<exists>s. getitem df n = Inr s \<and> is_category (dtype s)"
    if "n \<in> set (select_dtypes_category df)" for n
  proof -
    from that obtain c where c: "c \<in> set (columns df)" "is_category (dtype (snd c))" "fst c = n"
      by (auto simp: select_dtypes_category_def)
    have "map_of (columns df) (fst c) = Some (snd c)"
      using c(1) assms by (intro map_of_is_SomeI) auto
    with c show ?thesis by (auto simp: getitem_Inr_iff)
  qed
  have "map (\<lambda>c. if fst c \<in> set (select_dtypes_category df)
                  then (fst c, label_encoded (snd c)) else c) (columns df) =
        map (\<lambda>c. (fst c, label_encoded (snd c))) (columns df)"
    using select_dtypes_category_set [OF assms]
    by (intro map_cong) (auto simp: label_encoded_other)
  with encode_labels_result [OF assms select_dtypes_category_distinct [OF assms] n]
  show ?thesis by (simp add: label_encoded_frame_def)
qed

text \<open>
  Claim C9. Called with references to a well-formed frame and to a target series,
  \<open>score_dataset\<close> leaves a heap that differs from the caller's at the frame only: the
  frame keeps its rows and column labels, every categorical column now holds its
  category codes, every other column is the column it was, and the target series is
  unchanged. This holds whether the scoring that follows returns or raises.
\<close>

theorem score_dataset_mutates_frame:
  assumes "h X = Some (Frame dfX)" and "h y = Some (Target ys)" and "wf_df dfX"
  shows "fst (score_dataset X y model h) = h(X \<mapsto> Frame (label_encoded_frame dfX)) \<and>
         fst (score_dataset X y model h) y = Some (Target ys) \<and>
         index (label_encoded_frame dfX) = index dfX \<and>
         columns (label_encoded_frame dfX) =
           map (\<lambda>c. (fst c, case dtype (snd c) of
                               Category cs ord \<Rightarrow> \<lparr>dtype = Number, vals = map (cat_code cs) (vals (snd c))\<rparr>
                             | _ \<Rightarrow> snd c)) (columns dfX)"
proof -
  have d: "distinct (map fst (columns dfX))" using assms(3) by (simp add: wf_df_def)
  have 1: "fst (score_dataset X y model h) = h(X \<mapsto> Frame (label_encoded_frame dfX))"
    using assms(1,2) by (simp add: score_dataset_def encode_labels_categories [OF d])
  have "X \<noteq> y" using assms(1,2) by auto
  with 1 assms(2) have 2: "fst (score_dataset X y model h) y = Some (Target ys)" by simp
  have 3: "columns (label_encoded_frame dfX) =
           map (\<lambda>c. (fst c, case dtype (snd c) of
                               Category cs ord \<Rightarrow> \<lparr>dtype = Number, vals = map (cat_code cs) (vals (snd c))\<rparr>
                             | _ \<Rightarrow> snd c)) (columns dfX)"
    by (simp add: label_encoded_frame_def label_encoded_def)
  from 1 2 3 show ?thesis by (simp add: label_encoded_frame_def)
qed

lemma ex_heap_frame: "ex_heap 0 = Some (Frame ex_scored)"
  by (simp add: ex_heap_def)

lemma ex_heap_target: "ex_heap 1 = Some (Target ex_prices)"
  by (simp add: ex_heap_def)

lemma ex_scored_wf: "wf_df ex_scored"
  by code_simp

lemma ex_scored_label_encoded: "label_encoded_frame ex_scored = ex_scored_codes"
  by code_simp

theorem score_dataset_mutates_frame_witness:
  "ex_heap 0 = Some (Frame ex_scored) \<and> ex_heap 1 = Some (Target ex_prices) \<and> wf_df ex_scored \<and>
   fst (score_dataset 0 1 mean_regressor ex_heap) 0 = Some (Frame ex_scored_codes) \<and>
   fst (score_dataset 0 1 mean_regressor ex_heap) 1 = Some (Target ex_prices)"
  using score_dataset_mutates_frame [OF ex_heap_frame ex_heap_target ex_scored_wf, of mean_regressor]
    ex_heap_frame ex_heap_target ex_scored_wf
  by (simp add: ex_scored_label_encoded)

section \<open>score_dataset: the score\<close>

lemma traverse_map:
  "(\<And>x. x \<in> set xs \<Longrightarrow> f x = Inr (g x)) \<Longrightarrow> traverse f xs = Inr (map g xs)"
  by (induction xs) simp_all

lemma np_log_Num:
  "\<forall>p\<in>set prices. 0 < p \<Longrightarrow> np_log (map Num prices) = Inr (map ln prices)"
  unfolding np_log_def by (induction prices) simp_all

lemma length_fold_ranges: "length (fold_ranges current sizes) = length sizes"
  by (induction sizes arbitrary: current) simp_all

lemma kfold_split_length:
  "kfold_split k n = Inr folds \<Longrightarrow> length folds = k"
  by (auto simp: kfold_split_def length_fold_ranges fold_sizes_def split: if_splits)

lemma nrows_take_rows: "nrows (take_rows df ps) = length ps"
  by (simp add: nrows_def take_rows_def)

lemma nrows_label_encoded_frame: "nrows (label_encoded_frame df) = nrows df"
  by (simp add: nrows_def label_encoded_frame_def)

lemma upt_five: "[0..<5] = [0, 1, 2, 3, 4]"
  by (simp add: upt_rec)

lemma sum_five: "(\<Sum>k<5. g k) = g 0 + g 1 + g 2 + g 3 + g (4::nat)" for g :: "nat \<Rightarrow> real"
  by (simp add: eval_nat_numeral)

lemma upt_join: "i \<le> j \<Longrightarrow> j \<le> k \<Longrightarrow> [i..<j] @ [j..<k] = [i..<k]"
  using upt_add_eq_append [of i j "k - j"] by simp

lemma sum_list_zip_nth:
  "length xs = length ys \<Longrightarrow>
   sum_list (map f (zip xs ys)) = (\<Sum>j<length xs. f (xs ! j, ys ! j))" for f :: "'a \<times> 'b \<Rightarrow> real"
proof -
  assume l: "length xs = length ys"
  have "sum_list (map f (zip xs ys)) = (\<Sum>j = 0..<length (zip xs ys). map f (zip xs ys) ! j)"
    by (simp only: sum_list_sum_nth length_map)
  also have "\<dots> = (\<Sum>j = 0..<length xs. f (xs ! j, ys ! j))"
    using l by (intro sum.cong) simp_all
  finally show ?thesis by (simp add: atLeast0LessThan)
qed

text \<open>
  The five splits of \<open>KFold(5)\<close> for \<open>n\<close> rows: fold \<open>k\<close> is the block of positions from
  \<open>k * (n div 5) + min k (n mod 5)\<close> up to the start of the next fold.
\<close>

lemma kfold_split_five:
  assumes "5 \<le> n" and start_def: "\<And>k. start k = k * (n div 5) + min k (n mod 5)"
  shows "kfold_split 5 n =
           Inr [([0..<start 0] @ [start 1..<n], [start 0..<start 1]),
                ([0..<start 1] @ [start 2..<n], [start 1..<start 2]),
                ([0..<start 2] @ [start 3..<n], [start 2..<start 3]),
                ([0..<start 3] @ [start 4..<n], [start 3..<start 4]),
                ([0..<start 4] @ [start 5..<n], [start 4..<start 5])]"
proof -
  have m: "n mod 5 < 5" by simp
  have s0: "start 0 = 0" by (simp add: start_def)
  have s1: "start 1 = n div 5 + (if 0 < n mod 5 then 1 else 0)"
    unfolding start_def by (simp add: min_def)
  have s2: "start 2 = start 1 + (n div 5 + (if 1 < n mod 5 then 1 else 0))"
    unfolding start_def using m by (simp add: min_def not_le)
  have s3: "start 3 = start 2 + (n div 5 + (if 2 < n mod 5 then 1 else 0))"
    unfolding start_def using m by (simp add: min_def not_le)
  have s4: "start 4 = start 3 + (n div 5 + (if 3 < n mod 5 then 1 else 0))"
    unfolding start_def using m by (simp add: min_def not_le)
  have s5: "start 5 = start 4 + (n div 5 + (if 4 < n mod 5 then 1 else 0))"
    unfolding start_def using m by (simp add: min_def not_le)
  have ranges: "fold_ranges 0 (fold_sizes 5 n) =
          [(start 0, start 1), (start 1, start 2), (start 2, start 3),
           (start 3, start 4), (start 4, start 5)]"
    unfolding fold_sizes_def upt_five s5 s4 s3 s2 s1 s0 by simp
  show ?thesis
    using assms(1) unfolding kfold_split_def ranges by simp
qed

lemma mean_squared_sum:
  assumes "length (predict model m D) = length ps"
  shows "mean (map (\<lambda>tp. (fst tp - snd tp)\<^sup>2) (zip (map (\<lambda>i. y ! i) ps) (predict model m D))) =
         (\<Sum>j<length ps. (y ! (ps ! j) - predict model m D ! j)\<^sup>2) / real (length ps)"
proof -
  have l: "length (map (\<lambda>i. y ! i) ps) = length (predict model m D)" using assms by simp
  have "sum_list (map (\<lambda>tp. (fst tp - snd tp)\<^sup>2) (zip (map (\<lambda>i. y ! i) ps) (predict model m D))) =
        (\<Sum>j<length (map (\<lambda>i. y ! i) ps).
            (fst (map (\<lambda>i. y ! i) ps ! j, predict model m D ! j) -
             snd (map (\<lambda>i. y ! i) ps ! j, predict model m D ! j))\<^sup>2)"
    by (rule sum_list_zip_nth [OF l])
  also have "\<dots> = (\<Sum>j<length ps. (y ! (ps ! j) - predict model m D ! j)\<^sup>2)"
    by (intro sum.cong) simp_all
  finally show ?thesis using assms by (simp add: mean_def)
qed

lemma cross_val_score_splits:
  assumes "length y = nrows X" and "kfold_split k (nrows X) = Inr folds"
    and "\<forall>m D. length (predict model m D) = nrows D"
  shows "cross_val_score model X y k =
           Inr (map (\<lambda>split.
                  - ((\<Sum>j<length (snd split).
                        (y ! (snd split ! j) -
                         predict model (fit model (take_rows X (fst split)) (map (\<lambda>i. y ! i) (fst split)))
                           (take_rows X (snd split)) ! j)\<^sup>2)
                     / real (length (snd split)))) folds)"
proof -
  have "traverse (\<lambda>split.
                let fitted = fit model (take_rows X (fst split)) (map (\<lambda>i. y ! i) (fst split))
                in and_then (mean_squared_error (map (\<lambda>i. y ! i) (snd split))
                               (predict model fitted (take_rows X (snd split))))
                     (\<lambda>mse. Inr (- mse))) folds =
        Inr (map (\<lambda>split.
                  - ((\<Sum>j<length (snd split).
                        (y ! (snd split ! j) -
                         predict model (fit model (take_rows X (fst split)) (map (\<lambda>i. y ! i) (fst split)))
                           (take_rows X (snd split)) ! j)\<^sup>2)
                     / real (length (snd split)))) folds)"
    by (rule traverse_map)
       (simp add: Let_def mean_squared_error_def assms(3) nrows_take_rows mean_squared_sum)
  with assms(1,2) show ?thesis by (simp add: cross_val_score_def)
qed

lemma ex_heap_prices:
  "ex_heap 1 = Some (Target (map Num [208500, 181500, 223500, 140000, 250000]))"
  by (simp add: ex_heap_def ex_prices_def)

lemma ex_seven_frame: "ex_seven_heap 0 = Some (Frame ex_seven)"
  by (simp add: ex_seven_heap_def)

lemma ex_seven_target:
  "ex_seven_heap 1 =
     Some (Target (map Num [208500, 181500, 223500, 140000, 250000, 143000, 307000]))"
  by (simp add: ex_seven_heap_def)

lemma ex_seven_wf: "wf_df ex_seven"
  by (simp add: wf_df_def ex_seven_def nrows_def)

text \<open>
  Claim C5, over the real numbers. The frame has \<open>n\<close> rows, at least five, the targets are
  the positive numbers \<open>prices\<close>, one for each row, and the model predicts one value per
  row. The folds are the five consecutive blocks of rows of \<open>KFold(5)\<close>: fold \<open>k\<close> starts at
  position \<open>start k = k * (n div 5) + min k (n mod 5)\<close>, so that the first \<open>n mod 5\<close> folds
  have one row more than the others. For each fold the model is fitted on the rows of the
  other folds, \<open>fitted_on k\<close>, with the natural logarithms of their prices, and predicts
  the rows of the fold, \<open>held_out k\<close>; it sees the frame with its categorical columns
  label-encoded. \<open>mse k\<close> is the sum over the rows of the fold of the squared difference
  between the logarithm of the price and the prediction, divided by the number of rows of
  the fold. Then \<open>score_dataset\<close> returns the square root of the sum of the five \<open>mse k\<close>
  divided by five. The folds, one after the other, are exactly the rows of the frame, none
  is empty, and the rows a fold's model is fitted on are exactly the rows outside the fold.
\<close>

theorem score_dataset_rmsle:
  fixes model :: "'m regressor"
  assumes "h X = Some (Frame dfX)" and "h y = Some (Target (map Num prices))" and "wf_df dfX"
    and "length prices = nrows dfX" and "5 \<le> nrows dfX" and "\<forall>p\<in>set prices. 0 < p"
    and "\<forall>m D. length (predict model m D) = nrows D"
  defines "n \<equiv> nrows dfX"
  defines "start \<equiv> \<lambda>k. k * (n div 5) + min k (n mod 5)"
  defines "held_out \<equiv> \<lambda>k. [start k..<start (k + 1)]"
  defines "fitted_on \<equiv> \<lambda>k. [0..<start k] @ [start (k + 1)..<n]"
  defines "rows \<equiv> \<lambda>ps.
           \<lparr>index = map (\<lambda>p. index dfX ! p) ps,
            columns = map (\<lambda>c. (fst c, (label_encoded (snd c))
                                          \<lparr>vals := map (\<lambda>p. vals (label_encoded (snd c)) ! p) ps\<rparr>))
                          (columns dfX)\<rparr>"
  defines "log_y \<equiv> map ln prices"
  defines "pred \<equiv> \<lambda>k. predict model
                         (fit model (rows (fitted_on k)) (map (\<lambda>i. log_y ! i) (fitted_on k)))
                         (rows (held_out k))"
  defines "mse \<equiv> \<lambda>k. (\<Sum>j<length (held_out k). (log_y ! (held_out k ! j) - pred k ! j)\<^sup>2)
                     / real (length (held_out k))"
  shows "snd (score_dataset X y model h) = Inr (sqrt ((\<Sum>k<5. mse k) / 5)) \<and>
         concat (map held_out [0..<5]) = [0..<n] \<and>
         (\<forall>k<5. held_out k \<noteq> [] \<and> set (fitted_on k) = {..<n} - set (held_out k))"
proof -
  let ?D = "label_encoded_frame dfX"
  have d: "distinct (map fst (columns dfX))" using assms(3) by (simp add: wf_df_def)
  have n5: "5 \<le> n" using assms(5) by (simp add: n_def)
  have nD: "nrows ?D = n" by (simp add: n_def nrows_label_encoded_frame)
  have rows: "take_rows ?D ps = rows ps" for ps
    by (simp add: take_rows_def rows_def label_encoded_frame_def comp_def)
  have step: "start (Suc k) = start k + (n div 5 + (if k < n mod 5 then 1 else 0))" for k
    by (simp add: start_def min_def)
  have s0: "start 0 = 0" by (simp add: start_def)
  have s5: "start 5 = n"
  proof -
    have "n mod 5 < 5" by simp
    then have "min 5 (n mod 5) = n mod 5" by (simp add: min_def)
    then show ?thesis by (simp add: start_def)
  qed
  have d1: "1 \<le> n div 5" using n5 by (simp add: div_greater_zero_iff Suc_le_eq)
  have less: "start k < start (Suc k)" for k using d1 by (simp add: step)
  have mono: "start j \<le> start k" if "j \<le> k" for j k
    using that by (simp add: start_def add_mono mult_le_mono1 min.mono)
  have e: "(0::nat) + 1 = 1" "(1::nat) + 1 = 2" "(2::nat) + 1 = 3" "(3::nat) + 1 = 4"
    "(4::nat) + 1 = 5"
    by simp_all
  have "kfold_split 5 (nrows ?D) =
          Inr [(fitted_on 0, held_out 0), (fitted_on 1, held_out 1), (fitted_on 2, held_out 2),
               (fitted_on 3, held_out 3), (fitted_on 4, held_out 4)]"
    unfolding fitted_on_def held_out_def e nD
    by (rule kfold_split_five [OF n5]) (simp add: start_def)
  then have split: "kfold_split 5 (nrows ?D) =
                 Inr (map (\<lambda>k. (fitted_on k, held_out k)) [0, 1, 2, 3, 4])"
    by simp
  have len: "length log_y = nrows ?D" using assms(4) by (simp add: log_y_def nD n_def)
  have cv: "cross_val_score model ?D log_y 5 = Inr (map (\<lambda>k. - mse k) [0, 1, 2, 3, 4])"
    unfolding cross_val_score_splits [OF len split assms(7)]
    by (simp add: rows mse_def pred_def)
  have "snd (score_dataset X y model h) =
          Inr (sqrt (- 1 * mean (map (\<lambda>k. - mse k) [0, 1, 2, 3, 4])))"
    using assms(1,2)
    by (simp add: score_dataset_def encode_labels_categories [OF d]
          np_log_Num [OF assms(6)] cv log_y_def [symmetric])
  then have 1: "snd (score_dataset X y model h) = Inr (sqrt ((\<Sum>k<5. mse k) / 5))"
    by (simp add: mean_def sum_five)
  have 2: "concat (map held_out [0..<5]) = [0..<n]"
  proof -
    have "concat (map held_out [0..<5]) =
            [start 0..<start 1] @ [start 1..<start 2] @ [start 2..<start 3] @
            [start 3..<start 4] @ [start 4..<start 5]"
      by (simp only: upt_five held_out_def list.map concat.simps e append_Nil2)
    also have "\<dots> = [start 0..<start 5]"
      by (simp add: upt_join mono)
    finally show ?thesis by (simp add: s0 s5)
  qed
  have 3: "held_out k \<noteq> [] \<and> set (fitted_on k) = {..<n} - set (held_out k)" if "k < 5" for k
  proof -
    have "start (Suc k) \<le> start 5" using that by (intro mono) simp
    then have "start (Suc k) \<le> n" by (simp add: s5)
    with less [of k] show ?thesis by (auto simp: held_out_def fitted_on_def)
  qed
  from 1 2 3 show ?thesis by blast
qed

text \<open>
  Two instances, with the regressor that predicts the mean of the targets it was fitted
  on. For the five houses every fold is one row, and the prediction for it is the mean of
  the logarithms of the other four prices. For the seven houses the folds are rows 0 and
  1, rows 2 and 3, row 4, row 5 and row 6: the squared errors of a fold of two rows are
  halved, and the prediction is the mean of five or of six logarithms.
\<close>

theorem score_dataset_rmsle_witness:
  "ex_heap 0 = Some (Frame ex_scored) \<and>
   ex_heap 1 = Some (Target (map Num [208500, 181500, 223500, 140000, 250000])) \<and>
   wf_df ex_scored \<and> nrows ex_scored = 5 \<and>
   snd (score_dataset 0 1 mean_regressor ex_heap) =
     Inr (sqrt (((ln 208500 - (ln 181500 + ln 223500 + ln 140000 + ln 250000) / 4)\<^sup>2 +
                 (ln 181500 - (ln 208500 + ln 223500 + ln 140000 + ln 250000) / 4)\<^sup>2 +
                 (ln 223500 - (ln 208500 + ln 181500 + ln 140000 + ln 250000) / 4)\<^sup>2 +
                 (ln 140000 - (ln 208500 + ln 181500 + ln 223500 + ln 250000) / 4)\<^sup>2 +
                 (ln 250000 - (ln 208500 + ln 181500 + ln 223500 + ln 140000) / 4)\<^sup>2) / 5)) \<and>
   ex_seven_heap 0 = Some (Frame ex_seven) \<and>
   ex_seven_heap 1 =
     Some (Target (map Num [208500, 181500, 223500, 140000, 250000, 143000, 307000])) \<and>
   wf_df ex_seven \<and> nrows ex_seven = 7 \<and>
   snd (score_dataset 0 1 mean_regressor ex_seven_heap) =
     Inr (sqrt ((((ln 208500 - (ln 223500 + ln 140000 + ln 250000 + ln 143000 + ln 307000) / 5)\<^sup>2 +
                  (ln 181500 - (ln 223500 + ln 140000 + ln 250000 + ln 143000 + ln 307000) / 5)\<^sup>2) / 2 +
                 ((ln 223500 - (ln 208500 + ln 181500 + ln 250000 + ln 143000 + ln 307000) / 5)\<^sup>2 +
                  (ln 140000 - (ln 208500 + ln 181500 + ln 250000 + ln 143000 + ln 307000) / 5)\<^sup>2) / 2 +
                 (ln 250000 -
                    (ln 208500 + ln 181500 + ln 223500 + ln 140000 + ln 143000 + ln 307000) / 6)\<^sup>2 +
                 (ln 143000 -
                    (ln 208500 + ln 181500 + ln 223500 + ln 140000 + ln 250000 + ln 307000) / 6)\<^sup>2 +
                 (ln 307000 -
                    (ln 208500 + ln 181500 + ln 223500 + ln 140000 + ln 250000 + ln 143000) / 6)\<^sup>2)
                / 5))"
proof -
  have m: "\<forall>m D. length (predict mean_regressor m D) = nrows D" by (simp add: mean_regressor_def)
  have n: "nrows ex_scored = 5" by (simp add: nrows_def ex_scored_def)
  have l: "length [208500, 181500, 223500, 140000, 250000 :: real] = nrows ex_scored"
    by (simp add: n)
  have f: "5 \<le> nrows ex_scored" by (simp add: n)
  have p: "\<forall>p\<in>set [208500, 181500, 223500, 140000, 250000 :: real]. 0 < p" by simp
  from score_dataset_rmsle [OF ex_heap_frame ex_heap_prices ex_scored_wf l f p m, THEN conjunct1]
  have five: "snd (score_dataset 0 1 mean_regressor ex_heap) =
     Inr (sqrt (((ln 208500 - (ln 181500 + ln 223500 + ln 140000 + ln 250000) / 4)\<^sup>2 +
                 (ln 181500 - (ln 208500 + ln 223500 + ln 140000 + ln 250000) / 4)\<^sup>2 +
                 (ln 223500 - (ln 208500 + ln 181500 + ln 140000 + ln 250000) / 4)\<^sup>2 +
                 (ln 140000 - (ln 208500 + ln 181500 + ln 223500 + ln 250000) / 4)\<^sup>2 +
                 (ln 250000 - (ln 208500 + ln 181500 + ln 223500 + ln 140000) / 4)\<^sup>2) / 5))"
    unfolding n by (simp add: sum_five mean_regressor_def mean_def nrows_def upt_rec add.assoc)
  have n': "nrows ex_seven = 7" by (simp add: nrows_def ex_seven_def)
  have l': "length [208500, 181500, 223500, 140000, 250000, 143000, 307000 :: real] = nrows ex_seven"
    by (simp add: n')
  have f': "5 \<le> nrows ex_seven" by (simp add: n')
  have p': "\<forall>p\<in>set [208500, 181500, 223500, 140000, 250000, 143000, 307000 :: real]. 0 < p"
    by simp
  from score_dataset_rmsle [OF ex_seven_frame ex_seven_target ex_seven_wf l' f' p' m, THEN conjunct1]
  have seven: "snd (score_dataset 0 1 mean_regressor ex_seven_heap) =
     Inr (sqrt ((((ln 208500 - (ln 223500 + ln 140000 + ln 250000 + ln 143000 + ln 307000) / 5)\<^sup>2 +
                  (ln 181500 - (ln 223500 + ln 140000 + ln 250000 + ln 143000 + ln 307000) / 5)\<^sup>2) / 2 +
                 ((ln 223500 - (ln 208500 + ln 181500 + ln 250000 + ln 143000 + ln 307000) / 5)\<^sup>2 +
                  (ln 140000 - (ln 208500 + ln 181500 + ln 250000 + ln 143000 + ln 307000) / 5)\<^sup>2) / 2 +
                 (ln 250000 -
                    (ln 208500 + ln 181500 + ln 223500 + ln 140000 + ln 143000 + ln 307000) / 6)\<^sup>2 +
                 (ln 143000 -
                    (ln 208500 + ln 181500 + ln 223500 + ln 140000 + ln 250000 + ln 307000) / 6)\<^sup>2 +
                 (ln 307000 -
                    (ln 208500 + ln 181500 + ln 223500 + ln 140000 + ln 250000 + ln 143000) / 6)\<^sup>2)
                / 5))"
    unfolding n' by (simp add: sum_five mean_regressor_def mean_def nrows_def upt_rec add.assoc)
  from five seven ex_heap_frame ex_heap_prices ex_scored_wf n
    ex_seven_frame ex_seven_target ex_seven_wf n'
  show ?thesis by (simp only: simp_thms)
qed

section \<open>CrossFoldEncoder: the folds\<close>

lemma iloc_Inr: "iloc df ps = Inr d \<Longrightarrow> d = take_rows df ps"
  by (auto simp: iloc_def split: if_splits)

lemma iloc_values_Inr: "iloc_values y ps = Inr ys \<Longrightarrow> ys = map (\<lambda>p. y ! p) ps"
  by (auto simp: iloc_values_def split: if_splits)

lemma fit_folds_Inr:
  "fit_folds enc cs X y splits = (encs, Inr parts) \<Longrightarrow>
   encs = map (fold_encoder enc cs X y) splits \<and>
   list_all2 (\<lambda>split part. fold_part enc cs X y split = Inr part) splits parts"
proof (induction splits arbitrary: encs parts)
  case Nil
  then show ?case by simp
next
  case (Cons split splits)
  from Cons.prems obtain X_fit y_fit X_fold part encs' parts' where
    a: "iloc X (fst split) = Inr X_fit" "iloc_values y (fst split) = Inr y_fit" and
    b: "iloc X (snd split) = Inr X_fold"
       "select_columns (enc_transform enc (enc_fit enc cs X_fit y_fit) X_fold) cs = Inr part" and
    c: "fit_folds enc cs X y splits = (encs', Inr parts')" and
    d: "encs = enc_fit enc cs X_fit y_fit # encs'" "parts = part # parts'"
    by (auto simp: and_then_eq_Inr split: sum.splits prod.splits)
  note e = iloc_Inr [OF a(1)] iloc_values_Inr [OF a(2)] iloc_Inr [OF b(1)]
  have "fold_encoder enc cs X y split = enc_fit enc cs X_fit y_fit"
    by (simp add: fold_encoder_def e)
  moreover have "fold_part enc cs X y split = Inr part"
    using b(2) by (simp add: fold_part_def fold_encoder_def e)
  ultimately show ?case using Cons.IH [OF c] d by simp
qed

lemma fit_transform_Inr:
  assumes "snd (fit_transform self X y cs) = Inr E"
  shows "\<exists>splits parts X_encoded.
           kfold_split (cv self) (nrows X) = Inr splits \<and>
           fitted_encoders (fst (fit_transform self X y cs)) =
             Some (map (fold_encoder (encoder self) cs X y) splits) \<and>
           cols (fst (fit_transform self X y cs)) = Some cs \<and>
           list_all2 (\<lambda>split part. fold_part (encoder self) cs X y split = Inr part) splits parts \<and>
           concat_frames parts = Inr X_encoded \<and> E = add_suffix X_encoded"
proof -
  from assms obtain splits where s: "kfold_split (cv self) (nrows X) = Inr splits"
    by (cases "kfold_split (cv self) (nrows X)") (auto simp: fit_transform_def)
  obtain encs r where f: "fit_folds (encoder self) cs X y splits = (encs, r)"
    by (cases "fit_folds (encoder self) cs X y splits")
  from assms s f obtain parts X_encoded where
    r: "r = Inr parts" "concat_frames parts = Inr X_encoded" "E = add_suffix X_encoded"
    by (auto simp: fit_transform_def and_then_eq_Inr)
  from fit_folds_Inr [OF f [unfolded r(1)]] s f r show ?thesis
    by (auto simp: fit_transform_def)
qed

lemma kfold_split_Inr:
  "kfold_split k n = Inr splits \<Longrightarrow>
   k \<le> n \<and> splits = map (split_of n) (fold_ranges 0 (fold_sizes k n))"
  by (auto simp: kfold_split_def split_of_def split: if_splits)

lemma sum_list_fold_sizes_aux:
  "r \<le> k \<Longrightarrow> sum_list (map (\<lambda>i. c + (if i < r then 1 else 0)) [0..<k]) = k * c + r"
proof (induction k arbitrary: r)
  case 0
  then show ?case by simp
next
  case (Suc k)
  show ?case
  proof (cases "r \<le> k")
    case True
    with Suc.IH [of r] show ?thesis by simp
  next
    case False
    with Suc.prems have r: "r = Suc k" by simp
    have e: "sum_list (map (\<lambda>i. c + (if i < Suc k then 1 else 0)) [0..<k]) =
             sum_list (map (\<lambda>i. c + (if i < k then 1 else 0)) [0..<k])"
      by (intro arg_cong [where f = sum_list] map_cong) auto
    from Suc.IH [of k] r show ?thesis by (simp add: e)
  qed
qed

lemma sum_list_fold_sizes: "0 < k \<Longrightarrow> sum_list (fold_sizes k n) = n"
  unfolding fold_sizes_def
  by (subst sum_list_fold_sizes_aux) (simp_all add: less_imp_le)

lemma fold_ranges_find:
  "c \<le> i \<Longrightarrow> i < c + sum_list sizes \<Longrightarrow>
   \<exists>r. find (\<lambda>r. i < snd r) (fold_ranges c sizes) = Some r \<and> fst r \<le> i \<and> i < snd r"
proof (induction sizes arbitrary: c)
  case Nil
  then show ?case by simp
next
  case (Cons sz sizes)
  show ?case
  proof (cases "i < c + sz")
    case True
    with Cons.prems show ?thesis by simp
  next
    case False
    with Cons.prems Cons.IH [of "c + sz"] show ?thesis by (simp add: add.assoc)
  qed
qed

lemma fold_ranges_block:
  "\<forall>r\<in>set (fold_ranges c sizes). length (g r) = snd r - fst r \<Longrightarrow> c \<le> i \<Longrightarrow>
   find (\<lambda>r. i < snd r) (fold_ranges c sizes) = Some r \<Longrightarrow>
   concat (map g (fold_ranges c sizes)) ! (i - c) = g r ! (i - fst r)"
proof (induction sizes arbitrary: c)
  case Nil
  then show ?case by simp
next
  case (Cons sz sizes)
  have len: "length (g (c, c + sz)) = sz" using Cons.prems(1) by simp
  show ?case
  proof (cases "i < c + sz")
    case True
    with Cons.prems(3) have "r = (c, c + sz)" by simp
    moreover have "i - c < sz" using True Cons.prems(2) by arith
    ultimately show ?thesis using len by (simp add: nth_append)
  next
    case False
    then have f: "find (\<lambda>r. i < snd r) (fold_ranges (c + sz) sizes) = Some r"
      using Cons.prems(3) by simp
    have "concat (map g (fold_ranges (c + sz) sizes)) ! (i - (c + sz)) = g r ! (i - fst r)"
      using Cons.prems(1) False f by (intro Cons.IH) simp_all
    moreover have "i - c - sz = i - (c + sz)" by simp
    moreover have "\<not> i - c < sz" using False by arith
    ultimately show ?thesis using len by (simp add: nth_append)
  qed
qed

lemma find_in_set: "find P xs = Some x \<Longrightarrow> x \<in> set xs"
  by (induction xs) (auto split: if_splits)

lemma split_of_held_out:
  "fst r \<le> i \<Longrightarrow> i < snd r \<Longrightarrow> i \<in> set (snd (split_of n r)) \<and> i \<notin> set (fst (split_of n r))"
  by (auto simp: split_of_def)

lemma list_all2_projr:
  "list_all2 (\<lambda>x y. F x = Inr y) xs ys \<Longrightarrow> ys = map (\<lambda>x. projr (F x)) xs"
  by (induction rule: list_all2_induct) simp_all

lemma map_of_relabel_inj:
  assumes "inj f"
  shows "map_of (map (\<lambda>c. (f (fst c), snd c)) cs) (f n) = map_of cs n"
  by (induction cs) (auto simp: inj_eq [OF assms])

lemma getitem_add_suffix: "getitem (add_suffix df) (name @ ''_encoded'') = getitem df name"
proof -
  have "inj (\<lambda>n :: string. n @ ''_encoded'')" by (simp add: inj_on_def)
  from map_of_relabel_inj [OF this, of "columns df" name] show ?thesis
    by (simp add: getitem_def add_suffix_def)
qed

lemma set_first_seen [simp]: "set (first_seen xs) = set xs"
  by (simp add: first_seen_def)

lemma map_of_tabulate:
  "n \<in> set ns \<Longrightarrow> map_of (map (\<lambda>k. (k, f k)) ns) n = Some (f n)"
  by (induction ns) auto

lemma concat_frames_getitem:
  assumes "concat_frames parts = Inr X_encoded"
    and "name \<in> set (concat (map (\<lambda>df. map fst (columns df)) parts))"
  shows "\<exists>s. getitem X_encoded name = Inr s \<and> vals s = concat (map (part_of name) parts)"
proof -
  from assms(1) have
    "columns X_encoded =
       map (\<lambda>name. (name, \<lparr>dtype = common_dtype (dtypes_of name parts),
                             vals = concat (map (part_of name) parts)\<rparr>))
           (first_seen (concat (map (\<lambda>df. map fst (columns df)) parts)))"
    by (auto simp: concat_frames_def split: if_splits)
  moreover have "name \<in> set (first_seen (concat (map (\<lambda>df. map fst (columns df)) parts)))"
    using assms(2) by (simp only: set_first_seen)
  ultimately show ?thesis by (simp add: getitem_def map_of_tabulate)
qed

lemma select_columns_getitem:
  assumes "select_columns df names = Inr sub" and "name \<in> set names"
  shows "\<exists>s. getitem df name = Inr s \<and> getitem sub name = Inr s"
proof -
  from select_columns_Inr [OF assms(1)] have
    l: "list_all2 (\<lambda>name c. c = (name, snd c) \<and> getitem df name = Inr (snd c)) names (columns sub)"
    by simp
  from l assms(2) have "\<exists>s. getitem df name = Inr s \<and> map_of (columns sub) name = Some s"
  proof (induction rule: list_all2_induct)
    case Nil
    then show ?case by simp
  next
    case (Cons n ns c cs)
    then show ?case by (cases c) (auto split: if_splits)
  qed
  then show ?thesis by (simp add: getitem_Inr_iff)
qed

lemma wf_df_take_rows: "wf_df df \<Longrightarrow> wf_df (take_rows df ps)"
  by (simp add: wf_df_def take_rows_def nrows_def o_def list_all_iff)

lemma fold_part_column:
  assumes "fold_part enc cs X y split = Inr part" and "keeps_rows enc" and "wf_df X"
    and "name \<in> set cs"
  shows "length (part_of name part) = length (snd split) \<and>
         cell_at part name j = Some (part_of name part ! j)"
proof -
  let ?T = "enc_transform enc (fold_encoder enc cs X y split) (take_rows X (snd split))"
  have wf: "wf_df (take_rows X (snd split))" using assms(3) by (rule wf_df_take_rows)
  with assms(2) have T: "wf_df ?T" "index ?T = index (take_rows X (snd split))"
    by (simp_all add: keeps_rows_def)
  from assms(1) have "select_columns ?T cs = Inr part" by (simp add: fold_part_def)
  from select_columns_getitem [OF this assms(4)] obtain s where
    s: "getitem ?T name = Inr s" "getitem part name = Inr s" by blast
  have "length (vals s) = nrows ?T" using T(1) s(1) by (rule getitem_wf_length)
  also have "\<dots> = length (snd split)" unfolding nrows_def T(2) by (simp add: take_rows_def)
  finally have "length (vals s) = length (snd split)" .
  moreover have "part_of name part = vals s"
    using s(2) by (simp add: part_of_def getitem_Inr_iff)
  ultimately show ?thesis using s(2) by (simp add: cell_at_def)
qed

lemma part_labels:
  "fold_part enc cs X y split = Inr part \<Longrightarrow> map fst (columns part) = cs"
  using select_columns_Inr by (fastforce simp: fold_part_def)

lemma list_all2_left_witness:
  "list_all2 P xs ys \<Longrightarrow> x \<in> set xs \<Longrightarrow> \<exists>y. P x y"
  by (induction rule: list_all2_induct) auto

lemma fit_transform_cell:
  assumes "snd (fit_transform self X y cs) = Inr E" and "wf_df X"
    and "keeps_rows (encoder self)" and "i < nrows X"
  shows "\<exists>r part. find (\<lambda>r. i < snd r) (fold_ranges 0 (fold_sizes (cv self) (nrows X))) = Some r \<and>
           fst r \<le> i \<and> i < snd r \<and>
           kfold_split (cv self) (nrows X) =
             Inr (map (split_of (nrows X)) (fold_ranges 0 (fold_sizes (cv self) (nrows X)))) \<and>
           fold_part (encoder self) cs X y (split_of (nrows X) r) = Inr part \<and>
           (\<forall>name\<in>set cs. cell_at E (name @ ''_encoded'') i = cell_at part name (i - fst r))"
proof -
  let ?n = "nrows X" and ?k = "cv self" and ?enc = "encoder self"
  let ?ranges = "fold_ranges 0 (fold_sizes ?k ?n)"
  let ?F = "\<lambda>r. fold_part ?enc cs X y (split_of ?n r)"
  from fit_transform_Inr [OF assms(1)] obtain splits parts X_encoded where
    k: "kfold_split ?k ?n = Inr splits" and
    l: "list_all2 (\<lambda>split part. fold_part ?enc cs X y split = Inr part) splits parts" and
    c: "concat_frames parts = Inr X_encoded" and E: "E = add_suffix X_encoded"
    by blast
  from kfold_split_Inr [OF k] have splits: "splits = map (split_of ?n) ?ranges" by simp
  from l have l': "list_all2 (\<lambda>r part. ?F r = Inr part) ?ranges parts"
    by (simp add: splits list_all2_map1)
  then have parts: "parts = map (\<lambda>r. projr (?F r)) ?ranges" by (rule list_all2_projr)
  have F: "?F r = Inr (projr (?F r))" if "r \<in> set ?ranges" for r
  proof -
    from list_all2_left_witness [OF l' that] obtain part where "?F r = Inr part" by blast
    then show ?thesis by simp
  qed
  have "parts \<noteq> []" using c by (auto simp: concat_frames_def)
  then have "?ranges \<noteq> []" using parts by auto
  then have "0 < ?k" by (cases "?k = 0") (simp_all add: fold_sizes_def)
  then have "sum_list (fold_sizes ?k ?n) = ?n" by (rule sum_list_fold_sizes)
  with assms(4) fold_ranges_find [of 0 i "fold_sizes ?k ?n"] obtain r where
    r: "find (\<lambda>r. i < snd r) ?ranges = Some r" "fst r \<le> i" "i < snd r" by auto
  have r_in: "r \<in> set ?ranges" using r(1) by (rule find_in_set)
  have cell: "cell_at E (name @ ''_encoded'') i = cell_at (projr (?F r)) name (i - fst r)"
    if name: "name \<in> set cs" for name
  proof -
    let ?g = "\<lambda>r. part_of name (projr (?F r))"
    have len: "\<forall>r\<in>set ?ranges. length (?g r) = snd r - fst r"
    proof
      fix q assume "q \<in> set ?ranges"
      from fold_part_column [OF F [OF this] assms(3,2) name]
      show "length (?g q) = snd q - fst q" by (simp add: split_of_def)
    qed
    have "name \<in> set (map fst (columns (projr (?F r))))"
      using part_labels [OF F [OF r_in]] name by simp
    then have "name \<in> set (concat (map (\<lambda>df. map fst (columns df)) parts))"
      using r_in by (auto simp: parts)
    from concat_frames_getitem [OF c this] obtain s where
      s: "getitem X_encoded name = Inr s" "vals s = concat (map (part_of name) parts)" by blast
    have "vals s ! i = ?g r ! (i - fst r)"
      using fold_ranges_block [of 0 "fold_sizes ?k ?n" ?g i r, OF len _ r(1)]
      by (simp add: s(2) parts o_def)
    moreover have "cell_at (projr (?F r)) name (i - fst r) = Some (?g r ! (i - fst r))"
      using fold_part_column [OF F [OF r_in] assms(3,2) name] by simp
    ultimately show ?thesis by (simp add: cell_at_def E getitem_add_suffix s(1))
  qed
  from r k splits F [OF r_in] cell show ?thesis by blast
qed

section \<open>CrossFoldEncoder: held-out encoding\<close>

lemma m_estimate_keeps_rows: "keeps_rows (m_estimate m)"
proof -
  have "wf_df (m_estimate_transform model D) \<and> index (m_estimate_transform model D) = index D"
    if wf: "wf_df D" for model D
  proof -
    define f where "f = (\<lambda>c :: string \<times> series. case map_of (snd model) (fst c) of
                     None \<Rightarrow> c
                   | Some table \<Rightarrow>
                       (fst c,
                        \<lparr>dtype = Number,
                         vals = map (\<lambda>v. case map_of table v of
                                            None \<Rightarrow> Num (fst model)
                                          | Some e \<Rightarrow> Num e) (vals (snd c))\<rparr>))"
    have f1: "fst (f c) = fst c" for c by (simp add: f_def split: option.splits)
    have f2: "length (vals (snd (f c))) = length (vals (snd c))" for c
      by (simp add: f_def split: option.splits)
    have T: "m_estimate_transform model D = D\<lparr>columns := map f (columns D)\<rparr>"
      by (simp add: m_estimate_transform_def f_def)
    have "map fst (map f (columns D)) = map fst (columns D)" by (simp add: f1)
    then have "distinct (map fst (map f (columns D)))" using wf by (simp only: wf_df_def)
    moreover have "list_all (\<lambda>c. length (vals (snd c)) = nrows D) (map f (columns D))"
      using wf by (simp add: wf_df_def list_all_iff f2)
    ultimately show ?thesis by (simp add: T wf_df_def nrows_def)
  qed
  then show ?thesis by (simp add: keeps_rows_def m_estimate_def)
qed

text \<open>
  Claim C1. Let \<open>fit_transform\<close> return for a well-formed frame and an encoder that keeps
  the rows it is given. Every row lies in the fold of exactly one split and outside the
  rows that split's encoder is fitted on, and its encoded cells are the cells that
  encoder's transform of the fold gives it. Hence replacing the target of the row by any
  value leaves the row's encoded cells as they were, whenever \<open>fit_transform\<close> returns for
  the changed targets as well.
\<close>

theorem fit_transform_held_out:
  assumes "snd (fit_transform self X y cs) = Inr E" and "wf_df X"
    and "keeps_rows (encoder self)" and "i < nrows X"
  shows "(\<exists>splits split part.
            kfold_split (cv self) (nrows X) = Inr splits \<and> split \<in> set splits \<and>
            i \<in> set (snd split) \<and> i \<notin> set (fst split) \<and>
            fold_part (encoder self) cs X y split = Inr part \<and>
            (\<forall>name\<in>set cs.
               cell_at E (name @ ''_encoded'') i = cell_at part name (i - hd (snd split)))) \<and>
         (\<forall>v E'. snd (fit_transform self X (y[i := v]) cs) = Inr E' \<longrightarrow>
            (\<forall>name\<in>set cs.
               cell_at E' (name @ ''_encoded'') i = cell_at E (name @ ''_encoded'') i))"
proof -
  let ?n = "nrows X"
  let ?ranges = "fold_ranges 0 (fold_sizes (cv self) ?n)"
  from fit_transform_cell [OF assms] obtain r part where
    r: "find (\<lambda>r. i < snd r) ?ranges = Some r" "fst r \<le> i" "i < snd r" and
    k: "kfold_split (cv self) ?n = Inr (map (split_of ?n) ?ranges)" and
    p: "fold_part (encoder self) cs X y (split_of ?n r) = Inr part" and
    c: "\<forall>name\<in>set cs. cell_at E (name @ ''_encoded'') i = cell_at part name (i - fst r)"
    by blast
  have held: "i \<in> set (snd (split_of ?n r))" "i \<notin> set (fst (split_of ?n r))"
    using split_of_held_out [OF r(2,3)] by simp_all
  have hd: "hd (snd (split_of ?n r)) = fst r"
    using r(2,3) by (simp add: split_of_def)
  have "split_of ?n r \<in> set (map (split_of ?n) ?ranges)"
    using find_in_set [OF r(1)] by simp
  with k held p c hd have 1:
    "\<exists>splits split part.
            kfold_split (cv self) (nrows X) = Inr splits \<and> split \<in> set splits \<and>
            i \<in> set (snd split) \<and> i \<notin> set (fst split) \<and>
            fold_part (encoder self) cs X y split = Inr part \<and>
            (\<forall>name\<in>set cs.
               cell_at E (name @ ''_encoded'') i = cell_at part name (i - hd (snd split)))"
    by metis
  have 2: "\<forall>name\<in>set cs. cell_at E' (name @ ''_encoded'') i = cell_at E (name @ ''_encoded'') i"
    if E': "snd (fit_transform self X (y[i := v]) cs) = Inr E'" for v E'
  proof -
    from fit_transform_cell [OF E' assms(2,3,4)] r(1) obtain part' where
      p': "fold_part (encoder self) cs X (y[i := v]) (split_of ?n r) = Inr part'" and
      c': "\<forall>name\<in>set cs. cell_at E' (name @ ''_encoded'') i = cell_at part' name (i - fst r)"
      by auto
    have m: "map (\<lambda>p. y[i := v] ! p) (fst (split_of ?n r)) = map (\<lambda>p. y ! p) (fst (split_of ?n r))"
      using held(2) by (intro map_cong) (simp_all, metis nth_list_update_neq)
    have "fold_part (encoder self) cs X (y[i := v]) (split_of ?n r) =
               fold_part (encoder self) cs X y (split_of ?n r)"
      unfolding fold_part_def fold_encoder_def m ..
    with p p' have "part' = part" by simp
    with c c' show ?thesis by simp
  qed
  from 1 2 show ?thesis by blast
qed

lemma ex_fit_transform:
  "snd (fit_transform (CrossFoldEncoder (m_estimate 1)) ex_scored_codes ex_prices [''Neighborhood''])
     = Inr ex_fold_encoded"
  by code_simp

lemma ex_scored_codes_wf: "wf_df ex_scored_codes"
  by code_simp

lemma ex_encoder_keeps_rows: "keeps_rows (encoder (CrossFoldEncoder (m_estimate 1)))"
  by (simp add: CrossFoldEncoder_def m_estimate_keeps_rows)

theorem fit_transform_held_out_witness:
  "snd (fit_transform (CrossFoldEncoder (m_estimate 1)) ex_scored_codes ex_prices [''Neighborhood''])
     = Inr ex_fold_encoded \<and>
   cell_at ex_fold_encoded ''Neighborhood_encoded'' 0 = Some (Num 211125) \<and>
   cell_at (projr (snd (fit_transform (CrossFoldEncoder (m_estimate 1)) ex_scored_codes
                          (ex_prices[0 := Num 1]) [''Neighborhood''])))
           ''Neighborhood_encoded'' 0 = Some (Num 211125)"
proof -
  have n: "0 < nrows ex_scored_codes" by (simp add: nrows_def ex_scored_codes_def)
  have c: "cell_at ex_fold_encoded ''Neighborhood_encoded'' 0 = Some (Num 211125)"
    by code_simp
  have c': "cell_at (projr (snd (fit_transform (CrossFoldEncoder (m_estimate 1)) ex_scored_codes
                          (ex_prices[0 := Num 1]) [''Neighborhood''])))
           ''Neighborhood_encoded'' 0 = Some (Num 211125)"
    by code_simp
  from fit_transform_held_out [OF ex_fit_transform ex_scored_codes_wf ex_encoder_keeps_rows n]
    ex_fit_transform c c'
  show ?thesis by simp
qed

section \<open>CrossFoldEncoder: averaging\<close>

lemma add_cell_Inr:
  "add_cell a b = Inr c \<Longrightarrow>
   \<not> is_str a \<and> \<not> is_str b \<and> \<not> is_str c \<and>
   (c = NA \<longleftrightarrow> a = NA \<and> b = NA) \<and> cell_value c = cell_value a + cell_value b"
  by (cases a; cases b) auto

lemma reduce_add_cell:
  "reduce_from add_cell a cells = Inr t \<Longrightarrow> \<not> is_str a \<Longrightarrow>
   \<not> is_str t \<and> (t = NA \<longleftrightarrow> list_all (\<lambda>c. c = NA) (a # cells)) \<and>
   cell_value t = sum_list (map cell_value (a # cells))"
proof (induction cells arbitrary: a)
  case Nil
  then show ?case by simp
next
  case (Cons c cells)
  from Cons.prems(1) obtain a' where
    a': "add_cell a c = Inr a'" "reduce_from add_cell a' cells = Inr t"
    by (auto simp: and_then_eq_Inr)
  from add_cell_Inr [OF a'(1)] Cons.IH [OF a'(2)] show ?case by auto
qed

lemma cell_of_value: "\<not> is_str t \<Longrightarrow> t \<noteq> NA \<Longrightarrow> t = Num (cell_value t)"
  by (cases t) simp_all

lemma averaged_cells:
  assumes "reduce_from add_cell a cells = Inr t" and "div_cell (Suc (length cells)) t = Inr r"
  shows "r = averaged (a # cells)"
proof -
  have nt: "\<not> is_str t" using assms(2) by (cases t) simp_all
  have na: "\<not> is_str a"
  proof (cases cells)
    case Nil
    with assms(1) nt show ?thesis by simp
  next
    case (Cons c cs)
    with assms(1) obtain a' where "add_cell a c = Inr a'" by (auto simp: and_then_eq_Inr)
    from add_cell_Inr [OF this] show ?thesis by simp
  qed
  from reduce_add_cell [OF assms(1) na] have
    t: "t = NA \<longleftrightarrow> list_all (\<lambda>c. c = NA) (a # cells)"
       "cell_value t = sum_list (map cell_value (a # cells))" by simp_all
  show ?thesis
  proof (cases "t = NA")
    case True
    with assms(2) t(1) show ?thesis by (simp add: averaged_def)
  next
    case False
    with nt have "t = Num (cell_value t)" by (simp add: cell_of_value)
    with assms(2) have "r = Num (cell_value t / real (Suc (length cells)))"
      by (metis div_cell.simps(2) sum.inject(2))
    with False t show ?thesis by (simp add: averaged_def)
  qed
qed

lemma add_series_Inr:
  assumes "add_series sx sy = Inr sz" and "length (vals sx) = n" and "length (vals sy) = n"
  shows "length (vals sz) = n \<and> (\<forall>i<n. add_cell (vals sx ! i) (vals sy ! i) = Inr (vals sz ! i))"
proof -
  from assms(1) have
    "list_all2 (\<lambda>xy c. add_cell (fst xy) (snd xy) = Inr c) (zip (vals sx) (vals sy)) (vals sz)"
    by (auto simp: add_series_def and_then_eq_Inr traverse_eq_Inr)
  with assms(2,3) show ?thesis by (auto simp: list_all2_conv_all_nth)
qed

lemma add_columns_lookup:
  "map fst xs = map fst ys \<Longrightarrow>
   list_all2 (\<lambda>cd c. and_then (add_series (snd (fst cd)) (snd (snd cd)))
                        (\<lambda>s. Inr (fst (fst cd), s)) = Inr c) (zip xs ys) zs \<Longrightarrow>
   map_of xs name = Some sx \<Longrightarrow> map_of ys name = Some sy \<Longrightarrow>
   \<exists>sz. map_of zs name = Some sz \<and> add_series sx sy = Inr sz"
proof (induction xs arbitrary: ys zs)
  case Nil
  then show ?case by simp
next
  case (Cons x xs)
  from Cons.prems(1) obtain y ys' where ys: "ys = y # ys'" "fst y = fst x" "map fst xs = map fst ys'"
    by (cases ys) auto
  from Cons.prems(2) ys obtain z zs' where
    zs: "zs = z # zs'"
        "and_then (add_series (snd x) (snd y)) (\<lambda>s. Inr (fst x, s)) = Inr z"
        "list_all2 (\<lambda>cd c. and_then (add_series (snd (fst cd)) (snd (snd cd)))
                        (\<lambda>s. Inr (fst (fst cd), s)) = Inr c) (zip xs ys') zs'"
    by (cases zs) auto
  from zs(2) obtain s where s: "add_series (snd x) (snd y) = Inr s" "z = (fst x, s)"
    by (auto simp: and_then_eq_Inr)
  show ?case
  proof (cases "fst x = name")
    case True
    with Cons.prems(3,4) ys have "sx = snd x" "sy = snd y" by (cases x; cases y; simp)+
    with True s zs(1) show ?thesis by simp
  next
    case False
    with Cons.prems(3,4) ys have "map_of xs name = Some sx" "map_of ys' name = Some sy"
      by (cases x; cases y; simp)+
    from Cons.IH [OF ys(3) zs(3) this] False s zs(1) show ?thesis by simp
  qed
qed

lemma add_fill_cell:
  assumes "add_fill x y = Inr z" and "getitem x name = Inr sx" and "getitem y name = Inr sy"
    and "length (vals sx) = n" and "length (vals sy) = n"
  shows "\<exists>sz. getitem z name = Inr sz \<and> length (vals sz) = n \<and>
           (\<forall>i<n. add_cell (vals sx ! i) (vals sy ! i) = Inr (vals sz ! i))"
proof -
  from assms(1) have l: "map fst (columns x) = map fst (columns y)"
    by (auto simp: add_fill_def split: if_splits)
  from assms(1) have
    "list_all2 (\<lambda>cd c. and_then (add_series (snd (fst cd)) (snd (snd cd)))
                        (\<lambda>s. Inr (fst (fst cd), s)) = Inr c)
       (zip (columns x) (columns y)) (columns z)"
    by (auto simp: add_fill_def and_then_eq_Inr traverse_eq_Inr split: if_splits)
  moreover have "map_of (columns x) name = Some sx" "map_of (columns y) name = Some sy"
    using assms(2,3) by (simp_all add: getitem_Inr_iff)
  ultimately obtain sz where
    sz: "map_of (columns z) name = Some sz" "add_series sx sy = Inr sz"
    using add_columns_lookup [OF l] by blast
  from add_series_Inr [OF sz(2) assms(4,5)] sz(1) show ?thesis by (simp add: getitem_Inr_iff)
qed

lemma reduce_add_fill_cell:
  "reduce_from add_fill acc fs = Inr summed \<Longrightarrow> getitem acc name = Inr sa \<Longrightarrow>
   length (vals sa) = n \<Longrightarrow>
   (\<And>f. f \<in> set fs \<Longrightarrow> \<exists>s. getitem f name = Inr s \<and> length (vals s) = n) \<Longrightarrow> i < n \<Longrightarrow>
   \<exists>st. getitem summed name = Inr st \<and> length (vals st) = n \<and>
        reduce_from add_cell (vals sa ! i) (map (\<lambda>f. part_of name f ! i) fs) = Inr (vals st ! i)"
proof (induction fs arbitrary: acc sa)
  case Nil
  then show ?case by simp
next
  case (Cons f fs)
  from Cons.prems(1) obtain acc' where
    a: "add_fill acc f = Inr acc'" "reduce_from add_fill acc' fs = Inr summed"
    by (auto simp: and_then_eq_Inr)
  from Cons.prems(4) [of f] obtain s where s: "getitem f name = Inr s" "length (vals s) = n"
    by auto
  from add_fill_cell [OF a(1) Cons.prems(2) s(1) Cons.prems(3) s(2)] obtain sz where
    sz: "getitem acc' name = Inr sz" "length (vals sz) = n"
        "\<forall>i<n. add_cell (vals sa ! i) (vals s ! i) = Inr (vals sz ! i)" by blast
  have "\<And>g. g \<in> set fs \<Longrightarrow> \<exists>s. getitem g name = Inr s \<and> length (vals s) = n"
    using Cons.prems(4) by simp
  from Cons.IH [OF a(2) sz(1,2) this Cons.prems(5)] obtain st where
    st: "getitem summed name = Inr st" "length (vals st) = n"
        "reduce_from add_cell (vals sz ! i) (map (\<lambda>f. part_of name f ! i) fs) = Inr (vals st ! i)"
    by blast
  have "part_of name f = vals s" using s(1) by (simp add: part_of_def getitem_Inr_iff)
  with sz(3) Cons.prems(5) st show ?case by simp
qed

lemma div_columns_lookup:
  "list_all2 (\<lambda>c c'. and_then (traverse (div_cell k) (vals (snd c)))
                        (\<lambda>vs. Inr (fst c, \<lparr>dtype = Number, vals = vs\<rparr>)) = Inr c') cs cs' \<Longrightarrow>
   map_of cs name = Some st \<Longrightarrow>
   \<exists>sd. map_of cs' name = Some sd \<and> traverse (div_cell k) (vals st) = Inr (vals sd)"
proof (induction rule: list_all2_induct)
  case Nil
  then show ?case by simp
next
  case (Cons c cs c' cs')
  from Cons.hyps(1) obtain vs where
    vs: "traverse (div_cell k) (vals (snd c)) = Inr vs" "c' = (fst c, \<lparr>dtype = Number, vals = vs\<rparr>)"
    by (auto simp: and_then_eq_Inr)
  show ?case
  proof (cases "fst c = name")
    case True
    with Cons.prems have "st = snd c" by (cases c) simp
    with True vs show ?thesis by simp
  next
    case False
    with Cons.prems have "map_of cs name = Some st" by (cases c) simp
    from Cons.IH [OF this] False vs(2) show ?thesis by simp
  qed
qed

lemma div_frame_cell:
  assumes "div_frame summed k = Inr X_encoded" and "getitem summed name = Inr st"
    and "i < length (vals st)"
  shows "\<exists>sd. getitem X_encoded name = Inr sd \<and> div_cell k (vals st ! i) = Inr (vals sd ! i)"
proof -
  from assms(1) have
    "list_all2 (\<lambda>c c'. and_then (traverse (div_cell k) (vals (snd c)))
                        (\<lambda>vs. Inr (fst c, \<lparr>dtype = Number, vals = vs\<rparr>)) = Inr c')
       (columns summed) (columns X_encoded)"
    by (auto simp: div_frame_def and_then_eq_Inr traverse_eq_Inr)
  from div_columns_lookup [OF this] assms(2) obtain sd where
    sd: "map_of (columns X_encoded) name = Some sd" "traverse (div_cell k) (vals st) = Inr (vals sd)"
    by (auto simp: getitem_Inr_iff)
  from sd(2) assms(3) have "div_cell k (vals st ! i) = Inr (vals sd ! i)"
    by (auto simp: traverse_eq_Inr list_all2_conv_all_nth)
  with sd(1) show ?thesis by (simp add: getitem_Inr_iff)
qed

lemma selected_column:
  assumes "select_columns (enc_transform enc m T) cs = Inr f" and "keeps_rows enc" and "wf_df T"
    and "name \<in> set cs"
  shows "\<exists>s. getitem f name = Inr s \<and> length (vals s) = nrows T \<and>
             part_of name f = part_of name (enc_transform enc m T)"
proof -
  from assms(2,3) have T: "wf_df (enc_transform enc m T)" "index (enc_transform enc m T) = index T"
    by (simp_all add: keeps_rows_def)
  from select_columns_getitem [OF assms(1,4)] obtain s where
    s: "getitem (enc_transform enc m T) name = Inr s" "getitem f name = Inr s" by blast
  have "length (vals s) = nrows (enc_transform enc m T)" using T(1) s(1) by (rule getitem_wf_length)
  then have "length (vals s) = nrows T" by (simp add: nrows_def T(2))
  with s show ?thesis by (simp add: part_of_def getitem_Inr_iff)
qed

lemma list_all2_map_eq:
  "list_all2 (\<lambda>x y. g y = h x) xs ys \<Longrightarrow> map g ys = map h xs"
  by (induction rule: list_all2_induct) simp_all

lemma transform_cell:
  assumes "transform self T = Inr R" and "fitted_encoders self = Some encs"
    and "cols self = Some cs" and "keeps_rows (encoder self)" and "wf_df T"
    and "i < nrows T" and "name \<in> set cs"
  shows "cell_at R (name @ ''_encoded'') i =
           Some (averaged (map (\<lambda>m. part_of name (enc_transform (encoder self) m T) ! i) encs))"
proof -
  let ?enc = "encoder self"
  from assms(1,2,3) obtain fs summed X_encoded where
    tr: "traverse (\<lambda>m. select_columns (enc_transform ?enc m T) cs) encs = Inr fs" and
    rd: "reduce add_fill fs = Inr summed" and
    dv: "div_frame summed (length fs) = Inr X_encoded" and
    R: "R = add_suffix X_encoded"
    by (auto simp: transform_def and_then_eq_Inr)
  from tr have l: "list_all2 (\<lambda>m f. select_columns (enc_transform ?enc m T) cs = Inr f) encs fs"
    by (simp add: traverse_eq_Inr)
  have col: "\<exists>s. getitem f name = Inr s \<and> length (vals s) = nrows T" if "f \<in> set fs" for f
  proof -
    from list_all2_right_witness [OF l that] obtain m where
      "select_columns (enc_transform ?enc m T) cs = Inr f" by blast
    from selected_column [OF this assms(4,5,7)] show ?thesis by blast
  qed
  have "list_all2 (\<lambda>m f. part_of name f ! i = part_of name (enc_transform ?enc m T) ! i) encs fs"
    using l
  proof (rule list_all2_mono)
    fix m f assume "select_columns (enc_transform ?enc m T) cs = Inr f"
    from selected_column [OF this assms(4,5,7)]
    show "part_of name f ! i = part_of name (enc_transform ?enc m T) ! i" by auto
  qed
  then have cells: "map (\<lambda>f. part_of name f ! i) fs =
                    map (\<lambda>m. part_of name (enc_transform ?enc m T) ! i) encs"
    by (rule list_all2_map_eq)
  from rd obtain x xs where fs: "fs = x # xs" and rf: "reduce_from add_fill x xs = Inr summed"
    by (cases fs) (auto simp: reduce_def)
  from col [of x] fs obtain sa where sa: "getitem x name = Inr sa" "length (vals sa) = nrows T"
    by auto
  have "\<And>f. f \<in> set xs \<Longrightarrow> \<exists>s. getitem f name = Inr s \<and> length (vals s) = nrows T"
    using col fs by simp
  from reduce_add_fill_cell [OF rf sa this assms(6)] obtain st where
    st: "getitem summed name = Inr st" "length (vals st) = nrows T"
        "reduce_from add_cell (vals sa ! i) (map (\<lambda>f. part_of name f ! i) xs) = Inr (vals st ! i)"
    by blast
  from div_frame_cell [OF dv st(1)] st(2) assms(6) obtain sd where
    sd: "getitem X_encoded name = Inr sd" "div_cell (length fs) (vals st ! i) = Inr (vals sd ! i)"
    by auto
  have "part_of name x = vals sa" using sa(1) by (simp add: part_of_def getitem_Inr_iff)
  moreover have "vals sd ! i = averaged (vals sa ! i # map (\<lambda>f. part_of name f ! i) xs)"
    using averaged_cells [OF st(3)] sd(2) by (simp add: fs)
  ultimately have "vals sd ! i = averaged (map (\<lambda>f. part_of name f ! i) fs)" by (simp add: fs)
  then show ?thesis by (simp add: cell_at_def R getitem_add_suffix sd(1) cells)
qed

lemma fit_transform_encoder [simp]: "encoder (fst (fit_transform self X y cs)) = encoder self"
  by (auto simp: fit_transform_def split: sum.splits prod.splits)

text \<open>
  Claim C2, as the code has it. \<open>fit_transform\<close> fits one encoder per fold, each on the
  rows outside its fold, and keeps them. It does not average: the value it returns for
  a row is the transform of that row by the one encoder of the row's fold. It is
  \<open>transform\<close> that averages: for every well-formed frame it is given, the value it
  returns for a row is the average of the per-fold encoders' transforms of that row.
\<close>

theorem cross_fold_encoder_values:
  assumes "snd (fit_transform self X y cs) = Inr E" and "wf_df X" and "keeps_rows (encoder self)"
  shows "\<exists>splits.
           kfold_split (cv self) (nrows X) = Inr splits \<and> length splits = cv self \<and>
           fitted_encoders (fst (fit_transform self X y cs)) =
             Some (map (fold_encoder (encoder self) cs X y) splits) \<and>
           (\<forall>i<nrows X. \<exists>split part.
               split \<in> set splits \<and> i \<in> set (snd split) \<and>
               fold_part (encoder self) cs X y split = Inr part \<and>
               (\<forall>name\<in>set cs.
                  cell_at E (name @ ''_encoded'') i = cell_at part name (i - hd (snd split)))) \<and>
           (\<forall>T R. wf_df T \<and> transform (fst (fit_transform self X y cs)) T = Inr R \<longrightarrow>
               (\<forall>i<nrows T. \<forall>name\<in>set cs.
                  cell_at R (name @ ''_encoded'') i =
                    Some (averaged
                            (map (\<lambda>split. part_of name
                                    (enc_transform (encoder self)
                                       (fold_encoder (encoder self) cs X y split) T) ! i)
                                 splits))))"
proof -
  let ?self' = "fst (fit_transform self X y cs)"
  let ?n = "nrows X"
  let ?ranges = "fold_ranges 0 (fold_sizes (cv self) ?n)"
  from fit_transform_Inr [OF assms(1)] obtain splits where
    k: "kfold_split (cv self) (nrows X) = Inr splits" and
    f: "fitted_encoders ?self' = Some (map (fold_encoder (encoder self) cs X y) splits)" and
    c: "cols ?self' = Some cs"
    by blast
  have len: "length splits = cv self" using k by (rule kfold_split_length)
  have splits: "splits = map (split_of ?n) ?ranges" using kfold_split_Inr [OF k] by simp
  have 1: "\<exists>split part.
               split \<in> set splits \<and> i \<in> set (snd split) \<and>
               fold_part (encoder self) cs X y split = Inr part \<and>
               (\<forall>name\<in>set cs.
                  cell_at E (name @ ''_encoded'') i = cell_at part name (i - hd (snd split)))"
    if i: "i < nrows X" for i
  proof -
    from fit_transform_cell [OF assms i] obtain r part where
      r: "find (\<lambda>r. i < snd r) ?ranges = Some r" "fst r \<le> i" "i < snd r" and
      p: "fold_part (encoder self) cs X y (split_of ?n r) = Inr part" and
      e: "\<forall>name\<in>set cs. cell_at E (name @ ''_encoded'') i = cell_at part name (i - fst r)"
      by blast
    have "hd (snd (split_of ?n r)) = fst r" using r(2,3) by (simp add: split_of_def)
    moreover have "split_of ?n r \<in> set splits" using find_in_set [OF r(1)] by (simp add: splits)
    moreover have "i \<in> set (snd (split_of ?n r))" using split_of_held_out [OF r(2,3)] by simp
    ultimately show ?thesis using p e by metis
  qed
  have 2: "cell_at R (name @ ''_encoded'') i =
                    Some (averaged
                            (map (\<lambda>split. part_of name
                                    (enc_transform (encoder self)
                                       (fold_encoder (encoder self) cs X y split) T) ! i)
                                 splits))"
    if "wf_df T" "transform ?self' T = Inr R" "i < nrows T" "name \<in> set cs" for T R i name
    using transform_cell [OF that(2) f c _ that(1,3,4)] assms(3) by (simp add: o_def)
  from k len f 1 2 show ?thesis by blast
qed

theorem cross_fold_encoder_values_witness:
  "snd (fit_transform (CrossFoldEncoder (m_estimate 1)) ex_scored_codes ex_prices [''Neighborhood''])
     = Inr ex_fold_encoded \<and>
   cv (CrossFoldEncoder (m_estimate 1)) = 5 \<and>
   transform (fst (fit_transform (CrossFoldEncoder (m_estimate 1)) ex_scored_codes ex_prices
                     [''Neighborhood''])) ex_scored_codes = Inr ex_averaged"
proof -
  have t: "transform (fst (fit_transform (CrossFoldEncoder (m_estimate 1)) ex_scored_codes ex_prices
                     [''Neighborhood''])) ex_scored_codes = Inr ex_averaged"
    by code_simp
  from cross_fold_encoder_values [OF ex_fit_transform ex_scored_codes_wf ex_encoder_keeps_rows]
    ex_fit_transform t
  show ?thesis by (simp add: CrossFoldEncoder_def)
qed

text \<open>
  On the five houses \<open>fit_transform\<close> returns 211125 for the first row, the transform by
  the encoder fitted on the other four rows. The five per-fold encoders transform that
  row to 211125, 212500, 201750, 647875/3 and 620375/3, whose mean, 209625, is what
  \<open>transform\<close> returns for the row.
\<close>

theorem fit_transform_not_averaged:
  "snd (fit_transform (CrossFoldEncoder (m_estimate 1)) ex_scored_codes ex_prices [''Neighborhood''])
     = Inr \<lparr>index = [1, 2, 3, 4, 5],
            columns = [(''Neighborhood_encoded'',
               \<lparr>dtype = Number,
                vals = [Num 211125, Num 227750, Num 201750, Num 215875, Num (369875 / 2)]\<rparr>)]\<rparr> \<and>
   transform (fst (fit_transform (CrossFoldEncoder (m_estimate 1)) ex_scored_codes ex_prices
                     [''Neighborhood''])) ex_scored_codes
     = Inr \<lparr>index = [1, 2, 3, 4, 5],
            columns = [(''Neighborhood_encoded'',
               \<lparr>dtype = Number,
                vals = [Num 209625, Num (1256875 / 6), Num 209625, Num (355875 / 2),
                        Num (1256875 / 6)]\<rparr>)]\<rparr>"
  by code_simp

end
